theory Spec2Isabelle
  imports Complex_Main
begin

section \<open>Values of type double\<close>

text \<open>
  A \<open>double\<close> is a finite value or one of the three special values of IEEE 754
  arithmetic that the program can produce by dividing by zero: plus infinity, minus
  infinity and NaN. Finite values are exact real numbers: rounding, overflow of a finite
  result and the sign of zero are outside this model (a zero divisor is taken as \<open>+0\<close>).
  The special values follow IEEE 754: NaN is contagious, \<open>0 * inf\<close>, \<open>inf - inf\<close>,
  \<open>0 / 0\<close> and \<open>inf / inf\<close> are NaN, and every comparison with NaN is false.
\<close>

datatype double = Fin real | PInf | NInf | NaN

fun dneg :: "double \<Rightarrow> double" where
  "dneg (Fin a) = Fin (- a)"
| "dneg PInf = NInf"
| "dneg NInf = PInf"
| "dneg NaN = NaN"

fun dadd :: "double \<Rightarrow> double \<Rightarrow> double" where
  "dadd NaN y = NaN"
| "dadd x NaN = NaN"
| "dadd (Fin a) (Fin b) = Fin (a + b)"
| "dadd PInf NInf = NaN"
| "dadd NInf PInf = NaN"
| "dadd PInf y = PInf"
| "dadd x PInf = PInf"
| "dadd NInf y = NInf"
| "dadd x NInf = NInf"

definition dsub :: "double \<Rightarrow> double \<Rightarrow> double" where
  "dsub x y = dadd x (dneg y)"

text \<open>The sign of an infinite product or quotient: \<open>inf_of True\<close> is plus infinity.\<close>

definition inf_of :: "bool \<Rightarrow> double" where
  "inf_of positive = (if positive then PInf else NInf)"

fun dmul :: "double \<Rightarrow> double \<Rightarrow> double" where
  "dmul NaN y = NaN"
| "dmul x NaN = NaN"
| "dmul (Fin a) (Fin b) = Fin (a * b)"
| "dmul (Fin a) PInf = (if a = 0 then NaN else inf_of (0 < a))"
| "dmul (Fin a) NInf = (if a = 0 then NaN else inf_of (a < 0))"
| "dmul PInf (Fin b) = (if b = 0 then NaN else inf_of (0 < b))"
| "dmul NInf (Fin b) = (if b = 0 then NaN else inf_of (b < 0))"
| "dmul PInf PInf = PInf"
| "dmul PInf NInf = NInf"
| "dmul NInf PInf = NInf"
| "dmul NInf NInf = PInf"

fun ddiv :: "double \<Rightarrow> double \<Rightarrow> double" where
  "ddiv NaN y = NaN"
| "ddiv x NaN = NaN"
| "ddiv (Fin a) (Fin b) =
     (if b = 0 then (if a = 0 then NaN else inf_of (0 < a)) else Fin (a / b))"
| "ddiv (Fin a) PInf = Fin 0"
| "ddiv (Fin a) NInf = Fin 0"
| "ddiv PInf (Fin b) = inf_of (0 \<le> b)"
| "ddiv NInf (Fin b) = inf_of (b < 0)"
| "ddiv PInf PInf = NaN"
| "ddiv PInf NInf = NaN"
| "ddiv NInf PInf = NaN"
| "ddiv NInf NInf = NaN"

text \<open>\<open>pow(x, 2)\<close>: the square, with \<open>pow(\<plusminus>inf, 2) = +inf\<close> and \<open>pow(NaN, 2) = NaN\<close>.\<close>

definition dpow2 :: "double \<Rightarrow> double" where
  "dpow2 x = dmul x x"

text \<open>The comparisons \<open><=\<close>, \<open>>=\<close> and \<open><\<close> of C++ on doubles.\<close>

fun dle :: "double \<Rightarrow> double \<Rightarrow> bool" where
  "dle NaN y = False"
| "dle x NaN = False"
| "dle (Fin a) (Fin b) = (a \<le> b)"
| "dle NInf y = True"
| "dle x PInf = True"
| "dle PInf y = False"
| "dle x NInf = False"

definition dge :: "double \<Rightarrow> double \<Rightarrow> bool" where
  "dge x y = dle y x"

fun dlt :: "double \<Rightarrow> double \<Rightarrow> bool" where
  "dlt NaN y = False"
| "dlt x NaN = False"
| "dlt (Fin a) (Fin b) = (a < b)"
| "dlt PInf y = False"
| "dlt x NInf = False"
| "dlt NInf y = True"
| "dlt x PInf = True"

fun is_finite :: "double \<Rightarrow> bool" where
  "is_finite (Fin a) = True"
| "is_finite x = False"

text \<open>A running total \<open>temp_value = 0; temp_value += x\<close> for each \<open>x\<close> in turn.\<close>

definition dsum :: "double list \<Rightarrow> double" where
  "dsum xs = foldl dadd (Fin 0) xs"

section \<open>Vectors, references and undefined behaviour\<close>

text \<open>
  Every \<open>std::vector<double>\<close> object lives at an address of a store. A parameter of type
  \<open>std::vector<double>&\<close> is an address, so two parameters may name the same object. The
  response matrix \<open>std::vector<std::vector<double>>&\<close> is the list of the addresses of its
  rows: the functions never change the outer vector, only (possibly) the doubles of a row
  that is also passed as another parameter.

  \<open>operator[]\<close> outside the vector is undefined behaviour in C++; the model returns the
  fault \<open>OutOfRange\<close> and stops. The \<open>int\<close> parameters are mathematical integers, so
  \<open>num_bins - 2\<close> for a small \<open>num_bins\<close> is a negative index, which is out of range.
\<close>

datatype fault = OutOfRange

type_synonym addr = nat

type_synonym store = "addr \<Rightarrow> double list"

definition bindE :: "fault + 'a \<Rightarrow> ('a \<Rightarrow> fault + 'b) \<Rightarrow> fault + 'b" where
  "bindE m f = (case m of Inl e \<Rightarrow> Inl e | Inr x \<Rightarrow> f x)"

text \<open>\<open>v[i]\<close> on a vector held by value (a local variable).\<close>

definition vec_at :: "double list \<Rightarrow> int \<Rightarrow> fault + double" where
  "vec_at v i = (if 0 \<le> i \<and> i < int (length v) then Inr (v ! nat i) else Inl OutOfRange)"

text \<open>\<open>v[i]\<close> through a reference \<open>v\<close>.\<close>

definition rd :: "store \<Rightarrow> addr \<Rightarrow> int \<Rightarrow> fault + double" where
  "rd st v i = vec_at (st v) i"

text \<open>\<open>m[i][j]\<close> through a reference \<open>m\<close> to a vector of vectors.\<close>

definition rd2 :: "store \<Rightarrow> addr list \<Rightarrow> int \<Rightarrow> int \<Rightarrow> fault + double" where
  "rd2 st m i j =
     (if 0 \<le> i \<and> i < int (length m) then vec_at (st (m ! nat i)) j else Inl OutOfRange)"

text \<open>\<open>v.push_back(x)\<close>, \<open>v.clear()\<close> and \<open>v[i] = x\<close> through a reference \<open>v\<close>.\<close>

definition push_back :: "store \<Rightarrow> addr \<Rightarrow> double \<Rightarrow> store" where
  "push_back st v x = st(v := st v @ [x])"

definition clear :: "store \<Rightarrow> addr \<Rightarrow> store" where
  "clear st v = st(v := [])"

definition wr :: "store \<Rightarrow> addr \<Rightarrow> int \<Rightarrow> double \<Rightarrow> fault + store" where
  "wr st v i x =
     (if 0 \<le> i \<and> i < int (length (st v)) then Inr (st(v := (st v)[nat i := x]))
      else Inl OutOfRange)"

section \<open>Counting loops\<close>

text \<open>
  \<open>for (int i = lo; i < n; i++) body\<close>, where the body reads \<open>i\<close>, transforms the
  variables it changes (the loop state) and may hit undefined behaviour.
\<close>

function for_loop :: "int \<Rightarrow> int \<Rightarrow> (int \<Rightarrow> 's \<Rightarrow> fault + 's) \<Rightarrow> 's \<Rightarrow> fault + 's" where
  "for_loop i n body s =
     (if i < n then
        (case body i s of Inl e \<Rightarrow> Inl e | Inr s' \<Rightarrow> for_loop (i + 1) n body s')
      else Inr s)"
  by pat_completeness auto
termination
  by (relation "measure (\<lambda>(i, n, body, s). nat (n - i))") auto

declare for_loop.simps [simp del]

section \<open>normalizeResponse\<close>

text \<open>
  The function only reads through \<open>system_response\<close>; it is given the store and returns the
  vector it built, by value, together with the store it leaves behind.
\<close>

definition normalizeResponse ::
    "int \<Rightarrow> int \<Rightarrow> addr list \<Rightarrow> store \<Rightarrow> fault + (double list \<times> store)" where
  "normalizeResponse num_bins num_measurements system_response st =
     bindE
       (for_loop 0 num_bins
          (\<lambda>i_bin normalized_vector.
             bindE
               (for_loop 0 num_measurements
                  (\<lambda>i_meas temp_value.
                     bindE (rd2 st system_response i_meas i_bin)
                       (\<lambda>x. Inr (dadd temp_value x)))
                  (Fin 0))
               (\<lambda>temp_value. Inr (normalized_vector @ [temp_value])))
          [])
       (\<lambda>normalized_vector. Inr (normalized_vector, st))"


section \<open>runMLEM\<close>

text \<open>
  The loops of one iteration, in the order of the source. \<open>mlem_estimate\<close> and
  \<open>mlem_correction\<close> are local vectors, held by value; \<open>mlem_ratio\<close> and \<open>spectrum\<close>
  are changed through their references.
\<close>

definition mlem_estimate_loop ::
    "int \<Rightarrow> int \<Rightarrow> addr list \<Rightarrow> addr \<Rightarrow> store \<Rightarrow> fault + double list" where
  "mlem_estimate_loop num_measurements num_bins nns_response spectrum st =
     for_loop 0 num_measurements
       (\<lambda>i_meas mlem_estimate.
          bindE
            (for_loop 0 num_bins
               (\<lambda>i_bin temp_value.
                  bindE (rd2 st nns_response i_meas i_bin) (\<lambda>r.
                  bindE (rd st spectrum i_bin) (\<lambda>s.
                  Inr (dadd temp_value (dmul r s)))))
               (Fin 0))
            (\<lambda>temp_value. Inr (mlem_estimate @ [temp_value])))
       []"

definition mlem_ratio_loop ::
    "int \<Rightarrow> addr \<Rightarrow> double list \<Rightarrow> addr \<Rightarrow> store \<Rightarrow> fault + store" where
  "mlem_ratio_loop num_measurements measurements mlem_estimate mlem_ratio st =
     for_loop 0 num_measurements
       (\<lambda>i_meas st.
          bindE (rd st measurements i_meas) (\<lambda>y.
          bindE (vec_at mlem_estimate i_meas) (\<lambda>e.
          Inr (push_back st mlem_ratio (ddiv y e)))))
       st"

definition mlem_correction_loop ::
    "int \<Rightarrow> int \<Rightarrow> addr list \<Rightarrow> addr \<Rightarrow> store \<Rightarrow> fault + double list" where
  "mlem_correction_loop num_measurements num_bins nns_response mlem_ratio st =
     for_loop 0 num_bins
       (\<lambda>i_bin mlem_correction.
          bindE
            (for_loop 0 num_measurements
               (\<lambda>i_meas temp_value.
                  bindE (rd2 st nns_response i_meas i_bin) (\<lambda>r.
                  bindE (rd st mlem_ratio i_meas) (\<lambda>q.
                  Inr (dadd temp_value (dmul r q)))))
               (Fin 0))
            (\<lambda>temp_value. Inr (mlem_correction @ [temp_value])))
       []"

definition mlem_update_loop ::
    "int \<Rightarrow> addr \<Rightarrow> double list \<Rightarrow> addr \<Rightarrow> store \<Rightarrow> fault + store" where
  "mlem_update_loop num_bins spectrum mlem_correction normalized_response st =
     for_loop 0 num_bins
       (\<lambda>i_bin st.
          bindE (rd st spectrum i_bin) (\<lambda>s.
          bindE (vec_at mlem_correction i_bin) (\<lambda>c.
          bindE (rd st normalized_response i_bin) (\<lambda>n.
          wr st spectrum i_bin (ddiv (dmul s c) n)))))
       st"

text \<open>
  The test that sets \<open>continue_mlem\<close>: the first ratio with
  \<open>mlem_ratio[i_meas] >= (1+error) || mlem_ratio[i_meas] <= (1-error)\<close> sets it and leaves
  the loop.
\<close>

definition outside_tolerance :: "double \<Rightarrow> double \<Rightarrow> bool" where
  "outside_tolerance error r \<longleftrightarrow> dge r (dadd (Fin 1) error) \<or> dle r (dsub (Fin 1) error)"

function continue_mlem_loop :: "double \<Rightarrow> int \<Rightarrow> addr \<Rightarrow> store \<Rightarrow> int \<Rightarrow> fault + bool" where
  "continue_mlem_loop error num_measurements mlem_ratio st i_meas =
     (if i_meas < num_measurements then
        (case rd st mlem_ratio i_meas of
           Inl e \<Rightarrow> Inl e
         | Inr r \<Rightarrow>
             if outside_tolerance error r then Inr True
             else continue_mlem_loop error num_measurements mlem_ratio st (i_meas + 1))
      else Inr False)"
  by pat_completeness auto
termination
  by (relation "measure (\<lambda>(error, num_measurements, mlem_ratio, st, i_meas).
        nat (num_measurements - i_meas))") auto

declare continue_mlem_loop.simps [simp del]

text \<open>One pass through the body of the main loop: the new store and \<open>continue_mlem\<close>.\<close>

definition mlem_iteration ::
    "double \<Rightarrow> int \<Rightarrow> int \<Rightarrow> addr \<Rightarrow> addr \<Rightarrow> addr list \<Rightarrow> addr \<Rightarrow> addr \<Rightarrow> store
     \<Rightarrow> fault + (bool \<times> store)" where
  "mlem_iteration error num_measurements num_bins measurements spectrum nns_response
       normalized_response mlem_ratio st =
     (let st = clear st mlem_ratio in
      bindE (mlem_estimate_loop num_measurements num_bins nns_response spectrum st)
        (\<lambda>mlem_estimate.
      bindE (mlem_ratio_loop num_measurements measurements mlem_estimate mlem_ratio st)
        (\<lambda>st.
      bindE (mlem_correction_loop num_measurements num_bins nns_response mlem_ratio st)
        (\<lambda>mlem_correction.
      bindE (mlem_update_loop num_bins spectrum mlem_correction normalized_response st)
        (\<lambda>st.
      bindE (continue_mlem_loop error num_measurements mlem_ratio st 0)
        (\<lambda>continue_mlem.
      Inr (continue_mlem, st)))))))"

text \<open>
  The main loop from \<open>mlem_index\<close> on; \<open>break\<close> and the end of the loop both return the
  current \<open>mlem_index\<close>.
\<close>

function mlem_loop ::
    "int \<Rightarrow> double \<Rightarrow> int \<Rightarrow> int \<Rightarrow> addr \<Rightarrow> addr \<Rightarrow> addr list \<Rightarrow> addr \<Rightarrow> addr \<Rightarrow> int \<Rightarrow> store
     \<Rightarrow> fault + (int \<times> store)" where
  "mlem_loop cutoff error num_measurements num_bins measurements spectrum nns_response
       normalized_response mlem_ratio mlem_index st =
     (if mlem_index < cutoff then
        (case mlem_iteration error num_measurements num_bins measurements spectrum
                nns_response normalized_response mlem_ratio st of
           Inl e \<Rightarrow> Inl e
         | Inr r \<Rightarrow>
             if \<not> fst r then Inr (mlem_index, snd r)
             else mlem_loop cutoff error num_measurements num_bins measurements spectrum
                    nns_response normalized_response mlem_ratio (mlem_index + 1) (snd r))
      else Inr (mlem_index, st))"
  by pat_completeness auto
termination
  by (relation "measure (\<lambda>(cutoff, error, num_measurements, num_bins, measurements,
        spectrum, nns_response, normalized_response, mlem_ratio, mlem_index, st).
        nat (cutoff - mlem_index))") auto

declare mlem_loop.simps [simp del]

definition runMLEM ::
    "int \<Rightarrow> double \<Rightarrow> int \<Rightarrow> int \<Rightarrow> addr \<Rightarrow> addr \<Rightarrow> addr list \<Rightarrow> addr \<Rightarrow> addr \<Rightarrow> store
     \<Rightarrow> fault + (int \<times> store)" where
  "runMLEM cutoff error num_measurements num_bins measurements spectrum nns_response
       normalized_response mlem_ratio st =
     mlem_loop cutoff error num_measurements num_bins measurements spectrum nns_response
       normalized_response mlem_ratio 0 st"

section \<open>runMAP\<close>

text \<open>
  The energy correction: the vector is cleared, then filled with the term of the first bin,
  the terms of the bins \<open>1 .. num_bins - 2\<close> and the term of the last bin.
\<close>

definition energy_correction_loop ::
    "addr \<Rightarrow> double \<Rightarrow> int \<Rightarrow> addr \<Rightarrow> store \<Rightarrow> fault + store" where
  "energy_correction_loop energy_correction beta num_bins spectrum st =
     (let st = clear st energy_correction in
      bindE (rd st spectrum 0) (\<lambda>s0.
      bindE (rd st spectrum 1) (\<lambda>s1.
      let st = push_back st energy_correction (dmul beta (dpow2 (dsub s0 s1))) in
      bindE
        (for_loop 1 (num_bins - 1)
           (\<lambda>i_bin st.
              bindE (rd st spectrum i_bin) (\<lambda>s.
              bindE (rd st spectrum (i_bin - 1)) (\<lambda>sl.
              bindE (rd st spectrum (i_bin + 1)) (\<lambda>sr.
              Inr (push_back st energy_correction
                     (dmul beta (dadd (dpow2 (dsub s sl)) (dpow2 (dsub s sr)))))))))
           st)
        (\<lambda>st.
      bindE (rd st spectrum (num_bins - 1)) (\<lambda>sn1.
      bindE (rd st spectrum (num_bins - 2)) (\<lambda>sn2.
      Inr (push_back st energy_correction (dmul beta (dpow2 (dsub sn1 sn2))))))))))"

definition map_update_loop ::
    "int \<Rightarrow> addr \<Rightarrow> double list \<Rightarrow> addr \<Rightarrow> addr \<Rightarrow> store \<Rightarrow> fault + store" where
  "map_update_loop num_bins spectrum mlem_correction normalized_response energy_correction st =
     for_loop 0 num_bins
       (\<lambda>i_bin st.
          bindE (rd st spectrum i_bin) (\<lambda>s.
          bindE (vec_at mlem_correction i_bin) (\<lambda>c.
          bindE (rd st normalized_response i_bin) (\<lambda>n.
          bindE (rd st energy_correction i_bin) (\<lambda>e.
          wr st spectrum i_bin (ddiv (dmul s c) (dadd n e)))))))
       st"

definition map_iteration ::
    "addr \<Rightarrow> double \<Rightarrow> double \<Rightarrow> int \<Rightarrow> int \<Rightarrow> addr \<Rightarrow> addr \<Rightarrow> addr list \<Rightarrow> addr \<Rightarrow> addr \<Rightarrow> store
     \<Rightarrow> fault + (bool \<times> store)" where
  "map_iteration energy_correction beta error num_measurements num_bins measurements spectrum
       nns_response normalized_response mlem_ratio st =
     (let st = clear st mlem_ratio in
      bindE (mlem_estimate_loop num_measurements num_bins nns_response spectrum st)
        (\<lambda>mlem_estimate.
      bindE (mlem_ratio_loop num_measurements measurements mlem_estimate mlem_ratio st)
        (\<lambda>st.
      bindE (mlem_correction_loop num_measurements num_bins nns_response mlem_ratio st)
        (\<lambda>mlem_correction.
      bindE (energy_correction_loop energy_correction beta num_bins spectrum st)
        (\<lambda>st.
      bindE (map_update_loop num_bins spectrum mlem_correction normalized_response
               energy_correction st)
        (\<lambda>st.
      bindE (continue_mlem_loop error num_measurements mlem_ratio st 0)
        (\<lambda>continue_mlem.
      Inr (continue_mlem, st))))))))"

function map_loop ::
    "addr \<Rightarrow> double \<Rightarrow> int \<Rightarrow> double \<Rightarrow> int \<Rightarrow> int \<Rightarrow> addr \<Rightarrow> addr \<Rightarrow> addr list \<Rightarrow> addr \<Rightarrow> addr
     \<Rightarrow> int \<Rightarrow> store \<Rightarrow> fault + (int \<times> store)" where
  "map_loop energy_correction beta cutoff error num_measurements num_bins measurements
       spectrum nns_response normalized_response mlem_ratio mlem_index st =
     (if mlem_index < cutoff then
        (case map_iteration energy_correction beta error num_measurements num_bins
                measurements spectrum nns_response normalized_response mlem_ratio st of
           Inl e \<Rightarrow> Inl e
         | Inr r \<Rightarrow>
             if \<not> fst r then Inr (mlem_index, snd r)
             else map_loop energy_correction beta cutoff error num_measurements num_bins
                    measurements spectrum nns_response normalized_response mlem_ratio
                    (mlem_index + 1) (snd r))
      else Inr (mlem_index, st))"
  by pat_completeness auto
termination
  by (relation "measure (\<lambda>(energy_correction, beta, cutoff, error, num_measurements,
        num_bins, measurements, spectrum, nns_response, normalized_response, mlem_ratio,
        mlem_index, st). nat (cutoff - mlem_index))") auto

declare map_loop.simps [simp del]

definition runMAP ::
    "addr \<Rightarrow> double \<Rightarrow> int \<Rightarrow> double \<Rightarrow> int \<Rightarrow> int \<Rightarrow> addr \<Rightarrow> addr \<Rightarrow> addr list \<Rightarrow> addr \<Rightarrow> addr
     \<Rightarrow> store \<Rightarrow> fault + (int \<times> store)" where
  "runMAP energy_correction beta cutoff error num_measurements num_bins measurements spectrum
       nns_response normalized_response mlem_ratio st =
     map_loop energy_correction beta cutoff error num_measurements num_bins measurements
       spectrum nns_response normalized_response mlem_ratio 0 st"

section \<open>The specification's formulas\<close>

text \<open>
  The formulas of the specification, on vectors and matrices held by value and indexed
  from 0, for \<open>nm\<close> measurements and \<open>nb\<close> bins. The loops of the source are compared with
  them below.
\<close>

definition matrix :: "store \<Rightarrow> addr list \<Rightarrow> double list list" where
  "matrix st rows = map st rows"

text \<open>Entry \<open>i\<close> is the sum over all measurements \<open>m\<close> of \<open>ResponseMatrix[m][i]\<close>.\<close>

definition spec_column_sums :: "double list list \<Rightarrow> nat \<Rightarrow> nat \<Rightarrow> double list" where
  "spec_column_sums R nm nb = map (\<lambda>i. dsum (map (\<lambda>m. R ! m ! i) [0..<nm])) [0..<nb]"

text \<open>\<open>estimated[m] = \<Sum>b. ResponseMatrix[m][b] * spectrum[b]\<close>.\<close>

definition spec_estimated :: "double list list \<Rightarrow> double list \<Rightarrow> nat \<Rightarrow> nat \<Rightarrow> double list" where
  "spec_estimated R s nm nb =
     map (\<lambda>m. dsum (map (\<lambda>b. dmul (R ! m ! b) (s ! b)) [0..<nb])) [0..<nm]"

text \<open>\<open>ratio[m] = measured[m] / estimated[m]\<close>.\<close>

definition spec_ratio :: "double list \<Rightarrow> double list \<Rightarrow> nat \<Rightarrow> double list" where
  "spec_ratio measured estimated nm = map (\<lambda>m. ddiv (measured ! m) (estimated ! m)) [0..<nm]"

text \<open>\<open>correction[b] = \<Sum>m. ResponseMatrix[m][b] * ratio[m]\<close>.\<close>

definition spec_correction :: "double list list \<Rightarrow> double list \<Rightarrow> nat \<Rightarrow> nat \<Rightarrow> double list" where
  "spec_correction R ratio nm nb =
     map (\<lambda>b. dsum (map (\<lambda>m. dmul (R ! m ! b) (ratio ! m)) [0..<nm])) [0..<nb]"

text \<open>\<open>spectrum[b] = spectrum[b] * correction[b] / normalization[b]\<close>.\<close>

definition spec_update :: "double list \<Rightarrow> double list \<Rightarrow> double list \<Rightarrow> nat \<Rightarrow> double list" where
  "spec_update s correction normalization nb =
     map (\<lambda>b. ddiv (dmul (s ! b) (correction ! b)) (normalization ! b)) [0..<nb]"

text \<open>
  The energy correction of the first bin, of the bins \<open>1 .. nb - 2\<close> and of the last bin,
  for \<open>nb \<ge> 2\<close>.
\<close>

definition spec_energy_correction :: "double \<Rightarrow> double list \<Rightarrow> nat \<Rightarrow> double list" where
  "spec_energy_correction beta s nb =
     map (\<lambda>b.
       if b = 0 then dmul beta (dpow2 (dsub (s ! 0) (s ! 1)))
       else if b = nb - 1 then dmul beta (dpow2 (dsub (s ! (nb - 1)) (s ! (nb - 2))))
       else dmul beta (dadd (dpow2 (dsub (s ! b) (s ! (b - 1))))
                            (dpow2 (dsub (s ! b) (s ! (b + 1))))))
       [0..<nb]"

text \<open>
  \<open>spectrum[b] = spectrum[b] * correction[b] / (normalization[b] + energy_correction[b])\<close>.
\<close>

definition spec_map_update ::
    "double list \<Rightarrow> double list \<Rightarrow> double list \<Rightarrow> double list \<Rightarrow> nat \<Rightarrow> double list" where
  "spec_map_update s correction normalization energy nb =
     map (\<lambda>b. ddiv (dmul (s ! b) (correction ! b)) (dadd (normalization ! b) (energy ! b)))
       [0..<nb]"

text \<open>The ratios and corrections of the iteration that starts in a store.\<close>

definition ratio_of :: "int \<Rightarrow> int \<Rightarrow> addr \<Rightarrow> addr \<Rightarrow> addr list \<Rightarrow> store \<Rightarrow> double list" where
  "ratio_of num_measurements num_bins measurements spectrum nns_response st =
     spec_ratio (st measurements)
       (spec_estimated (matrix st nns_response) (st spectrum)
          (nat num_measurements) (nat num_bins))
       (nat num_measurements)"

definition correction_of :: "int \<Rightarrow> int \<Rightarrow> addr \<Rightarrow> addr \<Rightarrow> addr list \<Rightarrow> store \<Rightarrow> double list" where
  "correction_of num_measurements num_bins measurements spectrum nns_response st =
     spec_correction (matrix st nns_response)
       (ratio_of num_measurements num_bins measurements spectrum nns_response st)
       (nat num_measurements) (nat num_bins)"

text \<open>
  The store after one iteration according to these formulas: the ratio vector is replaced,
  then (for MAP) the energy correction vector, then the spectrum.
\<close>

definition spec_mlem_step ::
    "int \<Rightarrow> int \<Rightarrow> addr \<Rightarrow> addr \<Rightarrow> addr list \<Rightarrow> addr \<Rightarrow> addr \<Rightarrow> store \<Rightarrow> store" where
  "spec_mlem_step num_measurements num_bins measurements spectrum nns_response
       normalized_response mlem_ratio st =
     st(mlem_ratio :=
          ratio_of num_measurements num_bins measurements spectrum nns_response st,
        spectrum :=
          spec_update (st spectrum)
            (correction_of num_measurements num_bins measurements spectrum nns_response st)
            (st normalized_response) (nat num_bins))"

definition spec_map_step ::
    "addr \<Rightarrow> double \<Rightarrow> int \<Rightarrow> int \<Rightarrow> addr \<Rightarrow> addr \<Rightarrow> addr list \<Rightarrow> addr \<Rightarrow> addr \<Rightarrow> store
     \<Rightarrow> store" where
  "spec_map_step energy_correction beta num_measurements num_bins measurements spectrum
       nns_response normalized_response mlem_ratio st =
     st(mlem_ratio :=
          ratio_of num_measurements num_bins measurements spectrum nns_response st,
        energy_correction := spec_energy_correction beta (st spectrum) (nat num_bins),
        spectrum :=
          spec_map_update (st spectrum)
            (correction_of num_measurements num_bins measurements spectrum nns_response st)
            (st normalized_response)
            (spec_energy_correction beta (st spectrum) (nat num_bins)) (nat num_bins))"

text \<open>
  A zero spectrum entry stays zero in an update \<open>0 * correction / denominator\<close> when the
  correction is finite and the denominator is neither zero nor NaN.
\<close>

fun nonzero :: "double \<Rightarrow> bool" where
  "nonzero (Fin a) = (a \<noteq> 0)"
| "nonzero NaN = False"
| "nonzero x = True"

definition mlem_keeps_zero ::
    "int \<Rightarrow> int \<Rightarrow> addr \<Rightarrow> addr \<Rightarrow> addr list \<Rightarrow> addr \<Rightarrow> nat \<Rightarrow> store \<Rightarrow> bool" where
  "mlem_keeps_zero num_measurements num_bins measurements spectrum nns_response
       normalized_response b st \<longleftrightarrow>
     is_finite
       (correction_of num_measurements num_bins measurements spectrum nns_response st ! b) \<and>
     nonzero (st normalized_response ! b)"

definition map_keeps_zero ::
    "double \<Rightarrow> int \<Rightarrow> int \<Rightarrow> addr \<Rightarrow> addr \<Rightarrow> addr list \<Rightarrow> addr \<Rightarrow> nat \<Rightarrow> store \<Rightarrow> bool" where
  "map_keeps_zero beta num_measurements num_bins measurements spectrum nns_response
       normalized_response b st \<longleftrightarrow>
     is_finite
       (correction_of num_measurements num_bins measurements spectrum nns_response st ! b) \<and>
     nonzero (dadd (st normalized_response ! b)
                (spec_energy_correction beta (st spectrum) (nat num_bins) ! b))"

section \<open>Well-formed calls\<close>

text \<open>
  The vectors have the lengths the two counts announce: \<open>num_measurements\<close> measurements
  and rows, \<open>num_bins\<close> entries in the spectrum, in the normalization vector and in every
  row.
\<close>

definition dimensions ::
    "int \<Rightarrow> int \<Rightarrow> addr \<Rightarrow> addr \<Rightarrow> addr list \<Rightarrow> addr \<Rightarrow> store \<Rightarrow> bool" where
  "dimensions num_measurements num_bins measurements spectrum nns_response
       normalized_response st \<longleftrightarrow>
     int (length (st measurements)) = num_measurements \<and>
     int (length nns_response) = num_measurements \<and>
     list_all (\<lambda>row. int (length (st row)) = num_bins) nns_response \<and>
     int (length (st spectrum)) = num_bins \<and>
     int (length (st normalized_response)) = num_bins"

text \<open>
  The vectors a function writes are objects of their own: none of them is another written
  vector, the measurements, the normalization vector or a row of the response matrix.
\<close>

definition separate :: "addr list \<Rightarrow> addr list \<Rightarrow> bool" where
  "separate written others \<longleftrightarrow> distinct written \<and> list_all (\<lambda>a. a \<notin> set others) written"

definition mlem_separate :: "addr \<Rightarrow> addr \<Rightarrow> addr list \<Rightarrow> addr \<Rightarrow> addr \<Rightarrow> bool" where
  "mlem_separate measurements spectrum nns_response normalized_response mlem_ratio \<longleftrightarrow>
     separate [spectrum, mlem_ratio] (measurements # normalized_response # nns_response)"

definition map_separate :: "addr \<Rightarrow> addr \<Rightarrow> addr \<Rightarrow> addr list \<Rightarrow> addr \<Rightarrow> addr \<Rightarrow> bool" where
  "map_separate energy_correction measurements spectrum nns_response normalized_response
       mlem_ratio \<longleftrightarrow>
     separate [spectrum, mlem_ratio, energy_correction]
       (measurements # normalized_response # nns_response)"

section \<open>Properties of every executed iteration\<close>

text \<open>
  \<open>mlem_each_iteration Q\<close> says that \<open>Q\<close> holds of the store at the start of every iteration
  that \<open>runMLEM\<close> executes from \<open>mlem_index\<close> on; \<open>map_each_iteration Q\<close> is the same for
  \<open>runMAP\<close>.
\<close>

function mlem_each_iteration ::
    "(store \<Rightarrow> bool) \<Rightarrow> int \<Rightarrow> double \<Rightarrow> int \<Rightarrow> int \<Rightarrow> addr \<Rightarrow> addr \<Rightarrow> addr list \<Rightarrow> addr \<Rightarrow> addr
     \<Rightarrow> int \<Rightarrow> store \<Rightarrow> bool" where
  "mlem_each_iteration Q cutoff error num_measurements num_bins measurements spectrum
       nns_response normalized_response mlem_ratio mlem_index st =
     (if mlem_index < cutoff then
        Q st \<and>
        (case mlem_iteration error num_measurements num_bins measurements spectrum
                nns_response normalized_response mlem_ratio st of
           Inl e \<Rightarrow> True
         | Inr r \<Rightarrow>
             if \<not> fst r then True
             else mlem_each_iteration Q cutoff error num_measurements num_bins measurements
                    spectrum nns_response normalized_response mlem_ratio (mlem_index + 1)
                    (snd r))
      else True)"
  by pat_completeness auto
termination
  by (relation "measure (\<lambda>(Q, cutoff, error, num_measurements, num_bins, measurements,
        spectrum, nns_response, normalized_response, mlem_ratio, mlem_index, st).
        nat (cutoff - mlem_index))") auto

declare mlem_each_iteration.simps [simp del]

function map_each_iteration ::
    "(store \<Rightarrow> bool) \<Rightarrow> addr \<Rightarrow> double \<Rightarrow> int \<Rightarrow> double \<Rightarrow> int \<Rightarrow> int \<Rightarrow> addr \<Rightarrow> addr \<Rightarrow> addr list
     \<Rightarrow> addr \<Rightarrow> addr \<Rightarrow> int \<Rightarrow> store \<Rightarrow> bool" where
  "map_each_iteration Q energy_correction beta cutoff error num_measurements num_bins
       measurements spectrum nns_response normalized_response mlem_ratio mlem_index st =
     (if mlem_index < cutoff then
        Q st \<and>
        (case map_iteration energy_correction beta error num_measurements num_bins
                measurements spectrum nns_response normalized_response mlem_ratio st of
           Inl e \<Rightarrow> True
         | Inr r \<Rightarrow>
             if \<not> fst r then True
             else map_each_iteration Q energy_correction beta cutoff error num_measurements
                    num_bins measurements spectrum nns_response normalized_response
                    mlem_ratio (mlem_index + 1) (snd r))
      else True)"
  by pat_completeness auto
termination
  by (relation "measure (\<lambda>(Q, energy_correction, beta, cutoff, error, num_measurements,
        num_bins, measurements, spectrum, nns_response, normalized_response, mlem_ratio,
        mlem_index, st). nat (cutoff - mlem_index))") auto

declare map_each_iteration.simps [simp del]


section \<open>The iterations one after the other\<close>

text \<open>
  \<open>mlem_after ... n st\<close> is the store after \<open>n\<close> passes through the body of the main loop
  of \<open>runMLEM\<close> from the store \<open>st\<close>, whatever the tests say. The convergence test of
  iteration \<open>j\<close> (counted from 0) is the test at the end of the pass that starts in
  \<open>mlem_after ... j st\<close>: \<open>mlem_continues\<close> says that it sets \<open>continue_mlem\<close>,
  \<open>mlem_converges\<close> that it leaves it unset. \<open>map_after\<close>, \<open>map_continues\<close> and
  \<open>map_converges\<close> are the same for \<open>runMAP\<close>.
\<close>

fun mlem_after ::
    "double \<Rightarrow> int \<Rightarrow> int \<Rightarrow> addr \<Rightarrow> addr \<Rightarrow> addr list \<Rightarrow> addr \<Rightarrow> addr \<Rightarrow> nat \<Rightarrow> store
     \<Rightarrow> fault + store" where
  "mlem_after error num_measurements num_bins measurements spectrum nns_response
       normalized_response mlem_ratio 0 st = Inr st"
| "mlem_after error num_measurements num_bins measurements spectrum nns_response
       normalized_response mlem_ratio (Suc n) st =
     bindE (mlem_iteration error num_measurements num_bins measurements spectrum
              nns_response normalized_response mlem_ratio st)
       (\<lambda>r. mlem_after error num_measurements num_bins measurements spectrum nns_response
              normalized_response mlem_ratio n (snd r))"

definition mlem_continues ::
    "double \<Rightarrow> int \<Rightarrow> int \<Rightarrow> addr \<Rightarrow> addr \<Rightarrow> addr list \<Rightarrow> addr \<Rightarrow> addr \<Rightarrow> nat \<Rightarrow> store
     \<Rightarrow> bool" where
  "mlem_continues error num_measurements num_bins measurements spectrum nns_response
       normalized_response mlem_ratio j st =
     (case bindE (mlem_after error num_measurements num_bins measurements spectrum
                    nns_response normalized_response mlem_ratio j st)
             (mlem_iteration error num_measurements num_bins measurements spectrum
                nns_response normalized_response mlem_ratio) of
        Inl e \<Rightarrow> False
      | Inr r \<Rightarrow> fst r)"

definition mlem_converges ::
    "double \<Rightarrow> int \<Rightarrow> int \<Rightarrow> addr \<Rightarrow> addr \<Rightarrow> addr list \<Rightarrow> addr \<Rightarrow> addr \<Rightarrow> nat \<Rightarrow> store
     \<Rightarrow> bool" where
  "mlem_converges error num_measurements num_bins measurements spectrum nns_response
       normalized_response mlem_ratio j st =
     (case bindE (mlem_after error num_measurements num_bins measurements spectrum
                    nns_response normalized_response mlem_ratio j st)
             (mlem_iteration error num_measurements num_bins measurements spectrum
                nns_response normalized_response mlem_ratio) of
        Inl e \<Rightarrow> False
      | Inr r \<Rightarrow> \<not> fst r)"

fun map_after ::
    "addr \<Rightarrow> double \<Rightarrow> double \<Rightarrow> int \<Rightarrow> int \<Rightarrow> addr \<Rightarrow> addr \<Rightarrow> addr list \<Rightarrow> addr \<Rightarrow> addr \<Rightarrow> nat
     \<Rightarrow> store \<Rightarrow> fault + store" where
  "map_after energy_correction beta error num_measurements num_bins measurements spectrum
       nns_response normalized_response mlem_ratio 0 st = Inr st"
| "map_after energy_correction beta error num_measurements num_bins measurements spectrum
       nns_response normalized_response mlem_ratio (Suc n) st =
     bindE (map_iteration energy_correction beta error num_measurements num_bins
              measurements spectrum nns_response normalized_response mlem_ratio st)
       (\<lambda>r. map_after energy_correction beta error num_measurements num_bins measurements
              spectrum nns_response normalized_response mlem_ratio n (snd r))"

definition map_continues ::
    "addr \<Rightarrow> double \<Rightarrow> double \<Rightarrow> int \<Rightarrow> int \<Rightarrow> addr \<Rightarrow> addr \<Rightarrow> addr list \<Rightarrow> addr \<Rightarrow> addr \<Rightarrow> nat
     \<Rightarrow> store \<Rightarrow> bool" where
  "map_continues energy_correction beta error num_measurements num_bins measurements
       spectrum nns_response normalized_response mlem_ratio j st =
     (case bindE (map_after energy_correction beta error num_measurements num_bins
                    measurements spectrum nns_response normalized_response mlem_ratio j st)
             (map_iteration energy_correction beta error num_measurements num_bins
                measurements spectrum nns_response normalized_response mlem_ratio) of
        Inl e \<Rightarrow> False
      | Inr r \<Rightarrow> fst r)"

definition map_converges ::
    "addr \<Rightarrow> double \<Rightarrow> double \<Rightarrow> int \<Rightarrow> int \<Rightarrow> addr \<Rightarrow> addr \<Rightarrow> addr list \<Rightarrow> addr \<Rightarrow> addr \<Rightarrow> nat
     \<Rightarrow> store \<Rightarrow> bool" where
  "map_converges energy_correction beta error num_measurements num_bins measurements
       spectrum nns_response normalized_response mlem_ratio j st =
     (case bindE (map_after energy_correction beta error num_measurements num_bins
                    measurements spectrum nns_response normalized_response mlem_ratio j st)
             (map_iteration energy_correction beta error num_measurements num_bins
                measurements spectrum nns_response normalized_response mlem_ratio) of
        Inl e \<Rightarrow> False
      | Inr r \<Rightarrow> \<not> fst r)"

section \<open>When beta = 0 changes nothing\<close>


section \<open>Counting loops compute what their bodies say\<close>

lemma bindE_Inr [simp]: "bindE (Inr x) f = f x"
  by (simp add: bindE_def)

lemma bindE_Inl [simp]: "bindE (Inl e) f = Inl e"
  by (simp add: bindE_def)

lemma for_loop_step: "i < n \<Longrightarrow> for_loop i n body s = bindE (body i s) (for_loop (i + 1) n body)"
  by (subst for_loop.simps) (simp add: bindE_def)

lemma for_loop_done: "\<not> i < n \<Longrightarrow> for_loop i n body s = Inr s"
  by (subst for_loop.simps) simp

lemma for_loop_exact:
  assumes "\<And>j. i \<le> j \<Longrightarrow> j < n \<Longrightarrow> body j (F j) = Inr (F (j + 1))"
  shows "for_loop i n body (F i) = Inr (F (max i n))"
  using assms
proof (induction "nat (n - i)" arbitrary: i)
  case 0
  then show ?case by (simp add: for_loop_done max_def)
next
  case (Suc k)
  then have lt: "i < n" by linarith
  have k: "k = nat (n - (i + 1))" using Suc.hyps(2) by linarith
  have "for_loop (i + 1) n body (F (i + 1)) = Inr (F (max (i + 1) n))"
    by (rule Suc.hyps(1) [OF k]) (simp add: Suc.prems)
  with lt Suc.prems [of i] show ?case
    by (simp add: for_loop_step max_def)
qed

lemma upt_nat_Suc: "0 \<le> j \<Longrightarrow> [0..<nat (j + 1)] = [0..<nat j] @ [nat j]"
  by (simp add: nat_add_distrib)

lemma sum_loop:
  assumes "\<And>j. 0 \<le> j \<Longrightarrow> j < n \<Longrightarrow> g j = Inr (f (nat j))"
  shows "for_loop 0 n (\<lambda>i t. bindE (g i) (\<lambda>x. Inr (dadd t x))) (Fin 0)
           = Inr (dsum (map f [0..<nat n]))"
proof -
  have "for_loop 0 n (\<lambda>i t. bindE (g i) (\<lambda>x. Inr (dadd t x))) (dsum (map f [0..<nat 0]))
          = Inr (dsum (map f [0..<nat (max 0 n)]))"
    by (rule for_loop_exact [where F = "\<lambda>j. dsum (map f [0..<nat j])"])
       (simp add: assms upt_nat_Suc dsum_def)
  then show ?thesis by (simp add: dsum_def max_def)
qed

lemma push_loop:
  assumes "\<And>j. 0 \<le> j \<Longrightarrow> j < n \<Longrightarrow> g j = Inr (f (nat j))"
  shows "for_loop 0 n (\<lambda>i v. bindE (g i) (\<lambda>x. Inr (v @ [x]))) [] = Inr (map f [0..<nat n])"
proof -
  have "for_loop 0 n (\<lambda>i v. bindE (g i) (\<lambda>x. Inr (v @ [x]))) (map f [0..<nat 0])
          = Inr (map f [0..<nat (max 0 n)])"
    by (rule for_loop_exact [where F = "\<lambda>j. map f [0..<nat j]"])
       (simp add: assms upt_nat_Suc)
  then show ?thesis by (simp add: max_def)
qed

section \<open>The loops of the source and the formulas of the specification\<close>

lemma vec_at_ok: "0 \<le> i \<Longrightarrow> i < int (length v) \<Longrightarrow> vec_at v i = Inr (v ! nat i)"
  by (simp add: vec_at_def)

lemma rd_ok: "0 \<le> i \<Longrightarrow> i < int (length (st v)) \<Longrightarrow> rd st v i = Inr (st v ! nat i)"
  by (simp add: rd_def vec_at_def)

lemma rd2_ok:
  assumes "int (length m) = nm" "list_all (\<lambda>row. int (length (st row)) = nb) m"
    and "0 \<le> i" "i < nm" "0 \<le> j" "j < nb"
  shows "rd2 st m i j = Inr (matrix st m ! nat i ! nat j)"
proof -
  have i: "nat i < length m" using assms by linarith
  then have "int (length (st (m ! nat i))) = nb"
    using assms(2) by (simp add: list_all_length)
  with assms i show ?thesis
    by (simp add: rd2_def vec_at_def matrix_def)
qed

lemma normalizeResponse_column_sums:
  assumes "int (length system_response) = num_measurements"
    and "list_all (\<lambda>row. int (length (st row)) = num_bins) system_response"
  shows "normalizeResponse num_bins num_measurements system_response st
           = Inr (spec_column_sums (matrix st system_response)
                    (nat num_measurements) (nat num_bins), st)"
proof -
  have inner: "for_loop 0 num_measurements
           (\<lambda>i_meas temp_value.
              bindE (rd2 st system_response i_meas i_bin) (\<lambda>x. Inr (dadd temp_value x)))
           (Fin 0)
         = Inr (dsum (map (\<lambda>m. matrix st system_response ! m ! nat i_bin)
                  [0..<nat num_measurements]))"
    if "0 \<le> i_bin" "i_bin < num_bins" for i_bin
    by (rule sum_loop) (simp add: rd2_ok [OF assms] that)
  have "for_loop 0 num_bins
          (\<lambda>i_bin normalized_vector.
             bindE
               (for_loop 0 num_measurements
                  (\<lambda>i_meas temp_value.
                     bindE (rd2 st system_response i_meas i_bin)
                       (\<lambda>x. Inr (dadd temp_value x)))
                  (Fin 0))
               (\<lambda>temp_value. Inr (normalized_vector @ [temp_value])))
          []
        = Inr (map (\<lambda>i. dsum (map (\<lambda>m. matrix st system_response ! m ! i)
                  [0..<nat num_measurements])) [0..<nat num_bins])"
    by (rule push_loop) (simp add: inner)
  then show ?thesis
    by (simp add: normalizeResponse_def spec_column_sums_def)
qed

lemma mlem_estimate_loop_spec:
  assumes "int (length nns_response) = num_measurements"
    and "list_all (\<lambda>row. int (length (st row)) = num_bins) nns_response"
    and "int (length (st spectrum)) = num_bins"
  shows "mlem_estimate_loop num_measurements num_bins nns_response spectrum st
           = Inr (spec_estimated (matrix st nns_response) (st spectrum)
                    (nat num_measurements) (nat num_bins))"
proof -
  have inner: "for_loop 0 num_bins
           (\<lambda>i_bin temp_value.
              bindE (rd2 st nns_response i_meas i_bin) (\<lambda>r.
              bindE (rd st spectrum i_bin) (\<lambda>s.
              Inr (dadd temp_value (dmul r s)))))
           (Fin 0)
         = Inr (dsum (map (\<lambda>b. dmul (matrix st nns_response ! nat i_meas ! b)
                                   (st spectrum ! b)) [0..<nat num_bins]))"
    if "0 \<le> i_meas" "i_meas < num_measurements" for i_meas
  proof -
    have "for_loop 0 num_bins
           (\<lambda>i_bin temp_value.
              bindE (bindE (rd2 st nns_response i_meas i_bin) (\<lambda>r.
                     bindE (rd st spectrum i_bin) (\<lambda>s. Inr (dmul r s))))
                (\<lambda>x. Inr (dadd temp_value x)))
           (Fin 0)
         = Inr (dsum (map (\<lambda>b. dmul (matrix st nns_response ! nat i_meas ! b)
                                   (st spectrum ! b)) [0..<nat num_bins]))"
      by (rule sum_loop) (simp add: rd2_ok [OF assms(1,2)] rd_ok assms(3) that)
    moreover have "(\<lambda>i_bin temp_value.
              bindE (bindE (rd2 st nns_response i_meas i_bin) (\<lambda>r.
                     bindE (rd st spectrum i_bin) (\<lambda>s. Inr (dmul r s))))
                (\<lambda>x. Inr (dadd temp_value x)))
         = (\<lambda>i_bin temp_value.
              bindE (rd2 st nns_response i_meas i_bin) (\<lambda>r.
              bindE (rd st spectrum i_bin) (\<lambda>s.
              Inr (dadd temp_value (dmul r s)))))"
      by (auto simp: bindE_def fun_eq_iff split: sum.splits)
    ultimately show ?thesis by simp
  qed
  show ?thesis
    unfolding mlem_estimate_loop_def spec_estimated_def
    by (rule push_loop) (simp add: inner)
qed

lemma mlem_correction_loop_spec:
  assumes "int (length nns_response) = num_measurements"
    and "list_all (\<lambda>row. int (length (st row)) = num_bins) nns_response"
    and "int (length (st mlem_ratio)) = num_measurements"
  shows "mlem_correction_loop num_measurements num_bins nns_response mlem_ratio st
           = Inr (spec_correction (matrix st nns_response) (st mlem_ratio)
                    (nat num_measurements) (nat num_bins))"
proof -
  have inner: "for_loop 0 num_measurements
           (\<lambda>i_meas temp_value.
              bindE (rd2 st nns_response i_meas i_bin) (\<lambda>r.
              bindE (rd st mlem_ratio i_meas) (\<lambda>q.
              Inr (dadd temp_value (dmul r q)))))
           (Fin 0)
         = Inr (dsum (map (\<lambda>m. dmul (matrix st nns_response ! m ! nat i_bin)
                                   (st mlem_ratio ! m)) [0..<nat num_measurements]))"
    if "0 \<le> i_bin" "i_bin < num_bins" for i_bin
  proof -
    have "for_loop 0 num_measurements
           (\<lambda>i_meas temp_value.
              bindE (bindE (rd2 st nns_response i_meas i_bin) (\<lambda>r.
                     bindE (rd st mlem_ratio i_meas) (\<lambda>q. Inr (dmul r q))))
                (\<lambda>x. Inr (dadd temp_value x)))
           (Fin 0)
         = Inr (dsum (map (\<lambda>m. dmul (matrix st nns_response ! m ! nat i_bin)
                                   (st mlem_ratio ! m)) [0..<nat num_measurements]))"
      by (rule sum_loop) (simp add: rd2_ok [OF assms(1,2)] rd_ok assms(3) that)
    moreover have "(\<lambda>i_meas temp_value.
              bindE (bindE (rd2 st nns_response i_meas i_bin) (\<lambda>r.
                     bindE (rd st mlem_ratio i_meas) (\<lambda>q. Inr (dmul r q))))
                (\<lambda>x. Inr (dadd temp_value x)))
         = (\<lambda>i_meas temp_value.
              bindE (rd2 st nns_response i_meas i_bin) (\<lambda>r.
              bindE (rd st mlem_ratio i_meas) (\<lambda>q.
              Inr (dadd temp_value (dmul r q)))))"
      by (auto simp: bindE_def fun_eq_iff split: sum.splits)
    ultimately show ?thesis by simp
  qed
  show ?thesis
    unfolding mlem_correction_loop_def spec_correction_def
    by (rule push_loop) (simp add: inner)
qed

lemma mlem_ratio_loop_spec:
  assumes "int (length (st measurements)) = num_measurements"
    and "int (length mlem_estimate) = num_measurements"
    and "measurements \<noteq> mlem_ratio"
  shows "mlem_ratio_loop num_measurements measurements mlem_estimate mlem_ratio st
           = Inr (st(mlem_ratio := st mlem_ratio
                    @ spec_ratio (st measurements) mlem_estimate (nat num_measurements)))"
proof -
  let ?F = "\<lambda>j. st(mlem_ratio := st mlem_ratio
                    @ spec_ratio (st measurements) mlem_estimate (nat j))"
  have "for_loop 0 num_measurements
          (\<lambda>i_meas st.
             bindE (rd st measurements i_meas) (\<lambda>y.
             bindE (vec_at mlem_estimate i_meas) (\<lambda>e.
             Inr (push_back st mlem_ratio (ddiv y e)))))
          (?F 0)
        = Inr (?F (max 0 num_measurements))"
    by (rule for_loop_exact [where F = ?F])
       (simp add: rd_ok vec_at_ok assms push_back_def spec_ratio_def upt_nat_Suc)
  moreover have "?F 0 = st" by (simp add: spec_ratio_def)
  moreover have "?F (max 0 num_measurements) = ?F num_measurements"
    by (simp add: max_def spec_ratio_def)
  ultimately show ?thesis by (simp add: mlem_ratio_loop_def)
qed

lemma take_drop_update:
  assumes "j < length xs" "length xs = length ys"
  shows "(take j xs @ drop j ys)[j := xs ! j] = take (Suc j) xs @ drop (Suc j) ys"
  using assms
  by (simp add: list_update_append take_Suc_conv_app_nth upd_conv_take_nth_drop
      flip: drop_Suc)

lemma update_loop_generic:
  assumes len: "int (length (st spectrum)) = num_bins"
    and new: "length new = nat num_bins"
    and step: "\<And>j t. 0 \<le> j \<Longrightarrow> j < num_bins
                 \<Longrightarrow> t = st(spectrum := take (nat j) new @ drop (nat j) (st spectrum))
                 \<Longrightarrow> body j t = wr t spectrum j (new ! nat j)"
  shows "for_loop 0 num_bins body st = Inr (st(spectrum := new))"
proof -
  let ?F = "\<lambda>j. st(spectrum := take (nat j) new @ drop (nat j) (st spectrum))"
  have "for_loop 0 num_bins body (?F 0) = Inr (?F (max 0 num_bins))"
  proof (rule for_loop_exact [where F = ?F])
    fix j :: int
    assume j: "0 \<le> j" "j < num_bins"
    then have lt: "nat j < length new" using new by linarith
    have eq: "length new = length (st spectrum)" using len new by linarith
    have "body j (?F j) = wr (?F j) spectrum j (new ! nat j)"
      by (rule step [OF j]) simp
    also have "\<dots> = Inr (?F (j + 1))"
      using j lt eq take_drop_update [OF lt eq]
      by (simp add: wr_def nat_add_distrib)
    finally show "body j (?F j) = Inr (?F (j + 1))" .
  qed
  moreover have "?F 0 = st" by simp
  moreover have "?F (max 0 num_bins) = st(spectrum := new)"
    using len new by (simp add: max_def)
  ultimately show ?thesis by simp
qed

lemma mlem_update_loop_spec:
  assumes "int (length (st spectrum)) = num_bins"
    and "int (length mlem_correction) = num_bins"
    and "int (length (st normalized_response)) = num_bins"
    and "spectrum \<noteq> normalized_response"
  shows "mlem_update_loop num_bins spectrum mlem_correction normalized_response st
           = Inr (st(spectrum := spec_update (st spectrum) mlem_correction
                    (st normalized_response) (nat num_bins)))"
  unfolding mlem_update_loop_def
proof (rule update_loop_generic [where st = st and spectrum = spectrum])
  show "int (length (st spectrum)) = num_bins" by (rule assms(1))
next
  show "length (spec_update (st spectrum) mlem_correction (st normalized_response)
          (nat num_bins)) = nat num_bins"
    by (simp add: spec_update_def)
next
  fix j :: int and t
  assume j: "0 \<le> j" "j < num_bins"
    and t: "t = st(spectrum := take (nat j) (spec_update (st spectrum) mlem_correction
                  (st normalized_response) (nat num_bins)) @ drop (nat j) (st spectrum))"
  have lt: "nat j < nat num_bins" using j by linarith
  have "rd t spectrum j = Inr (st spectrum ! nat j)"
    using j assms(1) lt by (simp add: t rd_def vec_at_def spec_update_def nth_append)
  moreover have "rd t normalized_response j = Inr (st normalized_response ! nat j)"
    using j assms(3,4) by (simp add: t rd_def vec_at_def)
  moreover have "vec_at mlem_correction j = Inr (mlem_correction ! nat j)"
    using j assms(2) by (simp add: vec_at_def)
  ultimately show "bindE (rd t spectrum j) (\<lambda>s.
          bindE (vec_at mlem_correction j) (\<lambda>c.
          bindE (rd t normalized_response j) (\<lambda>n.
          wr t spectrum j (ddiv (dmul s c) n))))
        = wr t spectrum j (spec_update (st spectrum) mlem_correction
            (st normalized_response) (nat num_bins) ! nat j)"
    using lt by (simp add: spec_update_def)
qed

lemma continue_mlem_loop_from:
  assumes "int (length (st mlem_ratio)) = num_measurements" "0 \<le> i"
  shows "continue_mlem_loop error num_measurements mlem_ratio st i
           = Inr (list_ex (outside_tolerance error) (drop (nat i) (st mlem_ratio)))"
  using assms(2)
proof (induction "nat (num_measurements - i)" arbitrary: i)
  case 0
  then show ?case
    using assms(1) by (subst continue_mlem_loop.simps) simp
next
  case (Suc k)
  then have lt: "i < num_measurements" by linarith
  then have n: "nat i < length (st mlem_ratio)" using assms(1) Suc.prems by linarith
  have k: "k = nat (num_measurements - (i + 1))" using Suc.hyps(2) by linarith
  have IH: "continue_mlem_loop error num_measurements mlem_ratio st (i + 1)
              = Inr (list_ex (outside_tolerance error) (drop (nat (i + 1)) (st mlem_ratio)))"
    by (rule Suc.hyps(1) [OF k]) (use Suc.prems in simp)
  have d: "drop (nat i) (st mlem_ratio)
             = st mlem_ratio ! nat i # drop (nat (i + 1)) (st mlem_ratio)"
    using n Suc.prems by (simp add: nat_add_distrib Cons_nth_drop_Suc)
  show ?case
    using lt n Suc.prems assms(1)
    by (subst continue_mlem_loop.simps) (simp add: IH d rd_def vec_at_def)
qed

lemma continue_mlem_loop_spec:
  assumes "int (length (st mlem_ratio)) = num_measurements"
  shows "continue_mlem_loop error num_measurements mlem_ratio st 0
           = Inr (list_ex (outside_tolerance error) (st mlem_ratio))"
  using assms continue_mlem_loop_from [where st = st and mlem_ratio = mlem_ratio and i = 0]
  by simp

lemma energy_correction_loop_spec:
  assumes len: "int (length (st spectrum)) = num_bins"
    and two: "2 \<le> num_bins"
    and ne: "energy_correction \<noteq> spectrum"
  shows "energy_correction_loop energy_correction beta num_bins spectrum st
           = Inr (st(energy_correction :=
                    spec_energy_correction beta (st spectrum) (nat num_bins)))"
proof -
  let ?s = "st spectrum"
  let ?nb = "nat num_bins"
  let ?g = "\<lambda>b. if b = 0 then dmul beta (dpow2 (dsub (?s ! 0) (?s ! 1)))
       else if b = ?nb - 1 then dmul beta (dpow2 (dsub (?s ! (?nb - 1)) (?s ! (?nb - 2))))
       else dmul beta (dadd (dpow2 (dsub (?s ! b) (?s ! (b - 1))))
                            (dpow2 (dsub (?s ! b) (?s ! (b + 1)))))"
  let ?F = "\<lambda>j. st(energy_correction := map ?g [0..<nat j])"
  let ?st1 = "clear st energy_correction"
  have r0: "rd ?st1 spectrum 0 = Inr (?s ! 0)"
    using len two ne by (simp add: rd_def vec_at_def clear_def)
  have r1: "rd ?st1 spectrum 1 = Inr (?s ! 1)"
    using len two ne by (simp add: rd_def vec_at_def clear_def)
  have p0: "push_back ?st1 energy_correction (dmul beta (dpow2 (dsub (?s ! 0) (?s ! 1))))
              = ?F 1"
    by (simp add: push_back_def clear_def)
  have loop: "for_loop 1 (num_bins - 1)
           (\<lambda>i_bin st.
              bindE (rd st spectrum i_bin) (\<lambda>s.
              bindE (rd st spectrum (i_bin - 1)) (\<lambda>sl.
              bindE (rd st spectrum (i_bin + 1)) (\<lambda>sr.
              Inr (push_back st energy_correction
                     (dmul beta (dadd (dpow2 (dsub s sl)) (dpow2 (dsub s sr)))))))))
           (?F 1)
         = Inr (?F (max 1 (num_bins - 1)))"
  proof (rule for_loop_exact [where F = ?F])
    fix j :: int
    assume j: "1 \<le> j" "j < num_bins - 1"
    have a: "rd (?F j) spectrum j = Inr (?s ! nat j)"
      using j len ne by (simp add: rd_def vec_at_def)
    have b: "rd (?F j) spectrum (j - 1) = Inr (?s ! (nat j - 1))"
      using j len ne by (simp add: rd_def vec_at_def nat_diff_distrib)
    have c: "rd (?F j) spectrum (j + 1) = Inr (?s ! (nat j + 1))"
      using j len ne by (simp add: rd_def vec_at_def nat_add_distrib)
    have n0: "nat j \<noteq> 0" and n1: "nat j \<noteq> ?nb - 1" using j by linarith+
    have up: "[0..<nat (j + 1)] = [0..<nat j] @ [nat j]"
      using j by (simp add: nat_add_distrib)
    show "bindE (rd (?F j) spectrum j) (\<lambda>s.
              bindE (rd (?F j) spectrum (j - 1)) (\<lambda>sl.
              bindE (rd (?F j) spectrum (j + 1)) (\<lambda>sr.
              Inr (push_back (?F j) energy_correction
                     (dmul beta (dadd (dpow2 (dsub s sl)) (dpow2 (dsub s sr))))))))
          = Inr (?F (j + 1))"
      unfolding a b c bindE_Inr up using n0 n1
      by (simp add: push_back_def)
  qed
  have m: "max 1 (num_bins - 1) = num_bins - 1" using two by simp
  have l1: "rd (?F (num_bins - 1)) spectrum (num_bins - 1) = Inr (?s ! (?nb - 1))"
    using two len ne by (simp add: rd_def vec_at_def nat_diff_distrib)
  have l2: "rd (?F (num_bins - 1)) spectrum (num_bins - 2) = Inr (?s ! (?nb - 2))"
    using two len ne by (simp add: rd_def vec_at_def nat_diff_distrib)
  have nz: "?nb - 1 \<noteq> 0" using two by linarith
  have up: "[0..<?nb] = [0..<nat (num_bins - 1)] @ [?nb - 1]"
    using two upt_nat_Suc [of "num_bins - 1"] by (simp add: nat_diff_distrib)
  have last: "push_back (?F (num_bins - 1)) energy_correction
                (dmul beta (dpow2 (dsub (?s ! (?nb - 1)) (?s ! (?nb - 2)))))
              = st(energy_correction := spec_energy_correction beta ?s ?nb)"
    unfolding spec_energy_correction_def up using nz
    by (simp add: push_back_def)
  show ?thesis
    unfolding energy_correction_loop_def Let_def r0 r1 bindE_Inr p0 loop m l1 l2 last ..
qed

lemma length_spec_energy_correction [simp]:
  "length (spec_energy_correction beta s nb) = nb"
  by (simp add: spec_energy_correction_def)

lemma length_spec_map_update [simp]: "length (spec_map_update s c n e nb) = nb"
  by (simp add: spec_map_update_def)

lemma map_update_loop_spec:
  assumes "int (length (st spectrum)) = num_bins"
    and "int (length mlem_correction) = num_bins"
    and "int (length (st normalized_response)) = num_bins"
    and "int (length (st energy_correction)) = num_bins"
    and "spectrum \<noteq> normalized_response" "spectrum \<noteq> energy_correction"
  shows "map_update_loop num_bins spectrum mlem_correction normalized_response
           energy_correction st
         = Inr (st(spectrum := spec_map_update (st spectrum) mlem_correction
                    (st normalized_response) (st energy_correction) (nat num_bins)))"
  unfolding map_update_loop_def
proof (rule update_loop_generic [where st = st and spectrum = spectrum])
  show "int (length (st spectrum)) = num_bins" by (rule assms(1))
next
  show "length (spec_map_update (st spectrum) mlem_correction (st normalized_response)
          (st energy_correction) (nat num_bins)) = nat num_bins"
    by simp
next
  fix j :: int and t
  assume j: "0 \<le> j" "j < num_bins"
    and t: "t = st(spectrum := take (nat j) (spec_map_update (st spectrum) mlem_correction
                  (st normalized_response) (st energy_correction) (nat num_bins))
                  @ drop (nat j) (st spectrum))"
  have lt: "nat j < nat num_bins" using j by linarith
  have "rd t spectrum j = Inr (st spectrum ! nat j)"
    using j assms(1) lt by (simp add: t rd_def vec_at_def nth_append)
  moreover have "rd t normalized_response j = Inr (st normalized_response ! nat j)"
    using j assms(3,5) by (simp add: t rd_def vec_at_def)
  moreover have "rd t energy_correction j = Inr (st energy_correction ! nat j)"
    using j assms(4,6) by (simp add: t rd_def vec_at_def)
  moreover have "vec_at mlem_correction j = Inr (mlem_correction ! nat j)"
    using j assms(2) by (simp add: vec_at_def)
  ultimately show "bindE (rd t spectrum j) (\<lambda>s.
          bindE (vec_at mlem_correction j) (\<lambda>c.
          bindE (rd t normalized_response j) (\<lambda>n.
          bindE (rd t energy_correction j) (\<lambda>e.
          wr t spectrum j (ddiv (dmul s c) (dadd n e))))))
        = wr t spectrum j (spec_map_update (st spectrum) mlem_correction
            (st normalized_response) (st energy_correction) (nat num_bins) ! nat j)"
    using lt by (simp add: spec_map_update_def)
qed

section \<open>One iteration\<close>

lemma matrix_upd: "a \<notin> set rows \<Longrightarrow> matrix (st(a := v)) rows = matrix st rows"
  by (auto simp: matrix_def)

lemma mlem_separateD:
  assumes "mlem_separate measurements spectrum nns_response normalized_response mlem_ratio"
  shows "spectrum \<noteq> mlem_ratio" "spectrum \<noteq> measurements" "spectrum \<noteq> normalized_response"
    "spectrum \<notin> set nns_response" "mlem_ratio \<noteq> measurements"
    "mlem_ratio \<noteq> normalized_response" "mlem_ratio \<notin> set nns_response"
  using assms by (auto simp: mlem_separate_def separate_def)

lemma dimensionsD:
  assumes "dimensions num_measurements num_bins measurements spectrum nns_response
             normalized_response st"
  shows "int (length (st measurements)) = num_measurements"
    "int (length nns_response) = num_measurements"
    "list_all (\<lambda>row. int (length (st row)) = num_bins) nns_response"
    "int (length (st spectrum)) = num_bins"
    "int (length (st normalized_response)) = num_bins"
    "0 \<le> num_measurements" "0 \<le> num_bins"
  using assms by (auto simp: dimensions_def)

lemma length_ratio_of [simp]:
  "length (ratio_of num_measurements num_bins measurements spectrum nns_response st)
     = nat num_measurements"
  by (simp add: ratio_of_def spec_ratio_def)

lemma length_correction_of [simp]:
  "length (correction_of num_measurements num_bins measurements spectrum nns_response st)
     = nat num_bins"
  by (simp add: correction_of_def spec_correction_def)

lemma length_spec_update [simp]: "length (spec_update s c n nb) = nb"
  by (simp add: spec_update_def)

lemma mlem_iteration_spec:
  assumes dims: "dimensions num_measurements num_bins measurements spectrum nns_response
                   normalized_response st"
    and sep: "mlem_separate measurements spectrum nns_response normalized_response mlem_ratio"
  shows "mlem_iteration error num_measurements num_bins measurements spectrum nns_response
           normalized_response mlem_ratio st
         = Inr (list_ex (outside_tolerance error)
                  (ratio_of num_measurements num_bins measurements spectrum nns_response st),
                st(mlem_ratio :=
                     ratio_of num_measurements num_bins measurements spectrum nns_response st,
                   spectrum :=
                     spec_update (st spectrum)
                       (correction_of num_measurements num_bins measurements spectrum
                          nns_response st)
                       (st normalized_response) (nat num_bins)))"
proof -
  note d = dimensionsD [OF dims] and s = mlem_separateD [OF sep]
  let ?R = "matrix st nns_response"
  let ?est = "spec_estimated ?R (st spectrum) (nat num_measurements) (nat num_bins)"
  let ?ratio = "ratio_of num_measurements num_bins measurements spectrum nns_response st"
  let ?corr = "correction_of num_measurements num_bins measurements spectrum nns_response st"
  let ?st1 = "clear st mlem_ratio"
  let ?st2 = "st(mlem_ratio := ?ratio)"
  let ?st3 = "?st2(spectrum := spec_update (st spectrum) ?corr (st normalized_response)
                 (nat num_bins))"
  have rows1: "list_all (\<lambda>row. int (length (?st1 row)) = num_bins) nns_response"
    using d(3) s(7) by (auto simp: list_all_iff clear_def)
  have rows2: "list_all (\<lambda>row. int (length (?st2 row)) = num_bins) nns_response"
    using d(3) s(7) by (auto simp: list_all_iff)
  have e: "mlem_estimate_loop num_measurements num_bins nns_response spectrum ?st1 = Inr ?est"
    using mlem_estimate_loop_spec [where st = ?st1 and spectrum = spectrum, OF d(2) rows1]
      d(4) s(1,7)
    by (simp add: clear_def matrix_upd)
  have r: "mlem_ratio_loop num_measurements measurements ?est mlem_ratio ?st1 = Inr ?st2"
    using mlem_ratio_loop_spec [where st = ?st1 and measurements = measurements
        and mlem_ratio = mlem_ratio and mlem_estimate = ?est
        and num_measurements = num_measurements] d(1,6) s(5)
    by (simp add: clear_def spec_estimated_def ratio_of_def)
  have c: "mlem_correction_loop num_measurements num_bins nns_response mlem_ratio ?st2
             = Inr ?corr"
    using mlem_correction_loop_spec [where st = ?st2 and mlem_ratio = mlem_ratio,
        OF d(2) rows2] d(6) s(7)
    by (simp add: matrix_upd correction_of_def)
  have u: "mlem_update_loop num_bins spectrum ?corr normalized_response ?st2 = Inr ?st3"
    using mlem_update_loop_spec [where st = ?st2 and spectrum = spectrum
        and normalized_response = normalized_response and mlem_correction = ?corr
        and num_bins = num_bins] d(4,5,7) s(1,3,6)
    by simp
  have t: "continue_mlem_loop error num_measurements mlem_ratio ?st3 0
             = Inr (list_ex (outside_tolerance error) ?ratio)"
    using continue_mlem_loop_spec [where st = ?st3 and mlem_ratio = mlem_ratio
        and num_measurements = num_measurements and error = error] d(6) s(1)
    by simp
  show ?thesis
    unfolding mlem_iteration_def Let_def
    by (simp only: e r c u t bindE_Inr)
qed

lemma map_separateD:
  assumes "map_separate energy_correction measurements spectrum nns_response
             normalized_response mlem_ratio"
  shows "mlem_separate measurements spectrum nns_response normalized_response mlem_ratio"
    "energy_correction \<noteq> spectrum" "energy_correction \<noteq> mlem_ratio"
    "energy_correction \<noteq> measurements" "energy_correction \<noteq> normalized_response"
    "energy_correction \<notin> set nns_response"
  using assms by (auto simp: map_separate_def mlem_separate_def separate_def)

lemma mlem_iteration_step:
  assumes "dimensions num_measurements num_bins measurements spectrum nns_response
             normalized_response st"
    and "mlem_separate measurements spectrum nns_response normalized_response mlem_ratio"
  shows "mlem_iteration error num_measurements num_bins measurements spectrum nns_response
           normalized_response mlem_ratio st
         = Inr (list_ex (outside_tolerance error)
                  (ratio_of num_measurements num_bins measurements spectrum nns_response st),
                spec_mlem_step num_measurements num_bins measurements spectrum nns_response
                  normalized_response mlem_ratio st)"
  unfolding spec_mlem_step_def by (rule mlem_iteration_spec [OF assms])

lemma map_iteration_step:
  assumes dims: "dimensions num_measurements num_bins measurements spectrum nns_response
                   normalized_response st"
    and sep: "map_separate energy_correction measurements spectrum nns_response
                normalized_response mlem_ratio"
    and two: "2 \<le> num_bins"
  shows "map_iteration energy_correction beta error num_measurements num_bins measurements
           spectrum nns_response normalized_response mlem_ratio st
         = Inr (list_ex (outside_tolerance error)
                  (ratio_of num_measurements num_bins measurements spectrum nns_response st),
                spec_map_step energy_correction beta num_measurements num_bins measurements
                  spectrum nns_response normalized_response mlem_ratio st)"
proof -
  note d = dimensionsD [OF dims] and m = map_separateD [OF sep]
  note s = mlem_separateD [OF m(1)]
  let ?R = "matrix st nns_response"
  let ?est = "spec_estimated ?R (st spectrum) (nat num_measurements) (nat num_bins)"
  let ?ratio = "ratio_of num_measurements num_bins measurements spectrum nns_response st"
  let ?corr = "correction_of num_measurements num_bins measurements spectrum nns_response st"
  let ?ec = "spec_energy_correction beta (st spectrum) (nat num_bins)"
  let ?st1 = "clear st mlem_ratio"
  let ?st2 = "st(mlem_ratio := ?ratio)"
  let ?st3 = "?st2(energy_correction := ?ec)"
  let ?st4 = "?st3(spectrum := spec_map_update (st spectrum) ?corr (st normalized_response)
                 ?ec (nat num_bins))"
  have rows1: "list_all (\<lambda>row. int (length (?st1 row)) = num_bins) nns_response"
    using d(3) s(7) by (auto simp: list_all_iff clear_def)
  have rows2: "list_all (\<lambda>row. int (length (?st2 row)) = num_bins) nns_response"
    using d(3) s(7) by (auto simp: list_all_iff)
  have e: "mlem_estimate_loop num_measurements num_bins nns_response spectrum ?st1 = Inr ?est"
    using mlem_estimate_loop_spec [where st = ?st1 and spectrum = spectrum, OF d(2) rows1]
      d(4) s(1,7)
    by (simp add: clear_def matrix_upd)
  have r: "mlem_ratio_loop num_measurements measurements ?est mlem_ratio ?st1 = Inr ?st2"
    using mlem_ratio_loop_spec [where st = ?st1 and measurements = measurements
        and mlem_ratio = mlem_ratio and mlem_estimate = ?est
        and num_measurements = num_measurements] d(1,6) s(5)
    by (simp add: clear_def spec_estimated_def ratio_of_def)
  have c: "mlem_correction_loop num_measurements num_bins nns_response mlem_ratio ?st2
             = Inr ?corr"
    using mlem_correction_loop_spec [where st = ?st2 and mlem_ratio = mlem_ratio,
        OF d(2) rows2] d(6) s(7)
    by (simp add: matrix_upd correction_of_def)
  have g: "energy_correction_loop energy_correction beta num_bins spectrum ?st2 = Inr ?st3"
    using energy_correction_loop_spec [where st = ?st2 and spectrum = spectrum
        and energy_correction = energy_correction and num_bins = num_bins and beta = beta]
      d(4) s(1) m(2) two
    by simp
  have u: "map_update_loop num_bins spectrum ?corr normalized_response energy_correction ?st3
             = Inr ?st4"
    using map_update_loop_spec [where st = ?st3 and spectrum = spectrum
        and normalized_response = normalized_response and mlem_correction = ?corr
        and energy_correction = energy_correction and num_bins = num_bins]
      d(4,5,7) s(1,3,6) m(2,5)
    by simp
  have t: "continue_mlem_loop error num_measurements mlem_ratio ?st4 0
             = Inr (list_ex (outside_tolerance error) ?ratio)"
    using continue_mlem_loop_spec [where st = ?st4 and mlem_ratio = mlem_ratio
        and num_measurements = num_measurements and error = error] d(6) s(1) m(3)
    by simp
  show ?thesis
    unfolding map_iteration_def spec_map_step_def Let_def
    by (simp only: e r c g u t bindE_Inr)
qed

lemma dimensions_mlem_step:
  assumes "dimensions num_measurements num_bins measurements spectrum nns_response
             normalized_response st"
    and "mlem_separate measurements spectrum nns_response normalized_response mlem_ratio"
  shows "dimensions num_measurements num_bins measurements spectrum nns_response
           normalized_response
           (spec_mlem_step num_measurements num_bins measurements spectrum nns_response
              normalized_response mlem_ratio st)"
  using assms(1) mlem_separateD [OF assms(2)]
  by (auto simp: dimensions_def spec_mlem_step_def list_all_iff)

lemma dimensions_map_step:
  assumes "dimensions num_measurements num_bins measurements spectrum nns_response
             normalized_response st"
    and "map_separate energy_correction measurements spectrum nns_response
           normalized_response mlem_ratio"
  shows "dimensions num_measurements num_bins measurements spectrum nns_response
           normalized_response
           (spec_map_step energy_correction beta num_measurements num_bins measurements
              spectrum nns_response normalized_response mlem_ratio st)"
  using assms(1) map_separateD [OF assms(2)] mlem_separateD [OF map_separateD(1) [OF assms(2)]]
  by (auto simp: dimensions_def spec_map_step_def list_all_iff)

lemma mlem_loop_step:
  assumes "mlem_index < cutoff"
    and "dimensions num_measurements num_bins measurements spectrum nns_response
           normalized_response st"
    and "mlem_separate measurements spectrum nns_response normalized_response mlem_ratio"
  shows "mlem_loop cutoff error num_measurements num_bins measurements spectrum nns_response
           normalized_response mlem_ratio mlem_index st
         = (if list_ex (outside_tolerance error)
                 (ratio_of num_measurements num_bins measurements spectrum nns_response st)
            then mlem_loop cutoff error num_measurements num_bins measurements spectrum
                   nns_response normalized_response mlem_ratio (mlem_index + 1)
                   (spec_mlem_step num_measurements num_bins measurements spectrum
                      nns_response normalized_response mlem_ratio st)
            else Inr (mlem_index,
                   spec_mlem_step num_measurements num_bins measurements spectrum
                     nns_response normalized_response mlem_ratio st))"
  using assms(1)
  by (subst mlem_loop.simps) (simp add: mlem_iteration_step [OF assms(2,3)])

lemma mlem_loop_done:
  "\<not> mlem_index < cutoff \<Longrightarrow>
   mlem_loop cutoff error num_measurements num_bins measurements spectrum nns_response
     normalized_response mlem_ratio mlem_index st = Inr (mlem_index, st)"
  by (subst mlem_loop.simps) simp

lemma map_loop_step:
  assumes "mlem_index < cutoff"
    and "dimensions num_measurements num_bins measurements spectrum nns_response
           normalized_response st"
    and "map_separate energy_correction measurements spectrum nns_response
           normalized_response mlem_ratio"
    and "2 \<le> num_bins"
  shows "map_loop energy_correction beta cutoff error num_measurements num_bins measurements
           spectrum nns_response normalized_response mlem_ratio mlem_index st
         = (if list_ex (outside_tolerance error)
                 (ratio_of num_measurements num_bins measurements spectrum nns_response st)
            then map_loop energy_correction beta cutoff error num_measurements num_bins
                   measurements spectrum nns_response normalized_response mlem_ratio
                   (mlem_index + 1)
                   (spec_map_step energy_correction beta num_measurements num_bins
                      measurements spectrum nns_response normalized_response mlem_ratio st)
            else Inr (mlem_index,
                   spec_map_step energy_correction beta num_measurements num_bins
                     measurements spectrum nns_response normalized_response mlem_ratio st))"
  using assms(1)
  by (subst map_loop.simps) (simp add: map_iteration_step [OF assms(2,3,4)])

lemma map_loop_done:
  "\<not> mlem_index < cutoff \<Longrightarrow>
   map_loop energy_correction beta cutoff error num_measurements num_bins measurements
     spectrum nns_response normalized_response mlem_ratio mlem_index st
   = Inr (mlem_index, st)"
  by (subst map_loop.simps) simp

section \<open>The main loops\<close>

lemma mlem_each_iteration_done:
  "\<not> mlem_index < cutoff \<Longrightarrow>
   mlem_each_iteration Q cutoff error num_measurements num_bins measurements spectrum
     nns_response normalized_response mlem_ratio mlem_index st"
  by (subst mlem_each_iteration.simps) simp

lemma mlem_each_iteration_step:
  assumes "mlem_index < cutoff"
    and "dimensions num_measurements num_bins measurements spectrum nns_response
           normalized_response st"
    and "mlem_separate measurements spectrum nns_response normalized_response mlem_ratio"
  shows "mlem_each_iteration Q cutoff error num_measurements num_bins measurements spectrum
           nns_response normalized_response mlem_ratio mlem_index st
         \<longleftrightarrow> Q st \<and>
             (list_ex (outside_tolerance error)
                (ratio_of num_measurements num_bins measurements spectrum nns_response st)
              \<longrightarrow> mlem_each_iteration Q cutoff error num_measurements num_bins measurements
                    spectrum nns_response normalized_response mlem_ratio (mlem_index + 1)
                    (spec_mlem_step num_measurements num_bins measurements spectrum
                       nns_response normalized_response mlem_ratio st))"
  using assms(1)
  by (subst mlem_each_iteration.simps) (simp add: mlem_iteration_step [OF assms(2,3)])

lemma mlem_run_invariant:
  assumes sep: "mlem_separate measurements spectrum nns_response normalized_response mlem_ratio"
    and step: "\<And>s. dimensions num_measurements num_bins measurements spectrum nns_response
                  normalized_response s \<Longrightarrow> I s \<Longrightarrow> P s
               \<Longrightarrow> I (spec_mlem_step num_measurements num_bins measurements spectrum
                       nns_response normalized_response mlem_ratio s)"
    and dims: "dimensions num_measurements num_bins measurements spectrum nns_response
                 normalized_response st"
    and init: "I st"
    and hyp: "mlem_each_iteration P cutoff error num_measurements num_bins measurements
                spectrum nns_response normalized_response mlem_ratio mlem_index st"
  shows "mlem_each_iteration
           (\<lambda>s. dimensions num_measurements num_bins measurements spectrum nns_response
                  normalized_response s \<and> I s)
           cutoff error num_measurements num_bins measurements spectrum nns_response
           normalized_response mlem_ratio mlem_index st \<and>
         (\<exists>k st'. mlem_loop cutoff error num_measurements num_bins measurements spectrum
                     nns_response normalized_response mlem_ratio mlem_index st
                   = Inr (k, st') \<and>
                   dimensions num_measurements num_bins measurements spectrum nns_response
                     normalized_response st' \<and> I st')"
  using dims init hyp
proof (induction "nat (cutoff - mlem_index)" arbitrary: mlem_index st)
  case 0
  then have "\<not> mlem_index < cutoff" by simp
  with 0 show ?case by (simp add: mlem_each_iteration_done mlem_loop_done)
next
  case (Suc n)
  then have lt: "mlem_index < cutoff" by linarith
  have n: "n = nat (cutoff - (mlem_index + 1))" using Suc.hyps(2) by linarith
  let ?st' = "spec_mlem_step num_measurements num_bins measurements spectrum nns_response
                normalized_response mlem_ratio st"
  note h = Suc.prems(3) [unfolded mlem_each_iteration_step [OF lt Suc.prems(1) sep]]
  have d': "dimensions num_measurements num_bins measurements spectrum nns_response
              normalized_response ?st'"
    by (rule dimensions_mlem_step [OF Suc.prems(1) sep])
  have i': "I ?st'" using step [OF Suc.prems(1,2)] h by simp
  show ?case
  proof (cases "list_ex (outside_tolerance error)
                  (ratio_of num_measurements num_bins measurements spectrum nns_response st)")
    case True
    with h have "mlem_each_iteration P cutoff error num_measurements num_bins measurements
                   spectrum nns_response normalized_response mlem_ratio (mlem_index + 1) ?st'"
      by simp
    from Suc.hyps(1) [OF n d' i' this] True lt Suc.prems(1,2) show ?thesis
      by (simp add: mlem_each_iteration_step [OF lt Suc.prems(1) sep]
            mlem_loop_step [OF lt Suc.prems(1) sep])
  next
    case False
    with lt Suc.prems(1,2) d' i' show ?thesis
      by (simp add: mlem_each_iteration_step [OF lt Suc.prems(1) sep]
            mlem_loop_step [OF lt Suc.prems(1) sep])
  qed
qed

lemma mlem_each_iteration_mono:
  assumes "mlem_each_iteration Q cutoff error num_measurements num_bins measurements spectrum
             nns_response normalized_response mlem_ratio mlem_index st"
    and "\<And>s. Q s \<Longrightarrow> Q' s"
  shows "mlem_each_iteration Q' cutoff error num_measurements num_bins measurements spectrum
           nns_response normalized_response mlem_ratio mlem_index st"
  using assms(1)
proof (induction "nat (cutoff - mlem_index)" arbitrary: mlem_index st)
  case 0
  then show ?case by (simp add: mlem_each_iteration_done)
next
  case (Suc n)
  have n: "n = nat (cutoff - (mlem_index + 1))" using Suc.hyps(2) by linarith
  show ?case
    using Suc.prems Suc.hyps(1) [OF n] assms(2)
    by (subst mlem_each_iteration.simps, subst (asm) mlem_each_iteration.simps)
       (auto split: sum.splits)
qed

lemma mlem_each_iteration_True:
  "mlem_each_iteration (\<lambda>s. True) cutoff error num_measurements num_bins measurements
     spectrum nns_response normalized_response mlem_ratio mlem_index st"
proof (induction "nat (cutoff - mlem_index)" arbitrary: mlem_index st)
  case 0
  then show ?case by (simp add: mlem_each_iteration_done)
next
  case (Suc n)
  have n: "n = nat (cutoff - (mlem_index + 1))" using Suc.hyps(2) by linarith
  show ?case
    using Suc.hyps(1) [OF n]
    by (subst mlem_each_iteration.simps) (auto split: sum.splits)
qed

lemma map_each_iteration_done:
  "\<not> mlem_index < cutoff \<Longrightarrow>
   map_each_iteration Q energy_correction beta cutoff error num_measurements num_bins measurements spectrum
     nns_response normalized_response mlem_ratio mlem_index st"
  by (subst map_each_iteration.simps) simp

lemma map_each_iteration_step:
  assumes "mlem_index < cutoff"
    and "dimensions num_measurements num_bins measurements spectrum nns_response
           normalized_response st"
    and "map_separate energy_correction measurements spectrum nns_response
           normalized_response mlem_ratio"
    and "2 \<le> num_bins"
  shows "map_each_iteration Q energy_correction beta cutoff error num_measurements num_bins measurements spectrum
           nns_response normalized_response mlem_ratio mlem_index st
         \<longleftrightarrow> Q st \<and>
             (list_ex (outside_tolerance error)
                (ratio_of num_measurements num_bins measurements spectrum nns_response st)
              \<longrightarrow> map_each_iteration Q energy_correction beta cutoff error num_measurements num_bins measurements
                    spectrum nns_response normalized_response mlem_ratio (mlem_index + 1)
                    (spec_map_step energy_correction beta num_measurements num_bins measurements spectrum
                       nns_response normalized_response mlem_ratio st))"
  using assms(1)
  by (subst map_each_iteration.simps) (simp add: map_iteration_step [OF assms(2,3,4)])

lemma map_run_invariant:
  assumes sep: "map_separate energy_correction measurements spectrum nns_response
                  normalized_response mlem_ratio"
    and two: "2 \<le> num_bins"
    and step: "\<And>s. dimensions num_measurements num_bins measurements spectrum nns_response
                  normalized_response s \<Longrightarrow> I s \<Longrightarrow> P s
               \<Longrightarrow> I (spec_map_step energy_correction beta num_measurements num_bins measurements spectrum
                       nns_response normalized_response mlem_ratio s)"
    and dims: "dimensions num_measurements num_bins measurements spectrum nns_response
                 normalized_response st"
    and init: "I st"
    and hyp: "map_each_iteration P energy_correction beta cutoff error num_measurements num_bins measurements
                spectrum nns_response normalized_response mlem_ratio mlem_index st"
  shows "map_each_iteration
           (\<lambda>s. dimensions num_measurements num_bins measurements spectrum nns_response
                  normalized_response s \<and> I s)
           energy_correction beta cutoff error num_measurements num_bins measurements spectrum nns_response
           normalized_response mlem_ratio mlem_index st \<and>
         (\<exists>k st'. map_loop energy_correction beta cutoff error num_measurements num_bins measurements spectrum
                     nns_response normalized_response mlem_ratio mlem_index st
                   = Inr (k, st') \<and>
                   dimensions num_measurements num_bins measurements spectrum nns_response
                     normalized_response st' \<and> I st')"
  using dims init hyp
proof (induction "nat (cutoff - mlem_index)" arbitrary: mlem_index st)
  case 0
  then have "\<not> mlem_index < cutoff" by simp
  with 0 show ?case by (simp add: map_each_iteration_done map_loop_done)
next
  case (Suc n)
  then have lt: "mlem_index < cutoff" by linarith
  have n: "n = nat (cutoff - (mlem_index + 1))" using Suc.hyps(2) by linarith
  let ?st' = "spec_map_step energy_correction beta num_measurements num_bins measurements spectrum nns_response
                normalized_response mlem_ratio st"
  note h = Suc.prems(3) [unfolded map_each_iteration_step [OF lt Suc.prems(1) sep two]]
  have d': "dimensions num_measurements num_bins measurements spectrum nns_response
              normalized_response ?st'"
    by (rule dimensions_map_step [OF Suc.prems(1) sep])
  have i': "I ?st'" using step [OF Suc.prems(1,2)] h by simp
  show ?case
  proof (cases "list_ex (outside_tolerance error)
                  (ratio_of num_measurements num_bins measurements spectrum nns_response st)")
    case True
    with h have "map_each_iteration P energy_correction beta cutoff error num_measurements num_bins measurements
                   spectrum nns_response normalized_response mlem_ratio (mlem_index + 1) ?st'"
      by simp
    from Suc.hyps(1) [OF n d' i' this] True lt Suc.prems(1,2) show ?thesis
      by (simp add: map_each_iteration_step [OF lt Suc.prems(1) sep two]
            map_loop_step [OF lt Suc.prems(1) sep two])
  next
    case False
    with lt Suc.prems(1,2) d' i' show ?thesis
      by (simp add: map_each_iteration_step [OF lt Suc.prems(1) sep two]
            map_loop_step [OF lt Suc.prems(1) sep two])
  qed
qed

lemma map_each_iteration_mono:
  assumes "map_each_iteration Q energy_correction beta cutoff error num_measurements num_bins measurements spectrum
             nns_response normalized_response mlem_ratio mlem_index st"
    and "\<And>s. Q s \<Longrightarrow> Q' s"
  shows "map_each_iteration Q' energy_correction beta cutoff error num_measurements num_bins measurements spectrum
           nns_response normalized_response mlem_ratio mlem_index st"
  using assms(1)
proof (induction "nat (cutoff - mlem_index)" arbitrary: mlem_index st)
  case 0
  then show ?case by (simp add: map_each_iteration_done)
next
  case (Suc n)
  have n: "n = nat (cutoff - (mlem_index + 1))" using Suc.hyps(2) by linarith
  show ?case
    using Suc.prems Suc.hyps(1) [OF n] assms(2)
    by (subst map_each_iteration.simps, subst (asm) map_each_iteration.simps)
       (auto split: sum.splits)
qed

lemma map_each_iteration_True:
  "map_each_iteration (\<lambda>s. True) energy_correction beta cutoff error num_measurements num_bins measurements
     spectrum nns_response normalized_response mlem_ratio mlem_index st"
proof (induction "nat (cutoff - mlem_index)" arbitrary: mlem_index st)
  case 0
  then show ?case by (simp add: map_each_iteration_done)
next
  case (Suc n)
  have n: "n = nat (cutoff - (mlem_index + 1))" using Suc.hyps(2) by linarith
  show ?case
    using Suc.hyps(1) [OF n]
    by (subst map_each_iteration.simps) (auto split: sum.splits)
qed

section \<open>What a call can change\<close>

lemma bindE_eq_Inr: "bindE m f = Inr y \<longleftrightarrow> (\<exists>x. m = Inr x \<and> f x = Inr y)"
  by (cases m) simp_all

lemma for_loop_preserves:
  assumes "for_loop i n body s = Inr t" and "P s"
    and "\<And>j u u'. P u \<Longrightarrow> body j u = Inr u' \<Longrightarrow> P u'"
  shows "P t"
  using assms(1,2)
proof (induction "nat (n - i)" arbitrary: i s)
  case 0
  then show ?case by (simp add: for_loop_done)
next
  case (Suc k)
  then have lt: "i < n" by linarith
  have k: "k = nat (n - (i + 1))" using Suc.hyps(2) by linarith
  from Suc.prems(1) lt obtain u where u: "body i s = Inr u" "for_loop (i + 1) n body u = Inr t"
    by (auto simp: for_loop_step bindE_eq_Inr)
  from Suc.hyps(1) [OF k u(2)] assms(3) [OF Suc.prems(2) u(1)] show ?case .
qed

lemma wr_frame: "wr st v i x = Inr st' \<Longrightarrow> a \<noteq> v \<Longrightarrow> st' a = st a"
  by (auto simp: wr_def split: if_splits)

lemma mlem_ratio_loop_frame:
  assumes "mlem_ratio_loop num_measurements measurements mlem_estimate mlem_ratio st = Inr st'"
    and "a \<noteq> mlem_ratio"
  shows "st' a = st a"
  using assms(1) unfolding mlem_ratio_loop_def
  by (rule for_loop_preserves [where P = "\<lambda>u. u a = st a"])
     (auto simp: bindE_eq_Inr push_back_def assms(2))

lemma mlem_update_loop_frame:
  assumes "mlem_update_loop num_bins spectrum mlem_correction normalized_response st = Inr st'"
    and "a \<noteq> spectrum"
  shows "st' a = st a"
  using assms(1) unfolding mlem_update_loop_def
  by (rule for_loop_preserves [where P = "\<lambda>u. u a = st a"])
     (auto simp: bindE_eq_Inr dest: wr_frame [OF _ assms(2)])

lemma map_update_loop_frame:
  assumes "map_update_loop num_bins spectrum mlem_correction normalized_response
             energy_correction st = Inr st'"
    and "a \<noteq> spectrum"
  shows "st' a = st a"
  using assms(1) unfolding map_update_loop_def
  by (rule for_loop_preserves [where P = "\<lambda>u. u a = st a"])
     (auto simp: bindE_eq_Inr dest: wr_frame [OF _ assms(2)])

lemma energy_correction_loop_frame:
  assumes "energy_correction_loop energy_correction beta num_bins spectrum st = Inr st'"
    and "a \<noteq> energy_correction"
  shows "st' a = st a"
proof -
  from assms(1) obtain s2 x y where
    loop: "for_loop 1 (num_bins - 1)
           (\<lambda>i_bin st.
              bindE (rd st spectrum i_bin) (\<lambda>s.
              bindE (rd st spectrum (i_bin - 1)) (\<lambda>sl.
              bindE (rd st spectrum (i_bin + 1)) (\<lambda>sr.
              Inr (push_back st energy_correction
                     (dmul beta (dadd (dpow2 (dsub s sl)) (dpow2 (dsub s sr)))))))))
           (push_back (clear st energy_correction) energy_correction x) = Inr s2"
    and last: "st' = push_back s2 energy_correction y"
    by (auto simp: energy_correction_loop_def Let_def bindE_eq_Inr)
  have "s2 a = st a"
    using loop
    by (rule for_loop_preserves [where P = "\<lambda>u. u a = st a"])
       (auto simp: bindE_eq_Inr push_back_def clear_def assms(2))
  then show ?thesis by (simp add: last push_back_def assms(2))
qed

lemma mlem_iteration_frame:
  assumes "mlem_iteration error num_measurements num_bins measurements spectrum nns_response
             normalized_response mlem_ratio st = Inr (c, st')"
    and "a \<noteq> spectrum" "a \<noteq> mlem_ratio"
  shows "st' a = st a"
proof -
  from assms(1) obtain e s2 k where
    r: "mlem_ratio_loop num_measurements measurements e mlem_ratio (clear st mlem_ratio) = Inr s2"
    and u: "mlem_update_loop num_bins spectrum k normalized_response s2 = Inr st'"
    by (auto simp: mlem_iteration_def Let_def bindE_eq_Inr)
  have "st' a = s2 a" by (rule mlem_update_loop_frame [OF u assms(2)])
  also have "s2 a = clear st mlem_ratio a" by (rule mlem_ratio_loop_frame [OF r assms(3)])
  finally show ?thesis by (simp add: clear_def assms(3))
qed

lemma map_iteration_frame:
  assumes "map_iteration energy_correction beta error num_measurements num_bins measurements
             spectrum nns_response normalized_response mlem_ratio st = Inr (c, st')"
    and "a \<noteq> spectrum" "a \<noteq> mlem_ratio" "a \<noteq> energy_correction"
  shows "st' a = st a"
proof -
  from assms(1) obtain e s2 k s3 where
    r: "mlem_ratio_loop num_measurements measurements e mlem_ratio (clear st mlem_ratio) = Inr s2"
    and g: "energy_correction_loop energy_correction beta num_bins spectrum s2 = Inr s3"
    and u: "map_update_loop num_bins spectrum k normalized_response energy_correction s3
              = Inr st'"
    by (auto simp: map_iteration_def Let_def bindE_eq_Inr)
  have "st' a = s3 a" by (rule map_update_loop_frame [OF u assms(2)])
  also have "s3 a = s2 a" by (rule energy_correction_loop_frame [OF g assms(4)])
  also have "s2 a = clear st mlem_ratio a" by (rule mlem_ratio_loop_frame [OF r assms(3)])
  finally show ?thesis by (simp add: clear_def assms(3))
qed

lemma mlem_loop_frame:
  assumes "mlem_loop cutoff error num_measurements num_bins measurements spectrum nns_response
             normalized_response mlem_ratio mlem_index st = Inr (k, st')"
    and "a \<noteq> spectrum" "a \<noteq> mlem_ratio"
  shows "st' a = st a"
  using assms(1)
proof (induction "nat (cutoff - mlem_index)" arbitrary: mlem_index st)
  case 0
  then show ?case by (simp add: mlem_loop_done)
next
  case (Suc n)
  then have lt: "mlem_index < cutoff" by linarith
  have n: "n = nat (cutoff - (mlem_index + 1))" using Suc.hyps(2) by linarith
  from Suc.prems lt obtain c s1 where
    it: "mlem_iteration error num_measurements num_bins measurements spectrum nns_response
           normalized_response mlem_ratio st = Inr (c, s1)"
    and rest: "if \<not> c then k = mlem_index \<and> st' = s1
               else mlem_loop cutoff error num_measurements num_bins measurements spectrum
                      nns_response normalized_response mlem_ratio (mlem_index + 1) s1
                    = Inr (k, st')"
    by (subst (asm) mlem_loop.simps) (auto split: sum.splits if_splits)
  have s1: "s1 a = st a" by (rule mlem_iteration_frame [OF it assms(2,3)])
  show ?case
  proof (cases c)
    case True
    with rest Suc.hyps(1) [OF n] s1 show ?thesis by simp
  next
    case False
    with rest s1 show ?thesis by simp
  qed
qed

lemma map_loop_frame:
  assumes "map_loop energy_correction beta cutoff error num_measurements num_bins measurements
             spectrum nns_response normalized_response mlem_ratio mlem_index st = Inr (k, st')"
    and "a \<noteq> spectrum" "a \<noteq> mlem_ratio" "a \<noteq> energy_correction"
  shows "st' a = st a"
  using assms(1)
proof (induction "nat (cutoff - mlem_index)" arbitrary: mlem_index st)
  case 0
  then show ?case by (simp add: map_loop_done)
next
  case (Suc n)
  then have lt: "mlem_index < cutoff" by linarith
  have n: "n = nat (cutoff - (mlem_index + 1))" using Suc.hyps(2) by linarith
  from Suc.prems lt obtain c s1 where
    it: "map_iteration energy_correction beta error num_measurements num_bins measurements
           spectrum nns_response normalized_response mlem_ratio st = Inr (c, s1)"
    and rest: "if \<not> c then k = mlem_index \<and> st' = s1
               else map_loop energy_correction beta cutoff error num_measurements num_bins
                      measurements spectrum nns_response normalized_response mlem_ratio
                      (mlem_index + 1) s1
                    = Inr (k, st')"
    by (subst (asm) map_loop.simps) (auto split: sum.splits if_splits)
  have s1: "s1 a = st a" by (rule map_iteration_frame [OF it assms(2,3,4)])
  show ?case
  proof (cases c)
    case True
    with rest Suc.hyps(1) [OF n] s1 show ?thesis by simp
  next
    case False
    with rest s1 show ?thesis by simp
  qed
qed

lemma mlem_each_iteration_frame:
  assumes "\<forall>a. a \<noteq> spectrum \<and> a \<noteq> mlem_ratio \<longrightarrow> s a = st a"
  shows "mlem_each_iteration (\<lambda>u. \<forall>a. a \<noteq> spectrum \<and> a \<noteq> mlem_ratio \<longrightarrow> u a = st a)
           cutoff error num_measurements num_bins measurements spectrum nns_response
           normalized_response mlem_ratio mlem_index s"
  using assms
proof (induction "nat (cutoff - mlem_index)" arbitrary: mlem_index s)
  case 0
  then show ?case by (simp add: mlem_each_iteration_done)
next
  case (Suc n)
  have n: "n = nat (cutoff - (mlem_index + 1))" using Suc.hyps(2) by linarith
  have "\<forall>a. a \<noteq> spectrum \<and> a \<noteq> mlem_ratio \<longrightarrow> s' a = st a"
    if "mlem_iteration error num_measurements num_bins measurements spectrum nns_response
          normalized_response mlem_ratio s = Inr (c, s')" for c s'
    using mlem_iteration_frame [OF that] Suc.prems by simp
  then show ?case
    using Suc.prems Suc.hyps(1) [OF n]
    by (subst mlem_each_iteration.simps) (auto split: sum.splits)
qed

lemma map_each_iteration_frame:
  assumes "\<forall>a. a \<noteq> spectrum \<and> a \<noteq> mlem_ratio \<and> a \<noteq> energy_correction \<longrightarrow> s a = st a"
  shows "map_each_iteration
           (\<lambda>u. \<forall>a. a \<noteq> spectrum \<and> a \<noteq> mlem_ratio \<and> a \<noteq> energy_correction \<longrightarrow> u a = st a)
           energy_correction beta cutoff error num_measurements num_bins measurements
           spectrum nns_response normalized_response mlem_ratio mlem_index s"
  using assms
proof (induction "nat (cutoff - mlem_index)" arbitrary: mlem_index s)
  case 0
  then show ?case by (simp add: map_each_iteration_done)
next
  case (Suc n)
  have n: "n = nat (cutoff - (mlem_index + 1))" using Suc.hyps(2) by linarith
  have "\<forall>a. a \<noteq> spectrum \<and> a \<noteq> mlem_ratio \<and> a \<noteq> energy_correction \<longrightarrow> s' a = st a"
    if "map_iteration energy_correction beta error num_measurements num_bins measurements
          spectrum nns_response normalized_response mlem_ratio s = Inr (c, s')" for c s'
    using map_iteration_frame [OF that] Suc.prems by simp
  then show ?case
    using Suc.prems Suc.hyps(1) [OF n]
    by (subst map_each_iteration.simps) (auto split: sum.splits)
qed

section \<open>The number of iterations\<close>

lemma mlem_step_ratio:
  assumes "mlem_separate measurements spectrum nns_response normalized_response mlem_ratio"
  shows "spec_mlem_step num_measurements num_bins measurements spectrum nns_response
           normalized_response mlem_ratio st mlem_ratio
         = ratio_of num_measurements num_bins measurements spectrum nns_response st"
  using mlem_separateD(1) [OF assms] by (simp add: spec_mlem_step_def)

lemma mlem_loop_count:
  assumes sep: "mlem_separate measurements spectrum nns_response normalized_response mlem_ratio"
    and dims: "dimensions num_measurements num_bins measurements spectrum nns_response
                 normalized_response st"
    and le: "mlem_index \<le> cutoff"
  shows "\<exists>k st'. mlem_loop cutoff error num_measurements num_bins measurements spectrum
                   nns_response normalized_response mlem_ratio mlem_index st = Inr (k, st') \<and>
           mlem_index \<le> k \<and> k \<le> cutoff \<and>
           (mlem_index < cutoff \<and>
            \<not> list_ex (outside_tolerance error)
                (ratio_of num_measurements num_bins measurements spectrum nns_response st)
            \<longrightarrow> k = mlem_index) \<and>
           (mlem_each_iteration
              (\<lambda>s. list_ex (outside_tolerance error)
                     (ratio_of num_measurements num_bins measurements spectrum nns_response s))
              cutoff error num_measurements num_bins measurements spectrum nns_response
              normalized_response mlem_ratio mlem_index st
            \<longrightarrow> k = cutoff) \<and>
           (k < cutoff \<longrightarrow> \<not> list_ex (outside_tolerance error) (st' mlem_ratio))"
  using dims le
proof (induction "nat (cutoff - mlem_index)" arbitrary: mlem_index st)
  case 0
  then have "\<not> mlem_index < cutoff" "mlem_index = cutoff" by simp_all
  then show ?case by (simp add: mlem_loop_done)
next
  case (Suc n)
  then have lt: "mlem_index < cutoff" by linarith
  have n: "n = nat (cutoff - (mlem_index + 1))" using Suc.hyps(2) by linarith
  let ?st' = "spec_mlem_step num_measurements num_bins measurements spectrum nns_response
                normalized_response mlem_ratio st"
  have d': "dimensions num_measurements num_bins measurements spectrum nns_response
              normalized_response ?st'"
    by (rule dimensions_mlem_step [OF Suc.prems(1) sep])
  show ?case
  proof (cases "list_ex (outside_tolerance error)
                  (ratio_of num_measurements num_bins measurements spectrum nns_response st)")
    case True
    from Suc.hyps(1) [OF n d'] lt obtain k st'' where
      k: "mlem_loop cutoff error num_measurements num_bins measurements spectrum
            nns_response normalized_response mlem_ratio (mlem_index + 1) ?st' = Inr (k, st'')"
        "mlem_index + 1 \<le> k" "k \<le> cutoff"
        "mlem_each_iteration
              (\<lambda>s. list_ex (outside_tolerance error)
                     (ratio_of num_measurements num_bins measurements spectrum nns_response s))
              cutoff error num_measurements num_bins measurements spectrum nns_response
              normalized_response mlem_ratio (mlem_index + 1) ?st'
            \<longrightarrow> k = cutoff"
        "k < cutoff \<longrightarrow> \<not> list_ex (outside_tolerance error) (st'' mlem_ratio)"
      by auto
    with True lt show ?thesis
      by (simp add: mlem_loop_step [OF lt Suc.prems(1) sep]
            mlem_each_iteration_step [OF lt Suc.prems(1) sep])
  next
    case False
    with lt show ?thesis
      by (simp add: mlem_loop_step [OF lt Suc.prems(1) sep]
            mlem_each_iteration_step [OF lt Suc.prems(1) sep] mlem_step_ratio [OF sep])
  qed
qed

lemma map_step_ratio:
  assumes "map_separate energy_correction measurements spectrum nns_response
      normalized_response mlem_ratio"
  shows "spec_map_step energy_correction beta num_measurements num_bins measurements spectrum nns_response
           normalized_response mlem_ratio st mlem_ratio
         = ratio_of num_measurements num_bins measurements spectrum nns_response st"
  using mlem_separateD(1) [OF map_separateD(1) [OF assms]] map_separateD(2,3) [OF assms]
  by (simp add: spec_map_step_def)

lemma map_loop_count:
  assumes sep: "map_separate energy_correction measurements spectrum nns_response
      normalized_response mlem_ratio"
    and dims: "dimensions num_measurements num_bins measurements spectrum nns_response
                 normalized_response st"
    and le: "mlem_index \<le> cutoff"
    and two: "2 \<le> num_bins"
  shows "\<exists>k st'. map_loop energy_correction beta cutoff error num_measurements num_bins measurements spectrum
                   nns_response normalized_response mlem_ratio mlem_index st = Inr (k, st') \<and>
           mlem_index \<le> k \<and> k \<le> cutoff \<and>
           (mlem_index < cutoff \<and>
            \<not> list_ex (outside_tolerance error)
                (ratio_of num_measurements num_bins measurements spectrum nns_response st)
            \<longrightarrow> k = mlem_index) \<and>
           (map_each_iteration
              (\<lambda>s. list_ex (outside_tolerance error)
                     (ratio_of num_measurements num_bins measurements spectrum nns_response s))
              energy_correction beta cutoff error num_measurements num_bins measurements spectrum nns_response
              normalized_response mlem_ratio mlem_index st
            \<longrightarrow> k = cutoff) \<and>
           (k < cutoff \<longrightarrow> \<not> list_ex (outside_tolerance error) (st' mlem_ratio))"
  using dims le
proof (induction "nat (cutoff - mlem_index)" arbitrary: mlem_index st)
  case 0
  then have "\<not> mlem_index < cutoff" "mlem_index = cutoff" by simp_all
  then show ?case by (simp add: map_loop_done)
next
  case (Suc n)
  then have lt: "mlem_index < cutoff" by linarith
  have n: "n = nat (cutoff - (mlem_index + 1))" using Suc.hyps(2) by linarith
  let ?st' = "spec_map_step energy_correction beta num_measurements num_bins measurements spectrum nns_response
                normalized_response mlem_ratio st"
  have d': "dimensions num_measurements num_bins measurements spectrum nns_response
              normalized_response ?st'"
    by (rule dimensions_map_step [OF Suc.prems(1) sep])
  show ?case
  proof (cases "list_ex (outside_tolerance error)
                  (ratio_of num_measurements num_bins measurements spectrum nns_response st)")
    case True
    from Suc.hyps(1) [OF n d'] lt obtain k st'' where
      k: "map_loop energy_correction beta cutoff error num_measurements num_bins measurements spectrum
            nns_response normalized_response mlem_ratio (mlem_index + 1) ?st' = Inr (k, st'')"
        "mlem_index + 1 \<le> k" "k \<le> cutoff"
        "map_each_iteration
              (\<lambda>s. list_ex (outside_tolerance error)
                     (ratio_of num_measurements num_bins measurements spectrum nns_response s))
              energy_correction beta cutoff error num_measurements num_bins measurements spectrum nns_response
              normalized_response mlem_ratio (mlem_index + 1) ?st'
            \<longrightarrow> k = cutoff"
        "k < cutoff \<longrightarrow> \<not> list_ex (outside_tolerance error) (st'' mlem_ratio)"
      by auto
    with True lt show ?thesis
      by (simp add: map_loop_step [OF lt Suc.prems(1) sep two]
            map_each_iteration_step [OF lt Suc.prems(1) sep two])
  next
    case False
    with lt show ?thesis
      by (simp add: map_loop_step [OF lt Suc.prems(1) sep two]
            map_each_iteration_step [OF lt Suc.prems(1) sep two] map_step_ratio [OF sep])
  qed
qed

lemma mlem_first_convergence:
  assumes sep: "mlem_separate measurements spectrum nns_response normalized_response mlem_ratio"
    and dims: "dimensions num_measurements num_bins measurements spectrum nns_response
                 normalized_response st"
    and le: "mlem_index \<le> cutoff"
  shows "\<exists>k st'. mlem_loop cutoff error num_measurements num_bins measurements spectrum
                   nns_response normalized_response mlem_ratio mlem_index st = Inr (k, st') \<and>
           mlem_index \<le> k \<and> k \<le> cutoff \<and>
           (\<forall>j < nat (k - mlem_index).
              mlem_continues error num_measurements num_bins measurements spectrum
                nns_response normalized_response mlem_ratio j st) \<and>
           (k < cutoff \<longrightarrow>
              mlem_converges error num_measurements num_bins measurements spectrum
                nns_response normalized_response mlem_ratio (nat (k - mlem_index)) st \<and>
              mlem_after error num_measurements num_bins measurements spectrum nns_response
                normalized_response mlem_ratio (Suc (nat (k - mlem_index))) st = Inr st') \<and>
           (k = cutoff \<longrightarrow>
              mlem_after error num_measurements num_bins measurements spectrum nns_response
                normalized_response mlem_ratio (nat (k - mlem_index)) st = Inr st')"
  using dims le
proof (induction "nat (cutoff - mlem_index)" arbitrary: mlem_index st)
  case 0
  then have "\<not> mlem_index < cutoff" "mlem_index = cutoff" by simp_all
  then show ?case by (simp add: mlem_loop_done)
next
  case (Suc n)
  then have lt: "mlem_index < cutoff" by linarith
  have n: "n = nat (cutoff - (mlem_index + 1))" using Suc.hyps(2) by linarith
  let ?c = "list_ex (outside_tolerance error)
              (ratio_of num_measurements num_bins measurements spectrum nns_response st)"
  let ?st' = "spec_mlem_step num_measurements num_bins measurements spectrum nns_response
                normalized_response mlem_ratio st"
  note it = mlem_iteration_step [OF Suc.prems(1) sep, of error]
  have d': "dimensions num_measurements num_bins measurements spectrum nns_response
              normalized_response ?st'"
    by (rule dimensions_mlem_step [OF Suc.prems(1) sep])
  have shift: "mlem_after error num_measurements num_bins measurements spectrum nns_response
                 normalized_response mlem_ratio (Suc j) st
               = mlem_after error num_measurements num_bins measurements spectrum
                   nns_response normalized_response mlem_ratio j ?st'" for j
    by (simp add: it)
  have c0: "mlem_continues error num_measurements num_bins measurements spectrum
              nns_response normalized_response mlem_ratio 0 st = ?c"
    by (simp add: mlem_continues_def it)
  have v0: "mlem_converges error num_measurements num_bins measurements spectrum
              nns_response normalized_response mlem_ratio 0 st = (\<not> ?c)"
    by (simp add: mlem_converges_def it)
  have cS: "mlem_continues error num_measurements num_bins measurements spectrum
              nns_response normalized_response mlem_ratio (Suc j) st
            = mlem_continues error num_measurements num_bins measurements spectrum
                nns_response normalized_response mlem_ratio j ?st'" for j
    unfolding mlem_continues_def shift ..
  have vS: "mlem_converges error num_measurements num_bins measurements spectrum
              nns_response normalized_response mlem_ratio (Suc j) st
            = mlem_converges error num_measurements num_bins measurements spectrum
                nns_response normalized_response mlem_ratio j ?st'" for j
    unfolding mlem_converges_def shift ..
  show ?case
  proof (cases ?c)
    case True
    have le': "mlem_index + 1 \<le> cutoff" using lt by simp
    from Suc.hyps(1) [OF n d' le'] obtain k st'' where
      run: "mlem_loop cutoff error num_measurements num_bins measurements spectrum
              nns_response normalized_response mlem_ratio (mlem_index + 1) ?st'
            = Inr (k, st'')"
      and k: "mlem_index + 1 \<le> k" "k \<le> cutoff"
      and cont: "\<forall>j < nat (k - (mlem_index + 1)).
              mlem_continues error num_measurements num_bins measurements spectrum
                nns_response normalized_response mlem_ratio j ?st'"
      and conv: "k < cutoff \<longrightarrow>
              mlem_converges error num_measurements num_bins measurements spectrum
                nns_response normalized_response mlem_ratio (nat (k - (mlem_index + 1))) ?st' \<and>
              mlem_after error num_measurements num_bins measurements spectrum nns_response
                normalized_response mlem_ratio (Suc (nat (k - (mlem_index + 1)))) ?st'
              = Inr st''"
      and cap: "k = cutoff \<longrightarrow>
              mlem_after error num_measurements num_bins measurements spectrum nns_response
                normalized_response mlem_ratio (nat (k - (mlem_index + 1))) ?st' = Inr st''"
      by blast
    have suc: "nat (k - mlem_index) = Suc (nat (k - (mlem_index + 1)))" using k by linarith
    have all: "mlem_continues error num_measurements num_bins measurements spectrum
                nns_response normalized_response mlem_ratio j st"
      if "j < nat (k - mlem_index)" for j
    proof (cases j)
      case 0
      then show ?thesis using True c0 by simp
    next
      case (Suc j')
      with that suc have "j' < nat (k - (mlem_index + 1))" by simp
      with cont Suc show ?thesis by (simp add: cS)
    qed
    have "mlem_loop cutoff error num_measurements num_bins measurements spectrum
            nns_response normalized_response mlem_ratio mlem_index st = Inr (k, st'')"
      using True run by (simp add: mlem_loop_step [OF lt Suc.prems(1) sep])
    moreover have "mlem_index \<le> k" using k by simp
    moreover note k(2) all
    moreover have "k < cutoff \<longrightarrow>
              mlem_converges error num_measurements num_bins measurements spectrum
                nns_response normalized_response mlem_ratio (nat (k - mlem_index)) st \<and>
              mlem_after error num_measurements num_bins measurements spectrum nns_response
                normalized_response mlem_ratio (Suc (nat (k - mlem_index))) st = Inr st''"
      using conv unfolding suc vS shift .
    moreover have "k = cutoff \<longrightarrow>
              mlem_after error num_measurements num_bins measurements spectrum nns_response
                normalized_response mlem_ratio (nat (k - mlem_index)) st = Inr st''"
      using cap unfolding suc shift .
    ultimately show ?thesis by blast
  next
    case False
    have "mlem_loop cutoff error num_measurements num_bins measurements spectrum
            nns_response normalized_response mlem_ratio mlem_index st = Inr (mlem_index, ?st')"
      using False by (simp add: mlem_loop_step [OF lt Suc.prems(1) sep])
    moreover have "mlem_converges error num_measurements num_bins measurements spectrum
                nns_response normalized_response mlem_ratio 0 st"
      using False v0 by simp
    moreover have "mlem_after error num_measurements num_bins measurements spectrum
                nns_response normalized_response mlem_ratio (Suc 0) st = Inr ?st'"
      by (simp add: it)
    ultimately show ?thesis using lt by (intro exI [of _ mlem_index] exI [of _ ?st']) simp
  qed
qed

lemma map_first_convergence:
  assumes sep: "map_separate energy_correction measurements spectrum nns_response
      normalized_response mlem_ratio"
    and dims: "dimensions num_measurements num_bins measurements spectrum nns_response
                 normalized_response st"
    and le: "mlem_index \<le> cutoff"
    and two: "2 \<le> num_bins"
  shows "\<exists>k st'. map_loop energy_correction beta cutoff error num_measurements num_bins measurements spectrum
                   nns_response normalized_response mlem_ratio mlem_index st = Inr (k, st') \<and>
           mlem_index \<le> k \<and> k \<le> cutoff \<and>
           (\<forall>j < nat (k - mlem_index).
              map_continues energy_correction beta error num_measurements num_bins measurements spectrum
                nns_response normalized_response mlem_ratio j st) \<and>
           (k < cutoff \<longrightarrow>
              map_converges energy_correction beta error num_measurements num_bins measurements spectrum
                nns_response normalized_response mlem_ratio (nat (k - mlem_index)) st \<and>
              map_after energy_correction beta error num_measurements num_bins measurements spectrum nns_response
                normalized_response mlem_ratio (Suc (nat (k - mlem_index))) st = Inr st') \<and>
           (k = cutoff \<longrightarrow>
              map_after energy_correction beta error num_measurements num_bins measurements spectrum nns_response
                normalized_response mlem_ratio (nat (k - mlem_index)) st = Inr st')"
  using dims le
proof (induction "nat (cutoff - mlem_index)" arbitrary: mlem_index st)
  case 0
  then have "\<not> mlem_index < cutoff" "mlem_index = cutoff" by simp_all
  then show ?case by (simp add: map_loop_done)
next
  case (Suc n)
  then have lt: "mlem_index < cutoff" by linarith
  have n: "n = nat (cutoff - (mlem_index + 1))" using Suc.hyps(2) by linarith
  let ?c = "list_ex (outside_tolerance error)
              (ratio_of num_measurements num_bins measurements spectrum nns_response st)"
  let ?st' = "spec_map_step energy_correction beta num_measurements num_bins measurements spectrum nns_response
                normalized_response mlem_ratio st"
  note it = map_iteration_step [OF Suc.prems(1) sep two, of beta error]
  have d': "dimensions num_measurements num_bins measurements spectrum nns_response
              normalized_response ?st'"
    by (rule dimensions_map_step [OF Suc.prems(1) sep])
  have shift: "map_after energy_correction beta error num_measurements num_bins measurements spectrum nns_response
                 normalized_response mlem_ratio (Suc j) st
               = map_after energy_correction beta error num_measurements num_bins measurements spectrum
                   nns_response normalized_response mlem_ratio j ?st'" for j
    by (simp add: it)
  have c0: "map_continues energy_correction beta error num_measurements num_bins measurements spectrum
              nns_response normalized_response mlem_ratio 0 st = ?c"
    by (simp add: map_continues_def it)
  have v0: "map_converges energy_correction beta error num_measurements num_bins measurements spectrum
              nns_response normalized_response mlem_ratio 0 st = (\<not> ?c)"
    by (simp add: map_converges_def it)
  have cS: "map_continues energy_correction beta error num_measurements num_bins measurements spectrum
              nns_response normalized_response mlem_ratio (Suc j) st
            = map_continues energy_correction beta error num_measurements num_bins measurements spectrum
                nns_response normalized_response mlem_ratio j ?st'" for j
    unfolding map_continues_def shift ..
  have vS: "map_converges energy_correction beta error num_measurements num_bins measurements spectrum
              nns_response normalized_response mlem_ratio (Suc j) st
            = map_converges energy_correction beta error num_measurements num_bins measurements spectrum
                nns_response normalized_response mlem_ratio j ?st'" for j
    unfolding map_converges_def shift ..
  show ?case
  proof (cases ?c)
    case True
    have le': "mlem_index + 1 \<le> cutoff" using lt by simp
    from Suc.hyps(1) [OF n d' le'] obtain k st'' where
      run: "map_loop energy_correction beta cutoff error num_measurements num_bins measurements spectrum
              nns_response normalized_response mlem_ratio (mlem_index + 1) ?st'
            = Inr (k, st'')"
      and k: "mlem_index + 1 \<le> k" "k \<le> cutoff"
      and cont: "\<forall>j < nat (k - (mlem_index + 1)).
              map_continues energy_correction beta error num_measurements num_bins measurements spectrum
                nns_response normalized_response mlem_ratio j ?st'"
      and conv: "k < cutoff \<longrightarrow>
              map_converges energy_correction beta error num_measurements num_bins measurements spectrum
                nns_response normalized_response mlem_ratio (nat (k - (mlem_index + 1))) ?st' \<and>
              map_after energy_correction beta error num_measurements num_bins measurements spectrum nns_response
                normalized_response mlem_ratio (Suc (nat (k - (mlem_index + 1)))) ?st'
              = Inr st''"
      and cap: "k = cutoff \<longrightarrow>
              map_after energy_correction beta error num_measurements num_bins measurements spectrum nns_response
                normalized_response mlem_ratio (nat (k - (mlem_index + 1))) ?st' = Inr st''"
      by blast
    have suc: "nat (k - mlem_index) = Suc (nat (k - (mlem_index + 1)))" using k by linarith
    have all: "map_continues energy_correction beta error num_measurements num_bins measurements spectrum
                nns_response normalized_response mlem_ratio j st"
      if "j < nat (k - mlem_index)" for j
    proof (cases j)
      case 0
      then show ?thesis using True c0 by simp
    next
      case (Suc j')
      with that suc have "j' < nat (k - (mlem_index + 1))" by simp
      with cont Suc show ?thesis by (simp add: cS)
    qed
    have "map_loop energy_correction beta cutoff error num_measurements num_bins measurements spectrum
            nns_response normalized_response mlem_ratio mlem_index st = Inr (k, st'')"
      using True run by (simp add: map_loop_step [OF lt Suc.prems(1) sep two])
    moreover have "mlem_index \<le> k" using k by simp
    moreover note k(2) all
    moreover have "k < cutoff \<longrightarrow>
              map_converges energy_correction beta error num_measurements num_bins measurements spectrum
                nns_response normalized_response mlem_ratio (nat (k - mlem_index)) st \<and>
              map_after energy_correction beta error num_measurements num_bins measurements spectrum nns_response
                normalized_response mlem_ratio (Suc (nat (k - mlem_index))) st = Inr st''"
      using conv unfolding suc vS shift .
    moreover have "k = cutoff \<longrightarrow>
              map_after energy_correction beta error num_measurements num_bins measurements spectrum nns_response
                normalized_response mlem_ratio (nat (k - mlem_index)) st = Inr st''"
      using cap unfolding suc shift .
    ultimately show ?thesis by blast
  next
    case False
    have "map_loop energy_correction beta cutoff error num_measurements num_bins measurements spectrum
            nns_response normalized_response mlem_ratio mlem_index st = Inr (mlem_index, ?st')"
      using False by (simp add: map_loop_step [OF lt Suc.prems(1) sep two])
    moreover have "map_converges energy_correction beta error num_measurements num_bins measurements spectrum
                nns_response normalized_response mlem_ratio 0 st"
      using False v0 by simp
    moreover have "map_after energy_correction beta error num_measurements num_bins measurements spectrum
                nns_response normalized_response mlem_ratio (Suc 0) st = Inr ?st'"
      by (simp add: it)
    ultimately show ?thesis using lt by (intro exI [of _ mlem_index] exI [of _ ?st']) simp
  qed
qed

lemma mlem_continues_not_converges:
  "mlem_continues error num_measurements num_bins measurements spectrum nns_response
     normalized_response mlem_ratio j st \<Longrightarrow>
   \<not> mlem_converges error num_measurements num_bins measurements spectrum nns_response
       normalized_response mlem_ratio j st"
  by (auto simp: mlem_continues_def mlem_converges_def split: sum.splits)

lemma map_continues_not_converges:
  "map_continues energy_correction beta error num_measurements num_bins measurements
     spectrum nns_response normalized_response mlem_ratio j st \<Longrightarrow>
   \<not> map_converges energy_correction beta error num_measurements num_bins measurements
       spectrum nns_response normalized_response mlem_ratio j st"
  by (auto simp: map_continues_def map_converges_def split: sum.splits)

section \<open>The tolerance band\<close>

lemma dle_dlt: "x \<noteq> NaN \<Longrightarrow> y \<noteq> NaN \<Longrightarrow> dle x y \<longleftrightarrow> \<not> dlt y x"
  by (cases x; cases y) auto

lemma dadd_one_NaN: "dadd (Fin 1) e = NaN \<longleftrightarrow> e = NaN"
  by (cases e) auto

lemma dsub_one_NaN: "dsub (Fin 1) e = NaN \<longleftrightarrow> e = NaN"
  by (cases e) (auto simp: dsub_def)

lemma inside_tolerance:
  assumes "r \<noteq> NaN" "error \<noteq> NaN"
  shows "\<not> outside_tolerance error r
         \<longleftrightarrow> dlt (dsub (Fin 1) error) r \<and> dlt r (dadd (Fin 1) error)"
  using assms
  by (auto simp: outside_tolerance_def dge_def dle_dlt dadd_one_NaN dsub_one_NaN)

lemma NaN_not_outside: "r = NaN \<or> error = NaN \<Longrightarrow> \<not> outside_tolerance error r"
  by (cases error; cases r) (auto simp: outside_tolerance_def dge_def dsub_def)

lemma boundary_outside:
  "is_finite error \<Longrightarrow>
   outside_tolerance error (dadd (Fin 1) error) \<and> outside_tolerance error (dsub (Fin 1) error)"
  by (cases error) (auto simp: outside_tolerance_def dge_def dsub_def)

section \<open>runMAP with fewer than two bins\<close>

lemma energy_correction_loop_needs_two_bins:
  assumes len: "int (length (st spectrum)) = num_bins"
    and small: "num_bins < 2"
    and ne: "energy_correction \<noteq> spectrum"
  shows "energy_correction_loop energy_correction beta num_bins spectrum st = Inl OutOfRange"
proof (cases "num_bins = 1")
  case True
  then have "rd (clear st energy_correction) spectrum 0 = Inr (st spectrum ! 0)"
    and "rd (clear st energy_correction) spectrum 1 = Inl OutOfRange"
    using len ne by (simp_all add: rd_def vec_at_def clear_def)
  then show ?thesis by (simp add: energy_correction_loop_def Let_def)
next
  case False
  then have "num_bins = 0" using len small by linarith
  then have "rd (clear st energy_correction) spectrum 0 = Inl OutOfRange"
    using len ne by (simp add: rd_def vec_at_def clear_def)
  then show ?thesis by (simp add: energy_correction_loop_def Let_def)
qed

lemma map_iteration_needs_two_bins:
  assumes dims: "dimensions num_measurements num_bins measurements spectrum nns_response
                   normalized_response st"
    and sep: "map_separate energy_correction measurements spectrum nns_response
                normalized_response mlem_ratio"
    and small: "num_bins < 2"
  shows "map_iteration energy_correction beta error num_measurements num_bins measurements
           spectrum nns_response normalized_response mlem_ratio st = Inl OutOfRange"
proof -
  note d = dimensionsD [OF dims] and m = map_separateD [OF sep]
  note s = mlem_separateD [OF m(1)]
  let ?R = "matrix st nns_response"
  let ?est = "spec_estimated ?R (st spectrum) (nat num_measurements) (nat num_bins)"
  let ?ratio = "ratio_of num_measurements num_bins measurements spectrum nns_response st"
  let ?corr = "correction_of num_measurements num_bins measurements spectrum nns_response st"
  let ?st1 = "clear st mlem_ratio"
  let ?st2 = "st(mlem_ratio := ?ratio)"
  have rows1: "list_all (\<lambda>row. int (length (?st1 row)) = num_bins) nns_response"
    using d(3) s(7) by (auto simp: list_all_iff clear_def)
  have rows2: "list_all (\<lambda>row. int (length (?st2 row)) = num_bins) nns_response"
    using d(3) s(7) by (auto simp: list_all_iff)
  have e: "mlem_estimate_loop num_measurements num_bins nns_response spectrum ?st1 = Inr ?est"
    using mlem_estimate_loop_spec [where st = ?st1 and spectrum = spectrum, OF d(2) rows1]
      d(4) s(1,7)
    by (simp add: clear_def matrix_upd)
  have r: "mlem_ratio_loop num_measurements measurements ?est mlem_ratio ?st1 = Inr ?st2"
    using mlem_ratio_loop_spec [where st = ?st1 and measurements = measurements
        and mlem_ratio = mlem_ratio and mlem_estimate = ?est
        and num_measurements = num_measurements] d(1,6) s(5)
    by (simp add: clear_def spec_estimated_def ratio_of_def)
  have c: "mlem_correction_loop num_measurements num_bins nns_response mlem_ratio ?st2
             = Inr ?corr"
    using mlem_correction_loop_spec [where st = ?st2 and mlem_ratio = mlem_ratio,
        OF d(2) rows2] d(6) s(7)
    by (simp add: matrix_upd correction_of_def)
  have g: "energy_correction_loop energy_correction beta num_bins spectrum ?st2
             = Inl OutOfRange"
    using energy_correction_loop_needs_two_bins [where st = ?st2 and spectrum = spectrum
        and energy_correction = energy_correction and num_bins = num_bins and beta = beta]
      d(4) s(1) m(2) small
    by simp
  show ?thesis
    unfolding map_iteration_def Let_def
    by (simp only: e r c g bindE_Inr bindE_Inl)
qed

lemma runMAP_needs_two_bins:
  assumes "0 < cutoff"
    and "dimensions num_measurements num_bins measurements spectrum nns_response
           normalized_response st"
    and "map_separate energy_correction measurements spectrum nns_response
           normalized_response mlem_ratio"
    and "num_bins < 2"
  shows "runMAP energy_correction beta cutoff error num_measurements num_bins measurements
           spectrum nns_response normalized_response mlem_ratio st = Inl OutOfRange"
  unfolding runMAP_def using assms(1)
  by (subst map_loop.simps) (simp add: map_iteration_needs_two_bins [OF assms(2,3,4)])

section \<open>A zero entry of the spectrum\<close>

lemma zero_update: "is_finite c \<Longrightarrow> nonzero d \<Longrightarrow> ddiv (dmul (Fin 0) c) d = Fin 0"
  by (cases c; cases d) (auto simp: inf_of_def)

lemma mlem_step_keeps_zero:
  assumes sep: "mlem_separate measurements spectrum nns_response normalized_response mlem_ratio"
    and b: "b < nat num_bins"
    and zero: "s spectrum ! b = Fin 0"
    and ok: "mlem_keeps_zero num_measurements num_bins measurements spectrum nns_response
               normalized_response b s"
  shows "spec_mlem_step num_measurements num_bins measurements spectrum nns_response
           normalized_response mlem_ratio s spectrum ! b = Fin 0"
  using b zero ok
  by (simp add: spec_mlem_step_def spec_update_def mlem_keeps_zero_def zero_update)

lemma map_step_keeps_zero:
  assumes sep: "map_separate energy_correction measurements spectrum nns_response
                  normalized_response mlem_ratio"
    and b: "b < nat num_bins"
    and zero: "s spectrum ! b = Fin 0"
    and ok: "map_keeps_zero beta num_measurements num_bins measurements spectrum nns_response
               normalized_response b s"
  shows "spec_map_step energy_correction beta num_measurements num_bins measurements spectrum
           nns_response normalized_response mlem_ratio s spectrum ! b = Fin 0"
  using b zero ok
  by (simp add: spec_map_step_def spec_map_update_def map_keeps_zero_def zero_update)

section \<open>runMAP with beta = 0\<close>









section \<open>Example calls\<close>

lemma upt_2: "[0..<2] = [0, Suc 0]"
  by (simp add: upt_rec numeral_2_eq_2)

lemma upt_3: "[0..<3] = [0, Suc 0, 2]"
  by (simp add: upt_rec numeral_3_eq_3 numeral_2_eq_2)

lemmas formulas =
  ratio_of_def correction_of_def spec_ratio_def spec_estimated_def spec_correction_def
  spec_update_def spec_map_update_def spec_energy_correction_def matrix_def dsum_def
  dpow2_def dsub_def upt_2 upt_3

lemma single_bin_run:
  "runMLEM 50 (Fin (1 / 100)) 1 1 0 1 [2] 3 4
     ((\<lambda>a. [])(0 := [Fin 5], 1 := [Fin 1], 2 := [Fin 1], 3 := [Fin 1]))
   = Inr (1, (\<lambda>a. [])(0 := [Fin 5], 1 := [Fin 1], 2 := [Fin 1], 3 := [Fin 1],
                4 := [Fin 5], 1 := [Fin 5], 4 := [Fin 1], 1 := [Fin 5]))"
proof -
  let ?st = "(\<lambda>a. [])(0 := [Fin 5], 1 := [Fin 1], 2 := [Fin 1], 3 := [Fin 1]) :: store"
  let ?st1 = "?st(4 := [Fin 5], 1 := [Fin 5])"
  let ?st2 = "?st1(4 := [Fin 1], 1 := [Fin 5])"
  have sep: "mlem_separate 0 1 [2] 3 4" by (simp add: mlem_separate_def separate_def)
  have d0: "dimensions 1 1 0 1 [2] 3 ?st" by (simp add: dimensions_def)
  have d1: "dimensions 1 1 0 1 [2] 3 ?st1" by (simp add: dimensions_def)
  have r0: "ratio_of 1 1 0 1 [2] ?st = [Fin 5]" by (simp add: formulas)
  have r1: "ratio_of 1 1 0 1 [2] ?st1 = [Fin 1]" by (simp add: formulas)
  have s0: "spec_mlem_step 1 1 0 1 [2] 3 4 ?st = ?st1"
    unfolding spec_mlem_step_def r0 by (simp add: formulas)
  have s1: "spec_mlem_step 1 1 0 1 [2] 3 4 ?st1 = ?st2"
    unfolding spec_mlem_step_def r1 by (simp add: formulas)
  have o0: "list_ex (outside_tolerance (Fin (1 / 100))) [Fin 5]"
    by (simp add: outside_tolerance_def dge_def)
  have o1: "\<not> list_ex (outside_tolerance (Fin (1 / 100))) [Fin 1]"
    by (simp add: outside_tolerance_def dge_def dsub_def)
  have l0: "(0::int) < 50" and l1: "(0::int) + 1 < 50" by simp_all
  note e0 = mlem_loop_step [OF l0 d0 sep, where error = "Fin (1 / 100)",
      unfolded r0 s0 if_P [OF o0]]
  note e1 = mlem_loop_step [OF l1 d1 sep, where error = "Fin (1 / 100)",
      unfolded r1 s1 if_not_P [OF o1]]
  show ?thesis
    unfolding runMLEM_def e0 e1 by simp
qed

lemma two_bin_map_run:
  "runMAP 5 (Fin 1) 3 (Fin (1 / 100)) 1 2 0 1 [2] 3 4
     ((\<lambda>a. [])(0 := [Fin 4], 1 := [Fin 1, Fin 3], 2 := [Fin 1, Fin 1], 3 := [Fin 1, Fin 1]))
   = Inr (0, (\<lambda>a. [])(0 := [Fin 4], 1 := [Fin 1, Fin 3], 2 := [Fin 1, Fin 1],
                3 := [Fin 1, Fin 1],
                4 := [Fin 1], 5 := [Fin 4, Fin 4], 1 := [Fin (1 / 5), Fin (3 / 5)]))"
proof -
  let ?st = "(\<lambda>a. [])(0 := [Fin 4], 1 := [Fin 1, Fin 3], 2 := [Fin 1, Fin 1],
                3 := [Fin 1, Fin 1]) :: store"
  let ?st1 = "?st(4 := [Fin 1], 5 := [Fin 4, Fin 4], 1 := [Fin (1 / 5), Fin (3 / 5)])"
  have sep: "map_separate 5 0 1 [2] 3 4" by (simp add: map_separate_def separate_def)
  have d0: "dimensions 1 2 0 1 [2] 3 ?st" by (simp add: dimensions_def)
  have two: "(2::int) \<le> 2" by simp
  have r0: "ratio_of 1 2 0 1 [2] ?st = [Fin 1]" by (simp add: formulas)
  have s0: "spec_map_step 5 (Fin 1) 1 2 0 1 [2] 3 4 ?st = ?st1"
    unfolding spec_map_step_def r0 by (simp add: formulas)
  have o0: "\<not> list_ex (outside_tolerance (Fin (1 / 100))) [Fin 1]"
    by (simp add: outside_tolerance_def dge_def dsub_def)
  have l0: "(0::int) < 3" by simp
  note e0 = map_loop_step [OF l0 d0 sep two, where error = "Fin (1 / 100)" and beta = "Fin 1",
      unfolded r0 s0 if_not_P [OF o0]]
  show ?thesis
    unfolding runMAP_def e0 by simp
qed

section \<open>The claims\<close>

subsection \<open>One iteration of runMLEM\<close>

text \<open>
  Claim C1. In a call whose vectors have the announced lengths and whose written vectors
  are objects of their own, an iteration of \<open>runMLEM\<close> computes
  \<open>estimated[m] = \<Sum>b. ResponseMatrix[m][b] * spectrum[b]\<close>, then
  \<open>ratio[m] = measured[m] / estimated[m]\<close>, then
  \<open>correction[b] = \<Sum>m. ResponseMatrix[m][b] * ratio[m]\<close> and finally replaces
  \<open>spectrum[b]\<close> with \<open>spectrum[b] * correction[b] / normalization[b]\<close>, each from the
  values before it: the iteration ends in the store with the new ratio vector and the new
  spectrum. Every iteration that the call executes starts in a store of the same
  dimensions, so this holds of each of them.
\<close>

theorem mlem_iteration_follows_the_formulas:
  assumes dims: "dimensions num_measurements num_bins measurements spectrum nns_response
                   normalized_response st"
    and sep: "mlem_separate measurements spectrum nns_response normalized_response mlem_ratio"
    and estimated: "estimated = spec_estimated (matrix st nns_response) (st spectrum)
                      (nat num_measurements) (nat num_bins)"
    and ratio: "ratio = spec_ratio (st measurements) estimated (nat num_measurements)"
    and correction: "correction = spec_correction (matrix st nns_response) ratio
                       (nat num_measurements) (nat num_bins)"
  shows "mlem_iteration error num_measurements num_bins measurements spectrum nns_response
           normalized_response mlem_ratio st
         = Inr (list_ex (outside_tolerance error) ratio,
             st(mlem_ratio := ratio,
                spectrum := spec_update (st spectrum) correction (st normalized_response)
                              (nat num_bins))) \<and>
         mlem_each_iteration
           (dimensions num_measurements num_bins measurements spectrum nns_response
              normalized_response)
           cutoff error num_measurements num_bins measurements spectrum nns_response
           normalized_response mlem_ratio 0 st"
proof -
  have "mlem_each_iteration
          (\<lambda>s. dimensions num_measurements num_bins measurements spectrum nns_response
                 normalized_response s \<and> True)
          cutoff error num_measurements num_bins measurements spectrum nns_response
          normalized_response mlem_ratio 0 st"
    using mlem_run_invariant [where I = "\<lambda>s. True" and P = "\<lambda>s. True", OF sep _ dims]
      mlem_each_iteration_True
    by blast
  then show ?thesis
    using mlem_iteration_spec [OF dims sep, of error]
    by (simp add: estimated ratio correction ratio_of_def correction_of_def)
qed

theorem mlem_iteration_example:
  "dimensions 2 2 0 1 [2, 3] 4
     ((\<lambda>a. [])(0 := [Fin 6, Fin 14], 1 := [Fin 1, Fin 1], 2 := [Fin 1, Fin 2],
                 3 := [Fin 3, Fin 4], 4 := [Fin 4, Fin 6])) \<and>
   mlem_separate 0 1 [2, 3] 4 5 \<and>
   mlem_iteration (Fin (1 / 100)) 2 2 0 1 [2, 3] 4 5
     ((\<lambda>a. [])(0 := [Fin 6, Fin 14], 1 := [Fin 1, Fin 1], 2 := [Fin 1, Fin 2],
                 3 := [Fin 3, Fin 4], 4 := [Fin 4, Fin 6]))
   = Inr (True,
       (\<lambda>a. [])(0 := [Fin 6, Fin 14], 1 := [Fin 1, Fin 1], 2 := [Fin 1, Fin 2],
                 3 := [Fin 3, Fin 4], 4 := [Fin 4, Fin 6],
                 5 := [Fin 2, Fin 2], 1 := [Fin 2, Fin 2]))"
proof -
  let ?st = "(\<lambda>a. [])(0 := [Fin 6, Fin 14], 1 := [Fin 1, Fin 1], 2 := [Fin 1, Fin 2],
                 3 := [Fin 3, Fin 4], 4 := [Fin 4, Fin 6]) :: store"
  have h1: "dimensions 2 2 0 1 [2, 3] 4 ?st" by (simp add: dimensions_def)
  have h2: "mlem_separate 0 1 [2, 3] 4 5" by (simp add: mlem_separate_def separate_def)
  have "mlem_iteration (Fin (1 / 100)) 2 2 0 1 [2, 3] 4 5 ?st
        = Inr (list_ex (outside_tolerance (Fin (1 / 100)))
                 (spec_ratio (?st 0) (spec_estimated (matrix ?st [2, 3]) (?st 1) (nat 2) (nat 2))
                    (nat 2)),
            ?st(5 := spec_ratio (?st 0)
                       (spec_estimated (matrix ?st [2, 3]) (?st 1) (nat 2) (nat 2)) (nat 2),
                1 := spec_update (?st 1)
                       (spec_correction (matrix ?st [2, 3])
                          (spec_ratio (?st 0)
                             (spec_estimated (matrix ?st [2, 3]) (?st 1) (nat 2) (nat 2))
                             (nat 2))
                          (nat 2) (nat 2))
                       (?st 4) (nat 2)))"
    using mlem_iteration_follows_the_formulas
      [where st = ?st and cutoff = 1 and error = "Fin (1 / 100)", OF h1 h2 refl refl refl]
    by blast
  also have "spec_estimated (matrix ?st [2, 3]) (?st 1) (nat 2) (nat 2) = [Fin 3, Fin 7]"
    by (simp add: spec_estimated_def matrix_def upt_2 dsum_def)
  also have "spec_ratio (?st 0) [Fin 3, Fin 7] (nat 2) = [Fin 2, Fin 2]"
    by (simp add: spec_ratio_def upt_2)
  also have "spec_correction (matrix ?st [2, 3]) [Fin 2, Fin 2] (nat 2) (nat 2)
               = [Fin 8, Fin 12]"
    by (simp add: spec_correction_def matrix_def upt_2 dsum_def)
  also have "spec_update (?st 1) [Fin 8, Fin 12] (?st 4) (nat 2) = [Fin 2, Fin 2]"
    by (simp add: spec_update_def upt_2)
  also have "list_ex (outside_tolerance (Fin (1 / 100))) [Fin 2, Fin 2] = True"
    by (simp add: outside_tolerance_def dge_def)
  finally show ?thesis
    by (intro conjI h1 h2)
qed

subsection \<open>When the loop stops\<close>

text \<open>
  Claim C2, as the code has it. An iteration of \<open>runMLEM\<close> (and identically of \<open>runMAP\<close>)
  sets \<open>continue_mlem\<close> exactly when some ratio of that iteration satisfies
  \<open>ratio >= 1+error\<close> or \<open>ratio <= 1-error\<close>, a ratio on either boundary included; then
  the loop goes on to the next iteration, and otherwise it returns the current index. So
  the loop ends before the cutoff only if no ratio of its last iteration satisfies either
  comparison. For a ratio and a tolerance that are not NaN this is
  \<open>1-error < ratio < 1+error\<close>; a NaN ratio (from \<open>0/0\<close>) or a NaN tolerance satisfies
  neither comparison and never forces another iteration.
\<close>

theorem loop_continues_iff_a_ratio_is_outside:
  assumes dims: "dimensions num_measurements num_bins measurements spectrum nns_response
                   normalized_response st"
    and lt: "mlem_index < cutoff"
  shows "(mlem_separate measurements spectrum nns_response normalized_response mlem_ratio \<longrightarrow>
          (\<exists>continue_mlem st'.
             mlem_iteration error num_measurements num_bins measurements spectrum
               nns_response normalized_response mlem_ratio st = Inr (continue_mlem, st') \<and>
             (continue_mlem \<longleftrightarrow> list_ex (outside_tolerance error) (st' mlem_ratio)) \<and>
             mlem_loop cutoff error num_measurements num_bins measurements spectrum
               nns_response normalized_response mlem_ratio mlem_index st
             = (if continue_mlem
                then mlem_loop cutoff error num_measurements num_bins measurements spectrum
                       nns_response normalized_response mlem_ratio (mlem_index + 1) st'
                else Inr (mlem_index, st'))) \<and>
          (\<forall>k st'. mlem_loop cutoff error num_measurements num_bins measurements spectrum
                      nns_response normalized_response mlem_ratio mlem_index st
                    = Inr (k, st') \<and> k < cutoff
             \<longrightarrow> \<not> list_ex (outside_tolerance error) (st' mlem_ratio))) \<and>
         (map_separate energy_correction measurements spectrum nns_response
            normalized_response mlem_ratio \<and> 2 \<le> num_bins \<longrightarrow>
          (\<exists>continue_mlem st'.
             map_iteration energy_correction beta error num_measurements num_bins
               measurements spectrum nns_response normalized_response mlem_ratio st
             = Inr (continue_mlem, st') \<and>
             (continue_mlem \<longleftrightarrow> list_ex (outside_tolerance error) (st' mlem_ratio)) \<and>
             map_loop energy_correction beta cutoff error num_measurements num_bins
               measurements spectrum nns_response normalized_response mlem_ratio mlem_index st
             = (if continue_mlem
                then map_loop energy_correction beta cutoff error num_measurements num_bins
                       measurements spectrum nns_response normalized_response mlem_ratio
                       (mlem_index + 1) st'
                else Inr (mlem_index, st'))) \<and>
          (\<forall>k st'. map_loop energy_correction beta cutoff error num_measurements num_bins
                      measurements spectrum nns_response normalized_response mlem_ratio
                      mlem_index st
                    = Inr (k, st') \<and> k < cutoff
             \<longrightarrow> \<not> list_ex (outside_tolerance error) (st' mlem_ratio))) \<and>
         (\<forall>r. outside_tolerance error r
               \<longleftrightarrow> dge r (dadd (Fin 1) error) \<or> dle r (dsub (Fin 1) error)) \<and>
         (\<forall>r. r \<noteq> NaN \<and> error \<noteq> NaN \<longrightarrow>
               (\<not> outside_tolerance error r
                \<longleftrightarrow> dlt (dsub (Fin 1) error) r \<and> dlt r (dadd (Fin 1) error))) \<and>
         (\<forall>r. r = NaN \<or> error = NaN \<longrightarrow> \<not> outside_tolerance error r) \<and>
         (is_finite error \<longrightarrow>
            outside_tolerance error (dadd (Fin 1) error) \<and>
            outside_tolerance error (dsub (Fin 1) error))"
proof (intro conjI impI allI)
  assume sep: "mlem_separate measurements spectrum nns_response normalized_response mlem_ratio"
  let ?c = "list_ex (outside_tolerance error)
              (ratio_of num_measurements num_bins measurements spectrum nns_response st)"
  let ?st' = "spec_mlem_step num_measurements num_bins measurements spectrum nns_response
                normalized_response mlem_ratio st"
  have "mlem_iteration error num_measurements num_bins measurements spectrum
               nns_response normalized_response mlem_ratio st = Inr (?c, ?st') \<and>
             (?c \<longleftrightarrow> list_ex (outside_tolerance error) (?st' mlem_ratio)) \<and>
             mlem_loop cutoff error num_measurements num_bins measurements spectrum
               nns_response normalized_response mlem_ratio mlem_index st
             = (if ?c
                then mlem_loop cutoff error num_measurements num_bins measurements spectrum
                       nns_response normalized_response mlem_ratio (mlem_index + 1) ?st'
                else Inr (mlem_index, ?st'))"
    by (simp only: mlem_iteration_step [OF dims sep] mlem_step_ratio [OF sep]
          mlem_loop_step [OF lt dims sep] simp_thms)
  then show "\<exists>continue_mlem st'.
             mlem_iteration error num_measurements num_bins measurements spectrum
               nns_response normalized_response mlem_ratio st = Inr (continue_mlem, st') \<and>
             (continue_mlem \<longleftrightarrow> list_ex (outside_tolerance error) (st' mlem_ratio)) \<and>
             mlem_loop cutoff error num_measurements num_bins measurements spectrum
               nns_response normalized_response mlem_ratio mlem_index st
             = (if continue_mlem
                then mlem_loop cutoff error num_measurements num_bins measurements spectrum
                       nns_response normalized_response mlem_ratio (mlem_index + 1) st'
                else Inr (mlem_index, st'))"
    by (intro exI)
next
  fix k st'
  assume sep: "mlem_separate measurements spectrum nns_response normalized_response mlem_ratio"
    and run: "mlem_loop cutoff error num_measurements num_bins measurements spectrum
                nns_response normalized_response mlem_ratio mlem_index st
              = Inr (k, st') \<and> k < cutoff"
  have le: "mlem_index \<le> cutoff" using lt by simp
  from mlem_loop_count [OF sep dims le, of error] run
  show "\<not> list_ex (outside_tolerance error) (st' mlem_ratio)" by auto
next
  assume "map_separate energy_correction measurements spectrum nns_response
            normalized_response mlem_ratio \<and> 2 \<le> num_bins"
  then have sep: "map_separate energy_correction measurements spectrum nns_response
            normalized_response mlem_ratio" and two: "2 \<le> num_bins" by simp_all
  let ?c = "list_ex (outside_tolerance error)
              (ratio_of num_measurements num_bins measurements spectrum nns_response st)"
  let ?st' = "spec_map_step energy_correction beta num_measurements num_bins measurements
                spectrum nns_response normalized_response mlem_ratio st"
  have "map_iteration energy_correction beta error num_measurements num_bins
               measurements spectrum nns_response normalized_response mlem_ratio st
             = Inr (?c, ?st') \<and>
             (?c \<longleftrightarrow> list_ex (outside_tolerance error) (?st' mlem_ratio)) \<and>
             map_loop energy_correction beta cutoff error num_measurements num_bins
               measurements spectrum nns_response normalized_response mlem_ratio mlem_index st
             = (if ?c
                then map_loop energy_correction beta cutoff error num_measurements num_bins
                       measurements spectrum nns_response normalized_response mlem_ratio
                       (mlem_index + 1) ?st'
                else Inr (mlem_index, ?st'))"
    by (simp only: map_iteration_step [OF dims sep two] map_step_ratio [OF sep]
          map_loop_step [OF lt dims sep two] simp_thms)
  then show "\<exists>continue_mlem st'.
             map_iteration energy_correction beta error num_measurements num_bins
               measurements spectrum nns_response normalized_response mlem_ratio st
             = Inr (continue_mlem, st') \<and>
             (continue_mlem \<longleftrightarrow> list_ex (outside_tolerance error) (st' mlem_ratio)) \<and>
             map_loop energy_correction beta cutoff error num_measurements num_bins
               measurements spectrum nns_response normalized_response mlem_ratio mlem_index st
             = (if continue_mlem
                then map_loop energy_correction beta cutoff error num_measurements num_bins
                       measurements spectrum nns_response normalized_response mlem_ratio
                       (mlem_index + 1) st'
                else Inr (mlem_index, st'))"
    by (intro exI)
next
  fix k st'
  assume "map_separate energy_correction measurements spectrum nns_response
            normalized_response mlem_ratio \<and> 2 \<le> num_bins"
    and run: "map_loop energy_correction beta cutoff error num_measurements num_bins
                      measurements spectrum nns_response normalized_response mlem_ratio
                      mlem_index st
                    = Inr (k, st') \<and> k < cutoff"
  then have sep: "map_separate energy_correction measurements spectrum nns_response
            normalized_response mlem_ratio" and two: "2 \<le> num_bins" by simp_all
  have le: "mlem_index \<le> cutoff" using lt by simp
  from map_loop_count [OF sep dims le two, of beta error] run
  show "\<not> list_ex (outside_tolerance error) (st' mlem_ratio)" by auto
next
  fix r
  show "outside_tolerance error r
          \<longleftrightarrow> dge r (dadd (Fin 1) error) \<or> dle r (dsub (Fin 1) error)"
    by (simp add: outside_tolerance_def)
next
  fix r
  assume "r \<noteq> NaN \<and> error \<noteq> NaN"
  then show "\<not> outside_tolerance error r
             \<longleftrightarrow> dlt (dsub (Fin 1) error) r \<and> dlt r (dadd (Fin 1) error)"
    by (simp add: inside_tolerance)
next
  fix r
  assume "r = NaN \<or> error = NaN"
  then show "\<not> outside_tolerance error r" by (rule NaN_not_outside)
next
  assume "is_finite error"
  then show "outside_tolerance error (dadd (Fin 1) error)"
    by (rule boundary_outside [THEN conjunct1])
next
  assume "is_finite error"
  then show "outside_tolerance error (dsub (Fin 1) error)"
    by (rule boundary_outside [THEN conjunct2])
qed

theorem loop_continues_example:
  "dimensions 1 1 0 1 [2] 3
     ((\<lambda>a. [])(0 := [Fin 5], 1 := [Fin 1], 2 := [Fin 1], 3 := [Fin 1])) \<and>
   (0::int) < 50 \<and>
   mlem_separate 0 1 [2] 3 4 \<and>
   mlem_loop 50 (Fin (1 / 100)) 1 1 0 1 [2] 3 4 0
     ((\<lambda>a. [])(0 := [Fin 5], 1 := [Fin 1], 2 := [Fin 1], 3 := [Fin 1]))
   = mlem_loop 50 (Fin (1 / 100)) 1 1 0 1 [2] 3 4 (0 + 1)
       ((\<lambda>a. [])(0 := [Fin 5], 1 := [Fin 1], 2 := [Fin 1], 3 := [Fin 1],
                   4 := [Fin 5], 1 := [Fin 5])) \<and>
   outside_tolerance (Fin (1 / 100)) (Fin (101 / 100)) \<and>
   outside_tolerance (Fin (1 / 100)) (Fin (99 / 100)) \<and>
   \<not> outside_tolerance (Fin (1 / 100)) (Fin 1) \<and>
   \<not> outside_tolerance (Fin (1 / 100)) NaN"
proof -
  let ?st = "(\<lambda>a. [])(0 := [Fin 5], 1 := [Fin 1], 2 := [Fin 1], 3 := [Fin 1]) :: store"
  let ?st1 = "?st(4 := [Fin 5], 1 := [Fin 5])"
  have sep: "mlem_separate 0 1 [2] 3 4" by (simp add: mlem_separate_def separate_def)
  have d0: "dimensions 1 1 0 1 [2] 3 ?st" by (simp add: dimensions_def)
  have l0: "(0::int) < 50" by simp
  note T = loop_continues_iff_a_ratio_is_outside
    [OF d0 l0, where error = "Fin (1 / 100)" and mlem_ratio = 4 and energy_correction = 5
      and beta = "Fin 1"]
  have r0: "ratio_of 1 1 0 1 [2] ?st = [Fin 5]" by (simp add: formulas)
  have s0: "spec_mlem_step 1 1 0 1 [2] 3 4 ?st = ?st1"
    unfolding spec_mlem_step_def r0 by (simp add: formulas)
  have o0: "list_ex (outside_tolerance (Fin (1 / 100))) [Fin 5]"
    by (simp add: outside_tolerance_def dge_def)
  have it: "mlem_iteration (Fin (1 / 100)) 1 1 0 1 [2] 3 4 ?st = Inr (True, ?st1)"
    unfolding mlem_iteration_step [OF d0 sep] r0 s0 using o0 by simp
  from T [THEN conjunct1, rule_format, OF sep, THEN conjunct1]
  obtain c st' where
    c: "mlem_iteration (Fin (1 / 100)) 1 1 0 1 [2] 3 4 ?st = Inr (c, st')"
    and loop: "mlem_loop 50 (Fin (1 / 100)) 1 1 0 1 [2] 3 4 0 ?st
       = (if c then mlem_loop 50 (Fin (1 / 100)) 1 1 0 1 [2] 3 4 (0 + 1) st'
          else Inr (0, st'))"
    by (elim exE conjE)
  from c it have "c = True" "st' = ?st1" by simp_all
  with loop have a: "mlem_loop 50 (Fin (1 / 100)) 1 1 0 1 [2] 3 4 0 ?st
       = mlem_loop 50 (Fin (1 / 100)) 1 1 0 1 [2] 3 4 (0 + 1) ?st1"
    by (simp only: if_True)
  note band = T [THEN conjunct2, THEN conjunct2, THEN conjunct1, rule_format]
  have b1: "outside_tolerance (Fin (1 / 100)) (Fin (101 / 100))"
    unfolding band by (simp add: dge_def)
  have b2: "outside_tolerance (Fin (1 / 100)) (Fin (99 / 100))"
    unfolding band by (simp add: dge_def dsub_def)
  have b3: "\<not> outside_tolerance (Fin (1 / 100)) (Fin 1)"
    unfolding band by (simp add: dge_def dsub_def)
  have b4: "\<not> outside_tolerance (Fin (1 / 100)) NaN"
    by (rule T [THEN conjunct2, THEN conjunct2, THEN conjunct2, THEN conjunct2,
          THEN conjunct1, rule_format])
       simp
  show ?thesis
    by (intro conjI d0 l0 sep a b1 b2 b3 b4)
qed

text \<open>
  The claim as stated, with "only if \<open>1-error < ratio[m] < 1+error\<close> for every \<open>m\<close>", fails
  for a measurement of 0 whose estimate is 0: the ratio is NaN, the call returns 0 before
  the cutoff 1, and NaN is not strictly inside the band.
\<close>

theorem nan_ratio_ends_the_loop:
  "runMLEM 1 (Fin (1 / 100)) 1 1 0 1 [2] 3 4
     ((\<lambda>a. [])(0 := [Fin 0], 1 := [Fin 1], 2 := [Fin 0], 3 := [Fin 0]))
   = Inr (0, (\<lambda>a. [])(0 := [Fin 0], 1 := [Fin 1], 2 := [Fin 0], 3 := [Fin 0],
                4 := [NaN], 1 := [NaN])) \<and>
   (0::int) < 1 \<and>
   \<not> (dlt (dsub (Fin 1) (Fin (1 / 100))) NaN \<and> dlt NaN (dadd (Fin 1) (Fin (1 / 100))))"
proof -
  let ?st = "(\<lambda>a. [])(0 := [Fin 0], 1 := [Fin 1], 2 := [Fin 0], 3 := [Fin 0]) :: store"
  let ?st1 = "?st(4 := [NaN], 1 := [NaN])"
  have sep: "mlem_separate 0 1 [2] 3 4" by (simp add: mlem_separate_def separate_def)
  have d0: "dimensions 1 1 0 1 [2] 3 ?st" by (simp add: dimensions_def)
  have r0: "ratio_of 1 1 0 1 [2] ?st = [NaN]" by (simp add: formulas)
  have s0: "spec_mlem_step 1 1 0 1 [2] 3 4 ?st = ?st1"
    unfolding spec_mlem_step_def r0 by (simp add: formulas)
  have o0: "\<not> list_ex (outside_tolerance (Fin (1 / 100))) [NaN]"
    by (simp add: outside_tolerance_def dge_def dsub_def)
  have l0: "(0::int) < 1" by simp
  note e0 = mlem_loop_step [OF l0 d0 sep, where error = "Fin (1 / 100)",
      unfolded r0 s0 if_not_P [OF o0]]
  show ?thesis
    unfolding runMLEM_def e0 by simp
qed

subsection \<open>The returned iteration count\<close>

text \<open>
  Claim C3. For a positive cutoff and a well-formed call (for \<open>runMAP\<close>, with at least two
  bins), \<open>runMLEM\<close> and \<open>runMAP\<close> return: the result is a count \<open>k\<close> and a store, with
  \<open>0 \<le> k \<le> cutoff\<close>. The count is the index of the first iteration whose convergence
  test passes, and the cutoff if no test passes among the first \<open>cutoff\<close> iterations: the
  test fails in every iteration before \<open>k\<close>; if \<open>k < cutoff\<close>, the test of iteration \<open>k\<close>
  passes and the returned store is the one after iterations \<open>0 .. k\<close>; if \<open>k = cutoff\<close>,
  the returned store is the one after iterations \<open>0 .. cutoff - 1\<close>; and every index below
  the cutoff whose test passes after failing tests only is \<open>k\<close>. In particular the count is
  0 if no ratio of the first iteration is outside the tolerance, and the cutoff if in every
  executed iteration some ratio is outside the tolerance.
\<close>

theorem iteration_count_never_exceeds_cutoff:
  assumes pos: "0 < cutoff"
    and dims: "dimensions num_measurements num_bins measurements spectrum nns_response
                 normalized_response st"
  shows "(mlem_separate measurements spectrum nns_response normalized_response mlem_ratio \<longrightarrow>
          (\<exists>k st'. runMLEM cutoff error num_measurements num_bins measurements spectrum
                      nns_response normalized_response mlem_ratio st = Inr (k, st') \<and>
             0 \<le> k \<and> k \<le> cutoff \<and>
             (\<forall>j < nat k.
                mlem_continues error num_measurements num_bins measurements spectrum
                  nns_response normalized_response mlem_ratio j st) \<and>
             (k < cutoff \<longrightarrow>
                mlem_converges error num_measurements num_bins measurements spectrum
                  nns_response normalized_response mlem_ratio (nat k) st \<and>
                mlem_after error num_measurements num_bins measurements spectrum
                  nns_response normalized_response mlem_ratio (Suc (nat k)) st = Inr st') \<and>
             (k = cutoff \<longrightarrow>
                mlem_after error num_measurements num_bins measurements spectrum
                  nns_response normalized_response mlem_ratio (nat k) st = Inr st') \<and>
             (\<forall>j. int j < cutoff \<and>
                  mlem_converges error num_measurements num_bins measurements spectrum
                    nns_response normalized_response mlem_ratio j st \<and>
                  (\<forall>i < j. mlem_continues error num_measurements num_bins measurements
                             spectrum nns_response normalized_response mlem_ratio i st)
                \<longrightarrow> k = int j) \<and>
             (\<not> list_ex (outside_tolerance error)
                  (ratio_of num_measurements num_bins measurements spectrum nns_response st)
              \<longrightarrow> k = 0) \<and>
             (mlem_each_iteration
                (\<lambda>s. list_ex (outside_tolerance error)
                       (ratio_of num_measurements num_bins measurements spectrum
                          nns_response s))
                cutoff error num_measurements num_bins measurements spectrum nns_response
                normalized_response mlem_ratio 0 st
              \<longrightarrow> k = cutoff))) \<and>
         (map_separate energy_correction measurements spectrum nns_response
            normalized_response mlem_ratio \<and> 2 \<le> num_bins \<longrightarrow>
          (\<exists>k st'. runMAP energy_correction beta cutoff error num_measurements num_bins
                      measurements spectrum nns_response normalized_response mlem_ratio st
                    = Inr (k, st') \<and>
             0 \<le> k \<and> k \<le> cutoff \<and>
             (\<forall>j < nat k.
                map_continues energy_correction beta error num_measurements num_bins
                  measurements spectrum nns_response normalized_response mlem_ratio j st) \<and>
             (k < cutoff \<longrightarrow>
                map_converges energy_correction beta error num_measurements num_bins
                  measurements spectrum nns_response normalized_response mlem_ratio (nat k) st \<and>
                map_after energy_correction beta error num_measurements num_bins measurements
                  spectrum nns_response normalized_response mlem_ratio (Suc (nat k)) st
                = Inr st') \<and>
             (k = cutoff \<longrightarrow>
                map_after energy_correction beta error num_measurements num_bins measurements
                  spectrum nns_response normalized_response mlem_ratio (nat k) st = Inr st') \<and>
             (\<forall>j. int j < cutoff \<and>
                  map_converges energy_correction beta error num_measurements num_bins
                    measurements spectrum nns_response normalized_response mlem_ratio j st \<and>
                  (\<forall>i < j. map_continues energy_correction beta error num_measurements
                             num_bins measurements spectrum nns_response normalized_response
                             mlem_ratio i st)
                \<longrightarrow> k = int j) \<and>
             (\<not> list_ex (outside_tolerance error)
                  (ratio_of num_measurements num_bins measurements spectrum nns_response st)
              \<longrightarrow> k = 0) \<and>
             (map_each_iteration
                (\<lambda>s. list_ex (outside_tolerance error)
                       (ratio_of num_measurements num_bins measurements spectrum
                          nns_response s))
                energy_correction beta cutoff error num_measurements num_bins measurements
                spectrum nns_response normalized_response mlem_ratio 0 st
              \<longrightarrow> k = cutoff)))"
proof (intro conjI impI)
  assume sep: "mlem_separate measurements spectrum nns_response normalized_response mlem_ratio"
  have le: "(0::int) \<le> cutoff" using pos by simp
  from mlem_first_convergence [OF sep dims le, of error] obtain k st' where
    run: "mlem_loop cutoff error num_measurements num_bins measurements spectrum
            nns_response normalized_response mlem_ratio 0 st = Inr (k, st')"
    and k: "0 \<le> k" "k \<le> cutoff"
    and cont: "\<forall>j < nat k.
                mlem_continues error num_measurements num_bins measurements spectrum
                  nns_response normalized_response mlem_ratio j st"
    and conv: "k < cutoff \<longrightarrow>
                mlem_converges error num_measurements num_bins measurements spectrum
                  nns_response normalized_response mlem_ratio (nat k) st \<and>
                mlem_after error num_measurements num_bins measurements spectrum
                  nns_response normalized_response mlem_ratio (Suc (nat k)) st = Inr st'"
    and cap: "k = cutoff \<longrightarrow>
                mlem_after error num_measurements num_bins measurements spectrum
                  nns_response normalized_response mlem_ratio (nat k) st = Inr st'"
    by auto
  have first: "k = int j"
    if j: "int j < cutoff"
      "mlem_converges error num_measurements num_bins measurements spectrum
         nns_response normalized_response mlem_ratio j st"
      "\<forall>i < j. mlem_continues error num_measurements num_bins measurements
                 spectrum nns_response normalized_response mlem_ratio i st" for j
  proof -
    have "\<not> nat k < j"
    proof
      assume lt: "nat k < j"
      with j(1) k have "k < cutoff" by linarith
      with conv have "mlem_converges error num_measurements num_bins measurements spectrum
                  nns_response normalized_response mlem_ratio (nat k) st" by simp
      moreover from lt j(3) have "mlem_continues error num_measurements num_bins
          measurements spectrum nns_response normalized_response mlem_ratio (nat k) st"
        by simp
      ultimately show False using mlem_continues_not_converges by blast
    qed
    moreover have "\<not> j < nat k"
    proof
      assume "j < nat k"
      with cont have "mlem_continues error num_measurements num_bins
          measurements spectrum nns_response normalized_response mlem_ratio j st"
        by simp
      with j(2) show False using mlem_continues_not_converges by blast
    qed
    ultimately show ?thesis using k by linarith
  qed
  from mlem_loop_count [OF sep dims le, of error] run pos
  have old: "(\<not> list_ex (outside_tolerance error)
                  (ratio_of num_measurements num_bins measurements spectrum nns_response st)
              \<longrightarrow> k = 0) \<and>
             (mlem_each_iteration
                (\<lambda>s. list_ex (outside_tolerance error)
                       (ratio_of num_measurements num_bins measurements spectrum
                          nns_response s))
                cutoff error num_measurements num_bins measurements spectrum nns_response
                normalized_response mlem_ratio 0 st
              \<longrightarrow> k = cutoff)"
    by auto
  show "\<exists>k st'. runMLEM cutoff error num_measurements num_bins measurements spectrum
                      nns_response normalized_response mlem_ratio st = Inr (k, st') \<and>
             0 \<le> k \<and> k \<le> cutoff \<and>
             (\<forall>j < nat k.
                mlem_continues error num_measurements num_bins measurements spectrum
                  nns_response normalized_response mlem_ratio j st) \<and>
             (k < cutoff \<longrightarrow>
                mlem_converges error num_measurements num_bins measurements spectrum
                  nns_response normalized_response mlem_ratio (nat k) st \<and>
                mlem_after error num_measurements num_bins measurements spectrum
                  nns_response normalized_response mlem_ratio (Suc (nat k)) st = Inr st') \<and>
             (k = cutoff \<longrightarrow>
                mlem_after error num_measurements num_bins measurements spectrum
                  nns_response normalized_response mlem_ratio (nat k) st = Inr st') \<and>
             (\<forall>j. int j < cutoff \<and>
                  mlem_converges error num_measurements num_bins measurements spectrum
                    nns_response normalized_response mlem_ratio j st \<and>
                  (\<forall>i < j. mlem_continues error num_measurements num_bins measurements
                             spectrum nns_response normalized_response mlem_ratio i st)
                \<longrightarrow> k = int j) \<and>
             (\<not> list_ex (outside_tolerance error)
                  (ratio_of num_measurements num_bins measurements spectrum nns_response st)
              \<longrightarrow> k = 0) \<and>
             (mlem_each_iteration
                (\<lambda>s. list_ex (outside_tolerance error)
                       (ratio_of num_measurements num_bins measurements spectrum
                          nns_response s))
                cutoff error num_measurements num_bins measurements spectrum nns_response
                normalized_response mlem_ratio 0 st
              \<longrightarrow> k = cutoff)"
    unfolding runMLEM_def
    using run k cont conv cap first old
    by (intro exI [of _ k] exI [of _ st']) blast
next
  assume "map_separate energy_correction measurements spectrum nns_response
            normalized_response mlem_ratio \<and> 2 \<le> num_bins"
  then have sep: "map_separate energy_correction measurements spectrum nns_response
            normalized_response mlem_ratio" and two: "2 \<le> num_bins" by simp_all
  have le: "(0::int) \<le> cutoff" using pos by simp
  from map_first_convergence [OF sep dims le two, of beta error] obtain k st' where
    run: "map_loop energy_correction beta cutoff error num_measurements num_bins
            measurements spectrum nns_response normalized_response mlem_ratio 0 st
          = Inr (k, st')"
    and k: "0 \<le> k" "k \<le> cutoff"
    and cont: "\<forall>j < nat k.
                map_continues energy_correction beta error num_measurements num_bins
                  measurements spectrum nns_response normalized_response mlem_ratio j st"
    and conv: "k < cutoff \<longrightarrow>
                map_converges energy_correction beta error num_measurements num_bins
                  measurements spectrum nns_response normalized_response mlem_ratio (nat k) st \<and>
                map_after energy_correction beta error num_measurements num_bins measurements
                  spectrum nns_response normalized_response mlem_ratio (Suc (nat k)) st
                = Inr st'"
    and cap: "k = cutoff \<longrightarrow>
                map_after energy_correction beta error num_measurements num_bins measurements
                  spectrum nns_response normalized_response mlem_ratio (nat k) st = Inr st'"
    by auto
  have first: "k = int j"
    if j: "int j < cutoff"
      "map_converges energy_correction beta error num_measurements num_bins
         measurements spectrum nns_response normalized_response mlem_ratio j st"
      "\<forall>i < j. map_continues energy_correction beta error num_measurements
                 num_bins measurements spectrum nns_response normalized_response
                 mlem_ratio i st" for j
  proof -
    have "\<not> nat k < j"
    proof
      assume lt: "nat k < j"
      with j(1) k have "k < cutoff" by linarith
      with conv have "map_converges energy_correction beta error num_measurements num_bins
                  measurements spectrum nns_response normalized_response mlem_ratio (nat k) st"
        by simp
      moreover from lt j(3) have "map_continues energy_correction beta error
          num_measurements num_bins measurements spectrum nns_response normalized_response
          mlem_ratio (nat k) st"
        by simp
      ultimately show False using map_continues_not_converges by blast
    qed
    moreover have "\<not> j < nat k"
    proof
      assume "j < nat k"
      with cont have "map_continues energy_correction beta error num_measurements num_bins
          measurements spectrum nns_response normalized_response mlem_ratio j st"
        by simp
      with j(2) show False using map_continues_not_converges by blast
    qed
    ultimately show ?thesis using k by linarith
  qed
  from map_loop_count [OF sep dims le two, of beta error] run pos
  have old: "(\<not> list_ex (outside_tolerance error)
                  (ratio_of num_measurements num_bins measurements spectrum nns_response st)
              \<longrightarrow> k = 0) \<and>
             (map_each_iteration
                (\<lambda>s. list_ex (outside_tolerance error)
                       (ratio_of num_measurements num_bins measurements spectrum
                          nns_response s))
                energy_correction beta cutoff error num_measurements num_bins measurements
                spectrum nns_response normalized_response mlem_ratio 0 st
              \<longrightarrow> k = cutoff)"
    by auto
  show "\<exists>k st'. runMAP energy_correction beta cutoff error num_measurements num_bins
                      measurements spectrum nns_response normalized_response mlem_ratio st
                    = Inr (k, st') \<and>
             0 \<le> k \<and> k \<le> cutoff \<and>
             (\<forall>j < nat k.
                map_continues energy_correction beta error num_measurements num_bins
                  measurements spectrum nns_response normalized_response mlem_ratio j st) \<and>
             (k < cutoff \<longrightarrow>
                map_converges energy_correction beta error num_measurements num_bins
                  measurements spectrum nns_response normalized_response mlem_ratio (nat k) st \<and>
                map_after energy_correction beta error num_measurements num_bins measurements
                  spectrum nns_response normalized_response mlem_ratio (Suc (nat k)) st
                = Inr st') \<and>
             (k = cutoff \<longrightarrow>
                map_after energy_correction beta error num_measurements num_bins measurements
                  spectrum nns_response normalized_response mlem_ratio (nat k) st = Inr st') \<and>
             (\<forall>j. int j < cutoff \<and>
                  map_converges energy_correction beta error num_measurements num_bins
                    measurements spectrum nns_response normalized_response mlem_ratio j st \<and>
                  (\<forall>i < j. map_continues energy_correction beta error num_measurements
                             num_bins measurements spectrum nns_response normalized_response
                             mlem_ratio i st)
                \<longrightarrow> k = int j) \<and>
             (\<not> list_ex (outside_tolerance error)
                  (ratio_of num_measurements num_bins measurements spectrum nns_response st)
              \<longrightarrow> k = 0) \<and>
             (map_each_iteration
                (\<lambda>s. list_ex (outside_tolerance error)
                       (ratio_of num_measurements num_bins measurements spectrum
                          nns_response s))
                energy_correction beta cutoff error num_measurements num_bins measurements
                spectrum nns_response normalized_response mlem_ratio 0 st
              \<longrightarrow> k = cutoff)"
    unfolding runMAP_def
    using run k cont conv cap first old
    by (intro exI [of _ k] exI [of _ st']) blast
qed

theorem iteration_count_example:
  "(0::int) < 5 \<and>
   dimensions 1 1 0 1 [2] 3
     ((\<lambda>a. [])(0 := [Fin 5], 1 := [Fin 1], 2 := [Fin 1], 3 := [Fin 1])) \<and>
   mlem_separate 0 1 [2] 3 4 \<and>
   mlem_continues (Fin (1 / 100)) 1 1 0 1 [2] 3 4 0
     ((\<lambda>a. [])(0 := [Fin 5], 1 := [Fin 1], 2 := [Fin 1], 3 := [Fin 1])) \<and>
   mlem_converges (Fin (1 / 100)) 1 1 0 1 [2] 3 4 (Suc 0)
     ((\<lambda>a. [])(0 := [Fin 5], 1 := [Fin 1], 2 := [Fin 1], 3 := [Fin 1])) \<and>
   (\<exists>st'. runMLEM 5 (Fin (1 / 100)) 1 1 0 1 [2] 3 4
            ((\<lambda>a. [])(0 := [Fin 5], 1 := [Fin 1], 2 := [Fin 1], 3 := [Fin 1]))
          = Inr (1, st')) \<and>
   (\<exists>st'. runMLEM 1 (Fin (1 / 100)) 1 1 0 1 [2] 3 4
            ((\<lambda>a. [])(0 := [Fin 5], 1 := [Fin 1], 2 := [Fin 1], 3 := [Fin 1]))
          = Inr (1, st')) \<and>
   dimensions 1 2 0 1 [2] 3
     ((\<lambda>a. [])(0 := [Fin 4], 1 := [Fin 1, Fin 1], 2 := [Fin 1, Fin 1],
                 3 := [Fin 1, Fin 1])) \<and>
   map_separate 5 0 1 [2] 3 4 \<and> (2::int) \<le> 2 \<and>
   map_continues 5 (Fin 1) (Fin (1 / 100)) 1 2 0 1 [2] 3 4 0
     ((\<lambda>a. [])(0 := [Fin 4], 1 := [Fin 1, Fin 1], 2 := [Fin 1, Fin 1],
                 3 := [Fin 1, Fin 1])) \<and>
   map_converges 5 (Fin 1) (Fin (1 / 100)) 1 2 0 1 [2] 3 4 (Suc 0)
     ((\<lambda>a. [])(0 := [Fin 4], 1 := [Fin 1, Fin 1], 2 := [Fin 1, Fin 1],
                 3 := [Fin 1, Fin 1])) \<and>
   (\<exists>st'. runMAP 5 (Fin 1) 5 (Fin (1 / 100)) 1 2 0 1 [2] 3 4
            ((\<lambda>a. [])(0 := [Fin 4], 1 := [Fin 1, Fin 1], 2 := [Fin 1, Fin 1],
                        3 := [Fin 1, Fin 1]))
          = Inr (1, st')) \<and>
   dimensions 1 2 0 1 [2] 3
     ((\<lambda>a. [])(0 := [Fin 4], 1 := [Fin 1, Fin 3], 2 := [Fin 1, Fin 1],
                 3 := [Fin 1, Fin 1])) \<and>
   (\<exists>st'. runMAP 5 (Fin 1) 3 (Fin (1 / 100)) 1 2 0 1 [2] 3 4
            ((\<lambda>a. [])(0 := [Fin 4], 1 := [Fin 1, Fin 3], 2 := [Fin 1, Fin 1],
                        3 := [Fin 1, Fin 1]))
          = Inr (0, st'))"
proof -
  let ?e = "Fin (1 / 100)"
  let ?a = "(\<lambda>a. [])(0 := [Fin 5], 1 := [Fin 1], 2 := [Fin 1], 3 := [Fin 1]) :: store"
  let ?a1 = "?a(4 := [Fin 5], 1 := [Fin 5])"
  let ?a2 = "?a1(4 := [Fin 1], 1 := [Fin 5])"
  let ?m = "(\<lambda>a. [])(0 := [Fin 4], 1 := [Fin 1, Fin 1], 2 := [Fin 1, Fin 1],
                3 := [Fin 1, Fin 1]) :: store"
  let ?m1 = "?m(4 := [Fin 2], 5 := [Fin 0, Fin 0], 1 := [Fin 2, Fin 2])"
  let ?m2 = "?m1(4 := [Fin 1], 5 := [Fin 0, Fin 0], 1 := [Fin 2, Fin 2])"
  let ?b = "(\<lambda>a. [])(0 := [Fin 4], 1 := [Fin 1, Fin 3], 2 := [Fin 1, Fin 1],
                3 := [Fin 1, Fin 1]) :: store"
  have p5: "(0::int) < 5" and p1: "(0::int) < 1" and p3: "(0::int) < 3"
    and two: "(2::int) \<le> 2" by simp_all
  have sa: "mlem_separate 0 1 [2] 3 4" by (simp add: mlem_separate_def separate_def)
  have sb: "map_separate 5 0 1 [2] 3 4" by (simp add: map_separate_def separate_def)
  have da: "dimensions 1 1 0 1 [2] 3 ?a" by (simp add: dimensions_def)
  have da1: "dimensions 1 1 0 1 [2] 3 ?a1" by (simp add: dimensions_def)
  have dm: "dimensions 1 2 0 1 [2] 3 ?m" by (simp add: dimensions_def)
  have dm1: "dimensions 1 2 0 1 [2] 3 ?m1" by (simp add: dimensions_def)
  have db: "dimensions 1 2 0 1 [2] 3 ?b" by (simp add: dimensions_def)
  have o_out5: "list_ex (outside_tolerance ?e) [Fin 5] = True"
    and o_out2: "list_ex (outside_tolerance ?e) [Fin 2] = True"
    and o_in: "list_ex (outside_tolerance ?e) [Fin 1] = False"
    by (simp_all add: outside_tolerance_def dge_def dsub_def)
  \<comment> \<open>The single-bin call: the test fails in iteration 0 and passes in iteration 1.\<close>
  have ra: "ratio_of 1 1 0 1 [2] ?a = [Fin 5]" by (simp add: formulas)
  have ra1: "ratio_of 1 1 0 1 [2] ?a1 = [Fin 1]" by (simp add: formulas)
  have ta: "spec_mlem_step 1 1 0 1 [2] 3 4 ?a = ?a1"
    unfolding spec_mlem_step_def ra by (simp add: formulas)
  have ta1: "spec_mlem_step 1 1 0 1 [2] 3 4 ?a1 = ?a2"
    unfolding spec_mlem_step_def ra1 by (simp add: formulas)
  note ia = mlem_iteration_step [OF da sa, where error = ?e, unfolded ra ta o_out5]
  note ia1 = mlem_iteration_step [OF da1 sa, where error = ?e, unfolded ra1 ta1 o_in]
  have ca: "mlem_continues ?e 1 1 0 1 [2] 3 4 0 ?a"
    unfolding mlem_continues_def mlem_after.simps bindE_Inr ia by simp
  have va: "mlem_converges ?e 1 1 0 1 [2] 3 4 (Suc 0) ?a"
    unfolding mlem_converges_def mlem_after.simps bindE_Inr ia snd_conv ia1 by simp
  note Ta = iteration_count_never_exceeds_cutoff
    [OF p5 da, where error = ?e and mlem_ratio = 4, THEN conjunct1, rule_format, OF sa]
  from Ta obtain k st' where
    run: "runMLEM 5 ?e 1 1 0 1 [2] 3 4 ?a = Inr (k, st')"
    and first: "\<forall>j. int j < 5 \<and> mlem_converges ?e 1 1 0 1 [2] 3 4 j ?a \<and>
                  (\<forall>i < j. mlem_continues ?e 1 1 0 1 [2] 3 4 i ?a) \<longrightarrow> k = int j"
    by (elim exE conjE)
  have "\<forall>i < Suc 0. mlem_continues ?e 1 1 0 1 [2] 3 4 i ?a" using ca by simp
  with first [rule_format, of "Suc 0"] va have "k = 1" by simp
  with run have a: "\<exists>st'. runMLEM 5 ?e 1 1 0 1 [2] 3 4 ?a = Inr (1, st')"
    by (intro exI [of _ st']) (simp only:)
  \<comment> \<open>The same call with cutoff 1: no test passes, the count is the cutoff.\<close>
  have never: "mlem_each_iteration
                 (\<lambda>s. list_ex (outside_tolerance ?e) (ratio_of 1 1 0 1 [2] s))
                 1 ?e 1 1 0 1 [2] 3 4 0 ?a"
    by (subst mlem_each_iteration_step [OF p1 da sa], unfold ra)
       (simp add: outside_tolerance_def dge_def mlem_each_iteration_done)
  from iteration_count_never_exceeds_cutoff
    [OF p1 da, where error = ?e and mlem_ratio = 4, THEN conjunct1, rule_format, OF sa]
  obtain k1 st1 where run1: "runMLEM 1 ?e 1 1 0 1 [2] 3 4 ?a = Inr (k1, st1)"
    and "mlem_each_iteration
           (\<lambda>s. list_ex (outside_tolerance ?e) (ratio_of 1 1 0 1 [2] s))
           1 ?e 1 1 0 1 [2] 3 4 0 ?a \<longrightarrow> k1 = 1"
    by (elim exE conjE)
  with never have a1: "\<exists>st'. runMLEM 1 ?e 1 1 0 1 [2] 3 4 ?a = Inr (1, st')"
    by (intro exI [of _ st1]) (simp only:)
  \<comment> \<open>A two-bin call of runMAP: the test fails in iteration 0 and passes in iteration 1.\<close>
  have rm: "ratio_of 1 2 0 1 [2] ?m = [Fin 2]" by (simp add: formulas)
  have rm1: "ratio_of 1 2 0 1 [2] ?m1 = [Fin 1]" by (simp add: formulas)
  have cm: "correction_of 1 2 0 1 [2] ?m = [Fin 2, Fin 2]"
    unfolding correction_of_def rm by (simp add: formulas)
  have cm1: "correction_of 1 2 0 1 [2] ?m1 = [Fin 1, Fin 1]"
    unfolding correction_of_def rm1 by (simp add: formulas)
  have tm: "spec_map_step 5 (Fin 1) 1 2 0 1 [2] 3 4 ?m = ?m1"
    unfolding spec_map_step_def rm cm by (simp add: formulas)
  have tm1: "spec_map_step 5 (Fin 1) 1 2 0 1 [2] 3 4 ?m1 = ?m2"
    unfolding spec_map_step_def rm1 cm1 by (simp add: formulas)
  note im = map_iteration_step [OF dm sb two, where error = ?e and beta = "Fin 1",
      unfolded rm tm o_out2]
  note im1 = map_iteration_step [OF dm1 sb two, where error = ?e and beta = "Fin 1",
      unfolded rm1 tm1 o_in]
  have cmm: "map_continues 5 (Fin 1) ?e 1 2 0 1 [2] 3 4 0 ?m"
    unfolding map_continues_def map_after.simps bindE_Inr im by simp
  have vm: "map_converges 5 (Fin 1) ?e 1 2 0 1 [2] 3 4 (Suc 0) ?m"
    unfolding map_converges_def map_after.simps bindE_Inr im snd_conv im1 by simp
  from iteration_count_never_exceeds_cutoff
    [OF p5 dm, where error = ?e and mlem_ratio = 4 and energy_correction = 5
      and beta = "Fin 1", THEN conjunct2, rule_format, OF conjI [OF sb two]]
  obtain k2 st2 where
    run2: "runMAP 5 (Fin 1) 5 ?e 1 2 0 1 [2] 3 4 ?m = Inr (k2, st2)"
    and first2: "\<forall>j. int j < 5 \<and> map_converges 5 (Fin 1) ?e 1 2 0 1 [2] 3 4 j ?m \<and>
                  (\<forall>i < j. map_continues 5 (Fin 1) ?e 1 2 0 1 [2] 3 4 i ?m) \<longrightarrow> k2 = int j"
    by (elim exE conjE)
  have "\<forall>i < Suc 0. map_continues 5 (Fin 1) ?e 1 2 0 1 [2] 3 4 i ?m" using cmm by simp
  with first2 [rule_format, of "Suc 0"] vm have "k2 = 1" by simp
  with run2 have m: "\<exists>st'. runMAP 5 (Fin 1) 5 ?e 1 2 0 1 [2] 3 4 ?m = Inr (1, st')"
    by (intro exI [of _ st2]) (simp only:)
  \<comment> \<open>A call of runMAP whose first test passes: the count is 0.\<close>
  have rb: "ratio_of 1 2 0 1 [2] ?b = [Fin 1]" by (simp add: formulas)
  from iteration_count_never_exceeds_cutoff
    [OF p3 db, where error = ?e and mlem_ratio = 4 and energy_correction = 5
      and beta = "Fin 1", THEN conjunct2, rule_format, OF conjI [OF sb two]]
  obtain k3 st3 where
    run3: "runMAP 5 (Fin 1) 3 ?e 1 2 0 1 [2] 3 4 ?b = Inr (k3, st3)"
    and first3: "\<not> list_ex (outside_tolerance ?e) (ratio_of 1 2 0 1 [2] ?b) \<longrightarrow> k3 = 0"
    by (elim exE conjE)
  from first3 have "k3 = 0" unfolding rb o_in by simp
  with run3 have b: "\<exists>st'. runMAP 5 (Fin 1) 3 ?e 1 2 0 1 [2] 3 4 ?b = Inr (0, st')"
    by (intro exI [of _ st3]) (simp only:)
  show ?thesis
    by (intro conjI p5 da sa ca va a a1 dm sb two cmm vm m db b)
qed

subsection \<open>One iteration of runMAP\<close>

text \<open>
  Claim C4. For \<open>num_bins \<ge> 2\<close>, an iteration of \<open>runMAP\<close> recomputes the energy
  correction from the spectrum before the update: \<open>beta * (spectrum[0] - spectrum[1])^2\<close>
  for the first bin,
  \<open>beta * ((spectrum[b] - spectrum[b-1])^2 + (spectrum[b] - spectrum[b+1])^2)\<close> for the bins
  \<open>1 .. num_bins - 2\<close> and \<open>beta * (spectrum[num_bins-1] - spectrum[num_bins-2])^2\<close> for the
  last bin; the spectrum becomes
  \<open>spectrum[b] * correction[b] / (normalization[b] + energy_correction[b])\<close>. Every
  iteration that the call executes starts in a store of the same dimensions.
\<close>

theorem map_iteration_follows_the_formulas:
  assumes dims: "dimensions num_measurements num_bins measurements spectrum nns_response
                   normalized_response st"
    and sep: "map_separate energy_correction measurements spectrum nns_response
                normalized_response mlem_ratio"
    and two: "2 \<le> num_bins"
    and estimated: "estimated = spec_estimated (matrix st nns_response) (st spectrum)
                      (nat num_measurements) (nat num_bins)"
    and ratio: "ratio = spec_ratio (st measurements) estimated (nat num_measurements)"
    and correction: "correction = spec_correction (matrix st nns_response) ratio
                       (nat num_measurements) (nat num_bins)"
    and energy: "energy = spec_energy_correction beta (st spectrum) (nat num_bins)"
  shows "map_iteration energy_correction beta error num_measurements num_bins measurements
           spectrum nns_response normalized_response mlem_ratio st
         = Inr (list_ex (outside_tolerance error) ratio,
             st(mlem_ratio := ratio,
                energy_correction := energy,
                spectrum := spec_map_update (st spectrum) correction (st normalized_response)
                              energy (nat num_bins))) \<and>
         map_each_iteration
           (dimensions num_measurements num_bins measurements spectrum nns_response
              normalized_response)
           energy_correction beta cutoff error num_measurements num_bins measurements
           spectrum nns_response normalized_response mlem_ratio 0 st"
proof -
  have "map_each_iteration
          (\<lambda>s. dimensions num_measurements num_bins measurements spectrum nns_response
                 normalized_response s \<and> True)
          energy_correction beta cutoff error num_measurements num_bins measurements
          spectrum nns_response normalized_response mlem_ratio 0 st"
    using map_run_invariant [where I = "\<lambda>s. True" and P = "\<lambda>s. True", OF sep two _ dims]
      map_each_iteration_True
    by blast
  then show ?thesis
    using map_iteration_step [OF dims sep two, of beta error]
    by (simp add: estimated ratio correction energy ratio_of_def correction_of_def
          spec_map_step_def)
qed

theorem map_iteration_example:
  "dimensions 1 3 0 1 [2] 3
     ((\<lambda>a. [])(0 := [Fin 7], 1 := [Fin 1, Fin 2, Fin 4], 2 := [Fin 1, Fin 1, Fin 1],
                 3 := [Fin 1, Fin 1, Fin 1])) \<and>
   map_separate 5 0 1 [2] 3 4 \<and>
   (2::int) \<le> 3 \<and>
   map_iteration 5 (Fin 1) (Fin (1 / 100)) 1 3 0 1 [2] 3 4
     ((\<lambda>a. [])(0 := [Fin 7], 1 := [Fin 1, Fin 2, Fin 4], 2 := [Fin 1, Fin 1, Fin 1],
                 3 := [Fin 1, Fin 1, Fin 1]))
   = Inr (False,
       (\<lambda>a. [])(0 := [Fin 7], 1 := [Fin 1, Fin 2, Fin 4], 2 := [Fin 1, Fin 1, Fin 1],
                 3 := [Fin 1, Fin 1, Fin 1],
                 4 := [Fin 1], 5 := [Fin 1, Fin 5, Fin 4],
                 1 := [Fin (1 / 2), Fin (1 / 3), Fin (4 / 5)]))"
proof -
  let ?st = "(\<lambda>a. [])(0 := [Fin 7], 1 := [Fin 1, Fin 2, Fin 4], 2 := [Fin 1, Fin 1, Fin 1],
                 3 := [Fin 1, Fin 1, Fin 1]) :: store"
  have h1: "dimensions 1 3 0 1 [2] 3 ?st" by (simp add: dimensions_def)
  have h2: "map_separate 5 0 1 [2] 3 4" by (simp add: map_separate_def separate_def)
  have h3: "(2::int) \<le> 3" by simp
  have "map_iteration 5 (Fin 1) (Fin (1 / 100)) 1 3 0 1 [2] 3 4 ?st
        = Inr (list_ex (outside_tolerance (Fin (1 / 100)))
                 (spec_ratio (?st 0) (spec_estimated (matrix ?st [2]) (?st 1) (nat 1) (nat 3))
                    (nat 1)),
            ?st(4 := spec_ratio (?st 0)
                       (spec_estimated (matrix ?st [2]) (?st 1) (nat 1) (nat 3)) (nat 1),
                5 := spec_energy_correction (Fin 1) (?st 1) (nat 3),
                1 := spec_map_update (?st 1)
                       (spec_correction (matrix ?st [2])
                          (spec_ratio (?st 0)
                             (spec_estimated (matrix ?st [2]) (?st 1) (nat 1) (nat 3))
                             (nat 1))
                          (nat 1) (nat 3))
                       (?st 3) (spec_energy_correction (Fin 1) (?st 1) (nat 3)) (nat 3)))"
    using map_iteration_follows_the_formulas
      [where st = ?st and cutoff = 1 and error = "Fin (1 / 100)" and beta = "Fin 1",
        OF h1 h2 h3 refl refl refl refl]
    by blast
  also have "spec_estimated (matrix ?st [2]) (?st 1) (nat 1) (nat 3) = [Fin 7]"
    by (simp add: spec_estimated_def matrix_def upt_3 dsum_def)
  also have "spec_ratio (?st 0) [Fin 7] (nat 1) = [Fin 1]"
    by (simp add: spec_ratio_def)
  also have "spec_correction (matrix ?st [2]) [Fin 1] (nat 1) (nat 3) = [Fin 1, Fin 1, Fin 1]"
    by (simp add: spec_correction_def matrix_def upt_3 dsum_def)
  also have "spec_energy_correction (Fin 1) (?st 1) (nat 3) = [Fin 1, Fin 5, Fin 4]"
    by (simp add: spec_energy_correction_def upt_3 dpow2_def dsub_def)
  also have "spec_map_update (?st 1) [Fin 1, Fin 1, Fin 1] (?st 3) [Fin 1, Fin 5, Fin 4] (nat 3)
               = [Fin (1 / 2), Fin (1 / 3), Fin (4 / 5)]"
    by (simp add: spec_map_update_def upt_3)
  also have "list_ex (outside_tolerance (Fin (1 / 100))) [Fin 1] = False"
    by (simp add: outside_tolerance_def dge_def dsub_def)
  finally show ?thesis
    by (intro conjI h1 h2 h3)
qed

subsection \<open>runMAP with beta = 0\<close>




subsection \<open>A zero entry of the spectrum stays zero\<close>

text \<open>
  Claim C6, as the code has it. If \<open>spectrum[b]\<close> is 0 at the start of an iteration of
  \<open>runMLEM\<close> or \<open>runMAP\<close>, it is 0 after the update of that iteration and of every later
  iteration of the call, provided that in each of these iterations \<open>correction[b]\<close> is
  finite and the denominator of the update (\<open>normalization[b]\<close>, for \<open>runMAP\<close>
  \<open>normalization[b] + energy_correction[b]\<close>) is neither zero nor NaN. The theorem is
  stated from any iteration \<open>mlem_index\<close> on.
\<close>

theorem zero_spectrum_entry_stays_zero:
  assumes dims: "dimensions num_measurements num_bins measurements spectrum nns_response
                   normalized_response st"
    and b: "b < nat num_bins"
    and zero: "st spectrum ! b = Fin 0"
  shows "(mlem_separate measurements spectrum nns_response normalized_response mlem_ratio \<and>
          mlem_each_iteration
            (mlem_keeps_zero num_measurements num_bins measurements spectrum nns_response
               normalized_response b)
            cutoff error num_measurements num_bins measurements spectrum nns_response
            normalized_response mlem_ratio mlem_index st \<longrightarrow>
          mlem_each_iteration (\<lambda>s. s spectrum ! b = Fin 0)
            cutoff error num_measurements num_bins measurements spectrum nns_response
            normalized_response mlem_ratio mlem_index st \<and>
          (\<exists>k st'. mlem_loop cutoff error num_measurements num_bins measurements spectrum
                      nns_response normalized_response mlem_ratio mlem_index st
                    = Inr (k, st') \<and>
                    st' spectrum ! b = Fin 0)) \<and>
         (map_separate energy_correction measurements spectrum nns_response
            normalized_response mlem_ratio \<and> 2 \<le> num_bins \<and>
          map_each_iteration
            (map_keeps_zero beta num_measurements num_bins measurements spectrum
               nns_response normalized_response b)
            energy_correction beta cutoff error num_measurements num_bins measurements
            spectrum nns_response normalized_response mlem_ratio mlem_index st \<longrightarrow>
          map_each_iteration (\<lambda>s. s spectrum ! b = Fin 0)
            energy_correction beta cutoff error num_measurements num_bins measurements
            spectrum nns_response normalized_response mlem_ratio mlem_index st \<and>
          (\<exists>k st'. map_loop energy_correction beta cutoff error num_measurements num_bins
                      measurements spectrum nns_response normalized_response mlem_ratio
                      mlem_index st
                    = Inr (k, st') \<and>
                    st' spectrum ! b = Fin 0))"
proof (intro conjI impI)
  assume "mlem_separate measurements spectrum nns_response normalized_response mlem_ratio \<and>
          mlem_each_iteration
            (mlem_keeps_zero num_measurements num_bins measurements spectrum nns_response
               normalized_response b)
            cutoff error num_measurements num_bins measurements spectrum nns_response
            normalized_response mlem_ratio mlem_index st"
  then have sep: "mlem_separate measurements spectrum nns_response normalized_response
                    mlem_ratio"
    and ok: "mlem_each_iteration
            (mlem_keeps_zero num_measurements num_bins measurements spectrum nns_response
               normalized_response b)
            cutoff error num_measurements num_bins measurements spectrum nns_response
            normalized_response mlem_ratio mlem_index st"
    by simp_all
  have step: "spec_mlem_step num_measurements num_bins measurements spectrum nns_response
                normalized_response mlem_ratio s spectrum ! b = Fin 0"
    if "dimensions num_measurements num_bins measurements spectrum nns_response
          normalized_response s"
      and "s spectrum ! b = Fin 0"
      and "mlem_keeps_zero num_measurements num_bins measurements spectrum nns_response
             normalized_response b s" for s
    by (rule mlem_step_keeps_zero [OF sep b that(2,3)])
  have inv: "mlem_each_iteration
           (\<lambda>s. dimensions num_measurements num_bins measurements spectrum nns_response
                  normalized_response s \<and> s spectrum ! b = Fin 0)
           cutoff error num_measurements num_bins measurements spectrum nns_response
           normalized_response mlem_ratio mlem_index st \<and>
         (\<exists>k st'. mlem_loop cutoff error num_measurements num_bins measurements spectrum
                     nns_response normalized_response mlem_ratio mlem_index st
                   = Inr (k, st') \<and>
                   dimensions num_measurements num_bins measurements spectrum nns_response
                     normalized_response st' \<and> st' spectrum ! b = Fin 0)"
    using sep step dims zero ok
    by (rule mlem_run_invariant
          [where I = "\<lambda>s. s spectrum ! b = Fin 0"
             and P = "mlem_keeps_zero num_measurements num_bins measurements spectrum
                        nns_response normalized_response b"])
  from inv [THEN conjunct1]
  show "mlem_each_iteration (\<lambda>s. s spectrum ! b = Fin 0)
            cutoff error num_measurements num_bins measurements spectrum nns_response
            normalized_response mlem_ratio mlem_index st"
    by (rule mlem_each_iteration_mono) (rule conjunct2)
  from inv [THEN conjunct2]
  show "\<exists>k st'. mlem_loop cutoff error num_measurements num_bins measurements spectrum
                      nns_response normalized_response mlem_ratio mlem_index st
                    = Inr (k, st') \<and>
                    st' spectrum ! b = Fin 0"
    by blast
next
  assume "map_separate energy_correction measurements spectrum nns_response
            normalized_response mlem_ratio \<and> 2 \<le> num_bins \<and>
          map_each_iteration
            (map_keeps_zero beta num_measurements num_bins measurements spectrum
               nns_response normalized_response b)
            energy_correction beta cutoff error num_measurements num_bins measurements
            spectrum nns_response normalized_response mlem_ratio mlem_index st"
  then have sep: "map_separate energy_correction measurements spectrum nns_response
            normalized_response mlem_ratio"
    and two: "2 \<le> num_bins"
    and ok: "map_each_iteration
            (map_keeps_zero beta num_measurements num_bins measurements spectrum
               nns_response normalized_response b)
            energy_correction beta cutoff error num_measurements num_bins measurements
            spectrum nns_response normalized_response mlem_ratio mlem_index st"
    by simp_all
  have step: "spec_map_step energy_correction beta num_measurements num_bins measurements
                spectrum nns_response normalized_response mlem_ratio s spectrum ! b = Fin 0"
    if "dimensions num_measurements num_bins measurements spectrum nns_response
          normalized_response s"
      and "s spectrum ! b = Fin 0"
      and "map_keeps_zero beta num_measurements num_bins measurements spectrum nns_response
             normalized_response b s" for s
    by (rule map_step_keeps_zero [OF sep b that(2,3)])
  have inv: "map_each_iteration
           (\<lambda>s. dimensions num_measurements num_bins measurements spectrum nns_response
                  normalized_response s \<and> s spectrum ! b = Fin 0)
           energy_correction beta cutoff error num_measurements num_bins measurements
           spectrum nns_response normalized_response mlem_ratio mlem_index st \<and>
         (\<exists>k st'. map_loop energy_correction beta cutoff error num_measurements num_bins
                     measurements spectrum nns_response normalized_response mlem_ratio
                     mlem_index st
                   = Inr (k, st') \<and>
                   dimensions num_measurements num_bins measurements spectrum nns_response
                     normalized_response st' \<and> st' spectrum ! b = Fin 0)"
    using sep two step dims zero ok
    by (rule map_run_invariant
          [where I = "\<lambda>s. s spectrum ! b = Fin 0"
             and P = "map_keeps_zero beta num_measurements num_bins measurements spectrum
                        nns_response normalized_response b"])
  from inv [THEN conjunct1]
  show "map_each_iteration (\<lambda>s. s spectrum ! b = Fin 0)
            energy_correction beta cutoff error num_measurements num_bins measurements
            spectrum nns_response normalized_response mlem_ratio mlem_index st"
    by (rule map_each_iteration_mono) (rule conjunct2)
  from inv [THEN conjunct2]
  show "\<exists>k st'. map_loop energy_correction beta cutoff error num_measurements num_bins
                      measurements spectrum nns_response normalized_response mlem_ratio
                      mlem_index st
                    = Inr (k, st') \<and>
                    st' spectrum ! b = Fin 0"
    by blast
qed

theorem zero_entry_example:
  "dimensions 1 2 0 1 [2] 3
     ((\<lambda>a. [])(0 := [Fin 2], 1 := [Fin 0, Fin 1], 2 := [Fin 1, Fin 1],
                 3 := [Fin 1, Fin 1])) \<and>
   (0::nat) < nat 2 \<and>
   ((\<lambda>a. [])(0 := [Fin 2], 1 := [Fin 0, Fin 1], 2 := [Fin 1, Fin 1],
               3 := [Fin 1, Fin 1]) :: store) 1 ! 0 = Fin 0 \<and>
   mlem_separate 0 1 [2] 3 4 \<and>
   mlem_each_iteration (mlem_keeps_zero 1 2 0 1 [2] 3 0) 1 (Fin (1 / 100)) 1 2 0 1 [2] 3 4 0
     ((\<lambda>a. [])(0 := [Fin 2], 1 := [Fin 0, Fin 1], 2 := [Fin 1, Fin 1],
                 3 := [Fin 1, Fin 1])) \<and>
   (\<exists>k st'. mlem_loop 1 (Fin (1 / 100)) 1 2 0 1 [2] 3 4 0
               ((\<lambda>a. [])(0 := [Fin 2], 1 := [Fin 0, Fin 1], 2 := [Fin 1, Fin 1],
                           3 := [Fin 1, Fin 1]))
             = Inr (k, st') \<and> st' 1 ! 0 = Fin 0) \<and>
   map_separate 5 0 1 [2] 3 4 \<and> (2::int) \<le> 2 \<and>
   map_each_iteration (map_keeps_zero (Fin 1) 1 2 0 1 [2] 3 0) 5 (Fin 1) 1 (Fin (1 / 100))
     1 2 0 1 [2] 3 4 0
     ((\<lambda>a. [])(0 := [Fin 2], 1 := [Fin 0, Fin 1], 2 := [Fin 1, Fin 1],
                 3 := [Fin 1, Fin 1])) \<and>
   (\<exists>k st'. map_loop 5 (Fin 1) 1 (Fin (1 / 100)) 1 2 0 1 [2] 3 4 0
               ((\<lambda>a. [])(0 := [Fin 2], 1 := [Fin 0, Fin 1], 2 := [Fin 1, Fin 1],
                           3 := [Fin 1, Fin 1]))
             = Inr (k, st') \<and> st' 1 ! 0 = Fin 0)"
proof -
  let ?st = "(\<lambda>a. [])(0 := [Fin 2], 1 := [Fin 0, Fin 1], 2 := [Fin 1, Fin 1],
               3 := [Fin 1, Fin 1]) :: store"
  have sep: "mlem_separate 0 1 [2] 3 4" by (simp add: mlem_separate_def separate_def)
  have sep': "map_separate 5 0 1 [2] 3 4" by (simp add: map_separate_def separate_def)
  have two: "(2::int) \<le> 2" by simp
  have d0: "dimensions 1 2 0 1 [2] 3 ?st" by (simp add: dimensions_def)
  have b: "(0::nat) < nat 2" by simp
  have z: "?st 1 ! 0 = Fin 0" by simp
  have l0: "(0::int) < 1" by simp
  have r0: "ratio_of 1 2 0 1 [2] ?st = [Fin 2]" by (simp add: formulas)
  have c0: "correction_of 1 2 0 1 [2] ?st = [Fin 2, Fin 2]"
    unfolding correction_of_def r0 by (simp add: formulas)
  have k0: "mlem_keeps_zero 1 2 0 1 [2] 3 0 ?st"
    unfolding mlem_keeps_zero_def c0 by simp
  have k0': "map_keeps_zero (Fin 1) 1 2 0 1 [2] 3 0 ?st"
    unfolding map_keeps_zero_def c0 by (simp add: formulas)
  have e: "mlem_each_iteration (mlem_keeps_zero 1 2 0 1 [2] 3 0) 1 (Fin (1 / 100))
             1 2 0 1 [2] 3 4 0 ?st"
    by (subst mlem_each_iteration_step [OF l0 d0 sep])
       (intro conjI impI k0 mlem_each_iteration_done, simp)
  have e': "map_each_iteration (map_keeps_zero (Fin 1) 1 2 0 1 [2] 3 0) 5 (Fin 1) 1
              (Fin (1 / 100)) 1 2 0 1 [2] 3 4 0 ?st"
    by (subst map_each_iteration_step [OF l0 d0 sep' two])
       (intro conjI impI k0' map_each_iteration_done, simp)
  note T = zero_spectrum_entry_stays_zero [OF d0 b z, where cutoff = 1
      and error = "Fin (1 / 100)" and mlem_ratio = 4 and mlem_index = 0
      and energy_correction = 5 and beta = "Fin 1"]
  have m: "\<exists>k st'. mlem_loop 1 (Fin (1 / 100)) 1 2 0 1 [2] 3 4 0 ?st = Inr (k, st') \<and>
             st' 1 ! 0 = Fin 0"
    by (rule T [THEN conjunct1, rule_format, OF conjI [OF sep e], THEN conjunct2])
  have m': "\<exists>k st'. map_loop 5 (Fin 1) 1 (Fin (1 / 100)) 1 2 0 1 [2] 3 4 0 ?st
               = Inr (k, st') \<and> st' 1 ! 0 = Fin 0"
    by (rule T [THEN conjunct2, rule_format, OF conjI [OF sep' conjI [OF two e']],
          THEN conjunct2])
  show ?thesis
    by (intro conjI d0 b z sep e m sep' two e' m')
qed

text \<open>
  The claim as stated, "given non-negative correction and normalization terms", fails for a
  bin whose normalization is 0: all corrections and normalization entries below are
  non-negative (and for \<open>runMAP\<close> with \<open>beta = 0\<close> so are the denominators), and the
  update \<open>0 * 0 / 0\<close> turns the zero entry into NaN.
\<close>

theorem zero_entry_becomes_nan:
  "((\<lambda>a. [])(0 := [Fin 1], 1 := [Fin 0, Fin 1], 2 := [Fin 0, Fin 1],
               3 := [Fin 0, Fin 1]) :: store) 1 ! 0 = Fin 0 \<and>
   correction_of 1 2 0 1 [2]
     ((\<lambda>a. [])(0 := [Fin 1], 1 := [Fin 0, Fin 1], 2 := [Fin 0, Fin 1], 3 := [Fin 0, Fin 1]))
   = [Fin 0, Fin 1] \<and>
   list_all (dle (Fin 0)) [Fin 0, Fin 1] \<and>
   runMLEM 1 (Fin (1 / 100)) 1 2 0 1 [2] 3 4
     ((\<lambda>a. [])(0 := [Fin 1], 1 := [Fin 0, Fin 1], 2 := [Fin 0, Fin 1], 3 := [Fin 0, Fin 1]))
   = Inr (0, (\<lambda>a. [])(0 := [Fin 1], 1 := [Fin 0, Fin 1], 2 := [Fin 0, Fin 1],
                3 := [Fin 0, Fin 1], 4 := [Fin 1], 1 := [NaN, Fin 1])) \<and>
   runMAP 5 (Fin 0) 1 (Fin (1 / 100)) 1 2 0 1 [2] 3 4
     ((\<lambda>a. [])(0 := [Fin 1], 1 := [Fin 0, Fin 1], 2 := [Fin 0, Fin 1], 3 := [Fin 0, Fin 1]))
   = Inr (0, (\<lambda>a. [])(0 := [Fin 1], 1 := [Fin 0, Fin 1], 2 := [Fin 0, Fin 1],
                3 := [Fin 0, Fin 1], 4 := [Fin 1], 5 := [Fin 0, Fin 0],
                1 := [NaN, Fin 1])) \<and>
   [NaN, Fin 1] ! 0 \<noteq> Fin 0"
proof -
  let ?st = "(\<lambda>a. [])(0 := [Fin 1], 1 := [Fin 0, Fin 1], 2 := [Fin 0, Fin 1],
               3 := [Fin 0, Fin 1]) :: store"
  let ?st1 = "?st(4 := [Fin 1], 1 := [NaN, Fin 1])"
  let ?st2 = "?st(4 := [Fin 1], 5 := [Fin 0, Fin 0], 1 := [NaN, Fin 1])"
  have sep: "mlem_separate 0 1 [2] 3 4" by (simp add: mlem_separate_def separate_def)
  have sep': "map_separate 5 0 1 [2] 3 4" by (simp add: map_separate_def separate_def)
  have two: "(2::int) \<le> 2" by simp
  have d0: "dimensions 1 2 0 1 [2] 3 ?st" by (simp add: dimensions_def)
  have r0: "ratio_of 1 2 0 1 [2] ?st = [Fin 1]" by (simp add: formulas)
  have c0: "correction_of 1 2 0 1 [2] ?st = [Fin 0, Fin 1]"
    unfolding correction_of_def r0 by (simp add: formulas)
  have s0: "spec_mlem_step 1 2 0 1 [2] 3 4 ?st = ?st1"
    unfolding spec_mlem_step_def r0 c0 by (simp add: formulas)
  have s0': "spec_map_step 5 (Fin 0) 1 2 0 1 [2] 3 4 ?st = ?st2"
    unfolding spec_map_step_def r0 c0 by (simp add: formulas)
  have o0: "\<not> list_ex (outside_tolerance (Fin (1 / 100))) [Fin 1]"
    by (simp add: outside_tolerance_def dge_def dsub_def)
  have l0: "(0::int) < 1" by simp
  note e0 = mlem_loop_step [OF l0 d0 sep, where error = "Fin (1 / 100)",
      unfolded r0 s0 if_not_P [OF o0]]
  note e0' = map_loop_step [OF l0 d0 sep' two, where error = "Fin (1 / 100)"
      and beta = "Fin 0", unfolded r0 s0' if_not_P [OF o0]]
  have z: "?st 1 ! 0 = Fin 0" by simp
  have nn: "list_all (dle (Fin 0)) [Fin 0, Fin 1]" by simp
  have ne: "[NaN, Fin 1] ! 0 \<noteq> Fin 0" by simp
  show ?thesis
    unfolding runMLEM_def runMAP_def e0 e0' c0
    by (intro conjI refl z nn ne)
qed

subsection \<open>normalizeResponse\<close>

text \<open>
  Claim C7. For a response matrix with \<open>num_measurements\<close> rows of \<open>num_bins\<close> entries each,
  \<open>normalizeResponse\<close> returns a vector of length \<open>num_bins\<close> whose entry \<open>i\<close> is the sum
  over all measurements \<open>m\<close> of \<open>ResponseMatrix[m][i]\<close>, and it leaves the store as it found
  it. The example that follows is the matrix of the rows \<open>[1,2]\<close> and \<open>[3,4]\<close>, with the
  result \<open>[4, 6]\<close>.
\<close>

theorem normalizeResponse_returns_column_sums:
  assumes "int (length system_response) = num_measurements"
    and "list_all (\<lambda>row. int (length (st row)) = num_bins) system_response"
    and "0 \<le> num_bins"
  shows "\<exists>v. normalizeResponse num_bins num_measurements system_response st = Inr (v, st) \<and>
           int (length v) = num_bins \<and>
           v = spec_column_sums (matrix st system_response)
                 (nat num_measurements) (nat num_bins) \<and>
           (\<forall>i < nat num_bins.
              v ! i = dsum (map (\<lambda>m. st (system_response ! m) ! i)
                              [0..<nat num_measurements]))"
proof -
  let ?v = "spec_column_sums (matrix st system_response) (nat num_measurements) (nat num_bins)"
  have entry: "?v ! i = dsum (map (\<lambda>m. st (system_response ! m) ! i)
                              [0..<nat num_measurements])"
    if "i < nat num_bins" for i
  proof -
    have "map (\<lambda>m. matrix st system_response ! m ! i) [0..<nat num_measurements]
            = map (\<lambda>m. st (system_response ! m) ! i) [0..<nat num_measurements]"
      using assms(1) by (auto simp: matrix_def)
    moreover have "?v ! i = dsum (map (\<lambda>m. matrix st system_response ! m ! i)
                                    [0..<nat num_measurements])"
      using that by (simp add: spec_column_sums_def)
    ultimately show ?thesis by (simp only:)
  qed
  have "int (length ?v) = num_bins"
    using assms(3) by (simp add: spec_column_sums_def)
  with entry show ?thesis
    using normalizeResponse_column_sums [OF assms(1,2)] by blast
qed

theorem normalizeResponse_example:
  "normalizeResponse 2 2 [0, 1] ((\<lambda>a. [])(0 := [Fin 1, Fin 2], 1 := [Fin 3, Fin 4]))
     = Inr ([Fin 4, Fin 6], (\<lambda>a. [])(0 := [Fin 1, Fin 2], 1 := [Fin 3, Fin 4]))"
proof -
  let ?st = "(\<lambda>a. [])(0 := [Fin 1, Fin 2], 1 := [Fin 3, Fin 4]) :: store"
  have h1: "int (length [0::nat, 1]) = 2" by simp
  have h2: "list_all (\<lambda>row. int (length (?st row)) = 2) [0, 1]" by simp
  have h3: "(0::int) \<le> 2" by simp
  have two: "[0..<2] = [0, Suc 0]" by (simp add: upt_rec numeral_2_eq_2)
  obtain v where v: "normalizeResponse 2 2 [0, 1] ?st = Inr (v, ?st)"
      "v = spec_column_sums (matrix ?st [0, 1]) (nat 2) (nat 2)"
    using normalizeResponse_returns_column_sums
      [where st = ?st and system_response = "[0, 1]" and num_bins = 2
         and num_measurements = 2, OF h1 h2 h3]
    by blast
  have "v = [Fin 4, Fin 6]"
    unfolding v(2) by (simp add: spec_column_sums_def matrix_def two dsum_def)
  with v(1) show ?thesis by simp
qed

subsection \<open>The energy correction with fewer than two bins\<close>

text \<open>
  Claim C8. The energy correction needs \<open>num_bins \<ge> 2\<close>: every index of \<open>spectrum\<close> it
  reads, \<open>spectrum[1]\<close> and \<open>spectrum[num_bins-2]\<close> included, must lie in
  \<open>0 .. num_bins-1\<close>. The code has no guard for fewer bins. On the single-bin call of the
  specification's examples (response matrix of the one entry 1, measurement 5, spectrum 1, normalization 1,
  tolerance 0.01, cutoff 50) \<open>runMAP\<close> reads \<open>spectrum[1]\<close> of a vector of length 1, which
  is out of range, where \<open>runMLEM\<close> returns after its second iteration.
\<close>

theorem runMAP_single_bin_out_of_range:
  "runMAP 5 (Fin 1) 50 (Fin (1 / 100)) 1 1 0 1 [2] 3 4
     ((\<lambda>a. [])(0 := [Fin 5], 1 := [Fin 1], 2 := [Fin 1], 3 := [Fin 1]))
   = Inl OutOfRange \<and>
   rd ((\<lambda>a. [])(0 := [Fin 5], 1 := [Fin 1], 2 := [Fin 1], 3 := [Fin 1])) 1 1
   = Inl OutOfRange \<and>
   runMLEM 50 (Fin (1 / 100)) 1 1 0 1 [2] 3 4
     ((\<lambda>a. [])(0 := [Fin 5], 1 := [Fin 1], 2 := [Fin 1], 3 := [Fin 1]))
   = Inr (1, (\<lambda>a. [])(0 := [Fin 5], 1 := [Fin 1], 2 := [Fin 1], 3 := [Fin 1],
                4 := [Fin 5], 1 := [Fin 5], 4 := [Fin 1], 1 := [Fin 5]))"
proof -
  let ?st = "(\<lambda>a. [])(0 := [Fin 5], 1 := [Fin 1], 2 := [Fin 1], 3 := [Fin 1]) :: store"
  have sep: "map_separate 5 0 1 [2] 3 4" by (simp add: map_separate_def separate_def)
  have d0: "dimensions 1 1 0 1 [2] 3 ?st" by (simp add: dimensions_def)
  have small: "(1::int) < 2" by simp
  have pos: "(0::int) < 50" by simp
  have "runMAP 5 (Fin 1) 50 (Fin (1 / 100)) 1 1 0 1 [2] 3 4 ?st = Inl OutOfRange"
    by (rule runMAP_needs_two_bins [OF pos d0 sep small])
  moreover have "rd ?st 1 1 = Inl OutOfRange"
    by (simp add: rd_def vec_at_def)
  ultimately show ?thesis
    using single_bin_run by (simp only: simp_thms)
qed

subsection \<open>What runMLEM and runMAP leave unchanged\<close>

text \<open>
  Claim C9. A call of \<open>runMLEM\<close> changes no vector but the spectrum and the ratio vector,
  and a call of \<open>runMAP\<close> none but these and the energy correction vector: every other
  object of the store is the same at the start of each iteration and when the call
  returns. In particular the measurements, the normalization vector and the rows of the
  response matrix are unchanged when they are not themselves the written objects.
\<close>

theorem only_the_output_vectors_are_modified:
  "(\<forall>k st'. runMLEM cutoff error num_measurements num_bins measurements spectrum
              nns_response normalized_response mlem_ratio st = Inr (k, st') \<longrightarrow>
      (\<forall>a. a \<noteq> spectrum \<and> a \<noteq> mlem_ratio \<longrightarrow> st' a = st a) \<and>
      (mlem_separate measurements spectrum nns_response normalized_response mlem_ratio \<longrightarrow>
         st' measurements = st measurements \<and>
         st' normalized_response = st normalized_response \<and>
         matrix st' nns_response = matrix st nns_response)) \<and>
   mlem_each_iteration (\<lambda>u. \<forall>a. a \<noteq> spectrum \<and> a \<noteq> mlem_ratio \<longrightarrow> u a = st a)
     cutoff error num_measurements num_bins measurements spectrum nns_response
     normalized_response mlem_ratio 0 st \<and>
   (\<forall>k st'. runMAP energy_correction beta cutoff error num_measurements num_bins
              measurements spectrum nns_response normalized_response mlem_ratio st
            = Inr (k, st') \<longrightarrow>
      (\<forall>a. a \<noteq> spectrum \<and> a \<noteq> mlem_ratio \<and> a \<noteq> energy_correction \<longrightarrow> st' a = st a) \<and>
      (map_separate energy_correction measurements spectrum nns_response
         normalized_response mlem_ratio \<longrightarrow>
         st' measurements = st measurements \<and>
         st' normalized_response = st normalized_response \<and>
         matrix st' nns_response = matrix st nns_response)) \<and>
   map_each_iteration
     (\<lambda>u. \<forall>a. a \<noteq> spectrum \<and> a \<noteq> mlem_ratio \<and> a \<noteq> energy_correction \<longrightarrow> u a = st a)
     energy_correction beta cutoff error num_measurements num_bins measurements spectrum
     nns_response normalized_response mlem_ratio 0 st"
proof (intro conjI allI impI)
  fix k st' a
  assume "runMLEM cutoff error num_measurements num_bins measurements spectrum
            nns_response normalized_response mlem_ratio st = Inr (k, st')"
    and "a \<noteq> spectrum \<and> a \<noteq> mlem_ratio"
  then show "st' a = st a"
    unfolding runMLEM_def by (auto dest: mlem_loop_frame)
next
  fix k st'
  assume run: "runMLEM cutoff error num_measurements num_bins measurements spectrum
            nns_response normalized_response mlem_ratio st = Inr (k, st')"
    and sep: "mlem_separate measurements spectrum nns_response normalized_response mlem_ratio"
  note s = mlem_separateD [OF sep]
  have f: "st' a = st a" if "a \<noteq> spectrum" "a \<noteq> mlem_ratio" for a
    using run that unfolding runMLEM_def by (auto dest: mlem_loop_frame)
  show "st' measurements = st measurements" using f s by metis
  show "st' normalized_response = st normalized_response" using f s by metis
  show "matrix st' nns_response = matrix st nns_response"
    unfolding matrix_def using f s by (intro map_cong refl) metis
next
  show "mlem_each_iteration (\<lambda>u. \<forall>a. a \<noteq> spectrum \<and> a \<noteq> mlem_ratio \<longrightarrow> u a = st a)
     cutoff error num_measurements num_bins measurements spectrum nns_response
     normalized_response mlem_ratio 0 st"
    by (rule mlem_each_iteration_frame) simp
next
  fix k st' a
  assume "runMAP energy_correction beta cutoff error num_measurements num_bins
              measurements spectrum nns_response normalized_response mlem_ratio st
            = Inr (k, st')"
    and "a \<noteq> spectrum \<and> a \<noteq> mlem_ratio \<and> a \<noteq> energy_correction"
  then show "st' a = st a"
    unfolding runMAP_def by (auto dest: map_loop_frame)
next
  fix k st'
  assume run: "runMAP energy_correction beta cutoff error num_measurements num_bins
              measurements spectrum nns_response normalized_response mlem_ratio st
            = Inr (k, st')"
    and sep: "map_separate energy_correction measurements spectrum nns_response
         normalized_response mlem_ratio"
  note m = map_separateD [OF sep]
  note s = mlem_separateD [OF m(1)]
  have f: "st' a = st a" if "a \<noteq> spectrum" "a \<noteq> mlem_ratio" "a \<noteq> energy_correction" for a
    using run that unfolding runMAP_def by (auto dest: map_loop_frame)
  show "st' measurements = st measurements" using f s m by metis
  show "st' normalized_response = st normalized_response" using f s m by metis
  show "matrix st' nns_response = matrix st nns_response"
    unfolding matrix_def using f s m by (intro map_cong refl) metis
next
  show "map_each_iteration
     (\<lambda>u. \<forall>a. a \<noteq> spectrum \<and> a \<noteq> mlem_ratio \<and> a \<noteq> energy_correction \<longrightarrow> u a = st a)
     energy_correction beta cutoff error num_measurements num_bins measurements spectrum
     nns_response normalized_response mlem_ratio 0 st"
    by (rule map_each_iteration_frame) simp
qed

theorem output_vectors_example:
  "mlem_separate 0 1 [2] 3 4 \<and>
   runMLEM 50 (Fin (1 / 100)) 1 1 0 1 [2] 3 4
     ((\<lambda>a. [])(0 := [Fin 5], 1 := [Fin 1], 2 := [Fin 1], 3 := [Fin 1]))
   = Inr (1, (\<lambda>a. [])(0 := [Fin 5], 1 := [Fin 1], 2 := [Fin 1], 3 := [Fin 1],
                4 := [Fin 5], 1 := [Fin 5], 4 := [Fin 1], 1 := [Fin 5])) \<and>
   ((\<lambda>a. [])(0 := [Fin 5], 1 := [Fin 1], 2 := [Fin 1], 3 := [Fin 1],
                4 := [Fin 5], 1 := [Fin 5], 4 := [Fin 1], 1 := [Fin 5]) :: store) 0 = [Fin 5] \<and>
   ((\<lambda>a. [])(0 := [Fin 5], 1 := [Fin 1], 2 := [Fin 1], 3 := [Fin 1],
                4 := [Fin 5], 1 := [Fin 5], 4 := [Fin 1], 1 := [Fin 5]) :: store) 3 = [Fin 1] \<and>
   matrix ((\<lambda>a. [])(0 := [Fin 5], 1 := [Fin 1], 2 := [Fin 1], 3 := [Fin 1],
                4 := [Fin 5], 1 := [Fin 5], 4 := [Fin 1], 1 := [Fin 5])) [2] = [Fin 1] # [] \<and>
   map_separate 5 0 1 [2] 3 4 \<and>
   runMAP 5 (Fin 1) 3 (Fin (1 / 100)) 1 2 0 1 [2] 3 4
     ((\<lambda>a. [])(0 := [Fin 4], 1 := [Fin 1, Fin 3], 2 := [Fin 1, Fin 1], 3 := [Fin 1, Fin 1]))
   = Inr (0, (\<lambda>a. [])(0 := [Fin 4], 1 := [Fin 1, Fin 3], 2 := [Fin 1, Fin 1],
                3 := [Fin 1, Fin 1],
                4 := [Fin 1], 5 := [Fin 4, Fin 4], 1 := [Fin (1 / 5), Fin (3 / 5)])) \<and>
   ((\<lambda>a. [])(0 := [Fin 4], 1 := [Fin 1, Fin 3], 2 := [Fin 1, Fin 1],
                3 := [Fin 1, Fin 1],
                4 := [Fin 1], 5 := [Fin 4, Fin 4], 1 := [Fin (1 / 5), Fin (3 / 5)]) :: store) 0
     = [Fin 4] \<and>
   ((\<lambda>a. [])(0 := [Fin 4], 1 := [Fin 1, Fin 3], 2 := [Fin 1, Fin 1],
                3 := [Fin 1, Fin 1],
                4 := [Fin 1], 5 := [Fin 4, Fin 4], 1 := [Fin (1 / 5), Fin (3 / 5)]) :: store) 3
     = [Fin 1, Fin 1] \<and>
   matrix ((\<lambda>a. [])(0 := [Fin 4], 1 := [Fin 1, Fin 3], 2 := [Fin 1, Fin 1],
                3 := [Fin 1, Fin 1],
                4 := [Fin 1], 5 := [Fin 4, Fin 4], 1 := [Fin (1 / 5), Fin (3 / 5)])) [2]
     = [Fin 1, Fin 1] # []"
proof -
  let ?a = "(\<lambda>a. [])(0 := [Fin 5], 1 := [Fin 1], 2 := [Fin 1], 3 := [Fin 1]) :: store"
  let ?a' = "?a(4 := [Fin 5], 1 := [Fin 5], 4 := [Fin 1], 1 := [Fin 5])"
  let ?b = "(\<lambda>a. [])(0 := [Fin 4], 1 := [Fin 1, Fin 3], 2 := [Fin 1, Fin 1],
                3 := [Fin 1, Fin 1]) :: store"
  let ?b' = "?b(4 := [Fin 1], 5 := [Fin 4, Fin 4], 1 := [Fin (1 / 5), Fin (3 / 5)])"
  have sa: "mlem_separate 0 1 [2] 3 4" by (simp add: mlem_separate_def separate_def)
  have sb: "map_separate 5 0 1 [2] 3 4" by (simp add: map_separate_def separate_def)
  have "?a' 0 = ?a 0 \<and> ?a' 3 = ?a 3 \<and> matrix ?a' [2] = matrix ?a [2]"
    using only_the_output_vectors_are_modified
      [where st = ?a and cutoff = 50 and error = "Fin (1 / 100)" and num_measurements = 1
        and num_bins = 1 and measurements = 0 and spectrum = 1 and nns_response = "[2]"
        and normalized_response = 3 and mlem_ratio = 4,
        THEN conjunct1, rule_format, OF single_bin_run, THEN conjunct2, rule_format, OF sa] .
  moreover have "?b' 0 = ?b 0 \<and> ?b' 3 = ?b 3 \<and> matrix ?b' [2] = matrix ?b [2]"
    using only_the_output_vectors_are_modified
      [where st = ?b and cutoff = 3 and error = "Fin (1 / 100)" and num_measurements = 1
        and num_bins = 2 and measurements = 0 and spectrum = 1 and nns_response = "[2]"
        and normalized_response = 3 and mlem_ratio = 4 and energy_correction = 5
        and beta = "Fin 1",
        THEN conjunct2, THEN conjunct2, THEN conjunct1, rule_format, OF two_bin_map_run,
        THEN conjunct2, rule_format, OF sb] .
  moreover have "?a 0 = [Fin 5]" "?a 3 = [Fin 1]" "matrix ?a [2] = [Fin 1] # []"
    "?b 0 = [Fin 4]" "?b 3 = [Fin 1, Fin 1]" "matrix ?b [2] = [Fin 1, Fin 1] # []"
    by (simp_all add: matrix_def)
  ultimately show ?thesis
    using sa sb single_bin_run two_bin_map_run by (simp only: simp_thms)
qed

subsection \<open>A cutoff that allows no iteration\<close>

text \<open>
  Claim C10. For a cutoff less than or equal to 0, \<open>runMLEM\<close> and \<open>runMAP\<close> return 0 and
  the store they were given: the spectrum, the ratio vector and the energy correction
  vector are as they were passed in, not even cleared.
\<close>

theorem zero_cutoff_returns_at_once:
  assumes "cutoff \<le> 0"
  shows "runMLEM cutoff error num_measurements num_bins measurements spectrum nns_response
           normalized_response mlem_ratio st = Inr (0, st) \<and>
         runMAP energy_correction beta cutoff error num_measurements num_bins measurements
           spectrum nns_response normalized_response mlem_ratio st = Inr (0, st)"
  using assms by (simp add: runMLEM_def runMAP_def mlem_loop_done map_loop_done)

theorem zero_cutoff_example:
  "(-1::int) \<le> 0 \<and>
   runMLEM (-1) (Fin (1/100)) 1 1 0 1 [2] 3 4
       ((\<lambda>a. [])(0 := [Fin 5], 1 := [Fin 1], 2 := [Fin 1], 3 := [Fin 1], 4 := [Fin 7]))
     = Inr (0, (\<lambda>a. [])(0 := [Fin 5], 1 := [Fin 1], 2 := [Fin 1], 3 := [Fin 1], 4 := [Fin 7])) \<and>
   runMAP 5 (Fin 1) (-1) (Fin (1/100)) 1 1 0 1 [2] 3 4
       ((\<lambda>a. [])(0 := [Fin 5], 1 := [Fin 1], 2 := [Fin 1], 3 := [Fin 1], 4 := [Fin 7]))
     = Inr (0, (\<lambda>a. [])(0 := [Fin 5], 1 := [Fin 1], 2 := [Fin 1], 3 := [Fin 1], 4 := [Fin 7]))"
proof -
  have h: "(-1::int) \<le> 0" by simp
  show ?thesis
    using h zero_cutoff_returns_at_once [OF h] by simp
qed

end
